theory Spec2Isabelle
  imports Main "HOL-Library.Word" "HOL-Library.DAList"
begin

section \<open>Values of the platform\<close>

text \<open>
  The library under verification is \<^verbatim>\<open>src/amqp-ts.ts\<close>, a facade over amqplib.
  Objects are records, object identity is a number handed out by the world, and every
  effect of the code (a call into amqplib, a log line, a promise reaction) is written into
  the world that the functions pass along. JavaScript strings are \<open>string\<close>; the bytes of a
  \<^verbatim>\<open>Buffer\<close> are \<open>8 word list\<close>, so the two are never confused.
\<close>

type_synonym ident = nat

type_synonym Buffer = "8 word list"

text \<open>A thrown or reported error; \<open>message\<close> is \<^verbatim>\<open>err.message\<close>.\<close>

datatype error = Error string | TypeError string | SyntaxError string | IllegalOperationError string

fun message :: "error \<Rightarrow> string" where
  "message (Error m) = m"
| "message (TypeError m) = m"
| "message (SyntaxError m) = m"
| "message (IllegalOperationError m) = m"

text \<open>
  A value of type \<^verbatim>\<open>any\<close> as the code tells values apart: \<^verbatim>\<open>undefined\<close>,
  \<^verbatim>\<open>typeof content === "string"\<close> (\<open>is_string\<close>), \<^verbatim>\<open>content instanceof Buffer\<close>
  (\<open>is_Buffer\<close>), and every other value (\<open>'j\<close>).
\<close>

datatype 'j js_any =
    AUndefined
  | is_string: AString (the_string: string)
  | is_Buffer: ABuffer (the_Buffer: Buffer)
  | AOther 'j

text \<open>
  The functions of the platform that the code calls and whose source is not part of the
  repository: \<^verbatim>\<open>new Buffer(string)\<close> (UTF-8 encoding), \<^verbatim>\<open>buffer.toString()\<close> (UTF-8
  decoding), \<^verbatim>\<open>JSON.stringify\<close> (\<open>None\<close> when the result is \<^verbatim>\<open>undefined\<close>) and
  \<^verbatim>\<open>JSON.parse\<close> (which throws a SyntaxError on malformed text). They are parameters of
  every function that uses them.
\<close>

record 'j runtime =
  Buffer_of_string :: "string \<Rightarrow> Buffer"
  Buffer_toString :: "Buffer \<Rightarrow> string"
  JSON_stringify :: "'j js_any \<Rightarrow> string option"
  JSON_parse :: "string \<Rightarrow> error + 'j js_any"

text \<open>\<^verbatim>\<open>JSON.stringify(content)\<close>; of \<^verbatim>\<open>undefined\<close> it is \<^verbatim>\<open>undefined\<close> on every platform.\<close>

definition JSON_stringify_of :: "'j runtime \<Rightarrow> 'j js_any \<Rightarrow> string option" where
  "JSON_stringify_of rt c = (case c of AUndefined \<Rightarrow> None | _ \<Rightarrow> JSON_stringify rt c)"

text \<open>\<^verbatim>\<open>new Buffer(x)\<close> for \<^verbatim>\<open>x = JSON.stringify(content)\<close>: it throws when \<^verbatim>\<open>x\<close> is undefined.\<close>

definition new_Buffer :: "'j runtime \<Rightarrow> string option \<Rightarrow> error + Buffer" where
  "new_Buffer rt x =
     (case x of
        None \<Rightarrow> Inl (TypeError ''must start with number, buffer, array or string'')
      | Some s \<Rightarrow> Inr (Buffer_of_string rt s))"

text \<open>
  Message properties and publish options (one object in the code). The fields the code
  reads or writes are named; \<open>headers\<close> stands for all others.
\<close>

record Properties =
  contentType :: "string option"
  replyTo :: "string option"
  headers :: "(string \<times> string) list"

definition no_properties :: Properties where
  "no_properties = \<lparr>contentType = None, replyTo = None, headers = []\<rparr>"

text \<open>\<^verbatim>\<open>options.contentType || "application/json"\<close>: undefined and the empty string are falsy.\<close>

definition contentType_or :: "string option \<Rightarrow> string \<Rightarrow> string" where
  "contentType_or c d = (case c of None \<Rightarrow> d | Some s \<Rightarrow> if s = [] then d else s)"

text \<open>A message as amqplib delivers it (\<^verbatim>\<open>AmqpLib.Message\<close>).\<close>

record AmqpLib_Message =
  raw_content :: Buffer
  raw_fields :: string
  raw_properties :: Properties

section \<open>Message: content\<close>

record Message =
  M_content :: "Buffer option"
  M_fields :: "string option"
  M_properties :: Properties
  M_channel :: "ident option"
  M_message :: "AmqpLib_Message option"

definition Message_setContent :: "'j runtime \<Rightarrow> 'j js_any \<Rightarrow> Message \<Rightarrow> error + Message" where
  "Message_setContent rt c m =
     (if is_string c then Inr (m\<lparr>M_content := Some (Buffer_of_string rt (the_string c))\<rparr>)
      else if \<not> is_Buffer c then
        (case new_Buffer rt (JSON_stringify_of rt c) of
           Inl e \<Rightarrow> Inl e
         | Inr b \<Rightarrow>
             Inr (m\<lparr>M_content := Some b,
                    M_properties := (M_properties m)\<lparr>contentType := Some ''application/json''\<rparr>\<rparr>))
      else Inr (m\<lparr>M_content := Some (the_Buffer c)\<rparr>))"

definition new_Message :: "'j runtime \<Rightarrow> 'j js_any \<Rightarrow> Properties \<Rightarrow> error + Message" where
  "new_Message rt c options =
     (let m = \<lparr>M_content = None, M_fields = None, M_properties = options,
                M_channel = None, M_message = None\<rparr>
      in if c \<noteq> AUndefined then Message_setContent rt c m else Inr m)"

text \<open>\<^verbatim>\<open>getContent\<close>: \<^verbatim>\<open>this.content.toString()\<close> throws when the message has no content.\<close>

definition Message_getContent :: "'j runtime \<Rightarrow> Message \<Rightarrow> error + 'j js_any" where
  "Message_getContent rt m =
     (case M_content m of
        None \<Rightarrow> Inl (TypeError ''Cannot read property toString of undefined'')
      | Some b \<Rightarrow>
          (let c = Buffer_toString rt b
           in if contentType (M_properties m) = Some ''application/json''
              then JSON_parse rt c
              else Inr (AString c)))"

section \<open>Queue: packing and unpacking content\<close>

text \<open>
  \<^verbatim>\<open>_packMessageContent(content, options)\<close> returns the buffer and mutates \<^verbatim>\<open>options\<close>;
  the model returns both.
\<close>

definition Queue_packMessageContent ::
  "'j runtime \<Rightarrow> 'j js_any \<Rightarrow> Properties \<Rightarrow> error + (Buffer \<times> Properties)" where
  "Queue_packMessageContent rt c options =
     (if is_string c then Inr (Buffer_of_string rt (the_string c), options)
      else if \<not> is_Buffer c then
        (case new_Buffer rt (JSON_stringify_of rt c) of
           Inl e \<Rightarrow> Inl e
         | Inr b \<Rightarrow> Inr (b, options\<lparr>contentType := Some ''application/json''\<rparr>))
      else Inr (the_Buffer c, options))"

definition Queue_unpackMessageContent :: "'j runtime \<Rightarrow> AmqpLib_Message \<Rightarrow> error + 'j js_any" where
  "Queue_unpackMessageContent rt msg =
     (let c = Buffer_toString rt (raw_content msg)
      in if contentType (raw_properties msg) = Some ''application/json''
         then JSON_parse rt c
         else Inr (AString c))"

section \<open>Exchange.publish: the inline normalisation of the content\<close>

definition Exchange_publish_content ::
  "'j runtime \<Rightarrow> 'j js_any \<Rightarrow> Properties \<Rightarrow> error + (Buffer \<times> Properties)" where
  "Exchange_publish_content rt c options =
     (if is_string c then Inr (Buffer_of_string rt (the_string c), options)
      else if \<not> is_Buffer c then
        (case new_Buffer rt (JSON_stringify_of rt c) of
           Inl e \<Rightarrow> Inl e
         | Inr b \<Rightarrow>
             Inr (b, options\<lparr>contentType :=
                      Some (contentType_or (contentType options) ''application/json'')\<rparr>))
      else Inr (the_Buffer c, options))"

section \<open>The objects of the facade\<close>

text \<open>
  One \<^verbatim>\<open>Connection\<close> and the exchanges, queues and bindings declared on it. A field that
  the code can leave or make \<^verbatim>\<open>undefined\<close> is an option. A registry is a JavaScript
  object used as a dictionary: one value per key, the keys in insertion order (the code
  iterates over them), so it is an association list with distinct keys (\<open>alist\<close>). The
  back reference \<^verbatim>\<open>_connection\<close> of an entity is the one connection of the
  world.
\<close>

record ReconnectStrategy =
  retries :: int
  interval :: nat

record Connection =
  C_initialized :: "ident option"
  C_url :: string
  C_reconnectStrategy :: ReconnectStrategy
  C_connectedBefore :: bool
  C_connection :: "ident option"
  C_rebuilding :: bool
  C_exchanges :: "(string, ident) alist"
  C_queues :: "(string, ident) alist"
  C_bindings :: "(string, ident) alist"

record DeclarationOptions =
  durable :: "bool option"
  autoDelete :: "bool option"
  exclusive :: "bool option"

record Exchange =
  E_initialized :: "ident option"
  E_channel :: "ident option"
  E_name :: string
  E_type :: "string option"
  E_options :: "DeclarationOptions option"

record ConsumerOptions =
  rawMessage :: "bool option"
  noAck :: "bool option"

text \<open>
  The user's consumer callback: what it is called with (the decoded payload, the raw
  message and channel, or a \<^verbatim>\<open>Message\<close>) and whether it returns or throws.
\<close>

datatype 'j consumer_arg =
    Payload "'j js_any"
  | RawMessage "AmqpLib_Message option" "ident option"
  | Wrapped Message

datatype 'j consumer_result = Returns "'j js_any" | Throws error

record 'j Queue =
  Q_initialized :: "ident option"
  Q_channel :: "ident option"
  Q_name :: string
  Q_options :: "DeclarationOptions option"
  Q_consumer :: "('j consumer_arg \<Rightarrow> 'j consumer_result) option"
  Q_isStartConsumer :: bool
  Q_rawConsumer :: bool
  Q_consumerOptions :: "ConsumerOptions option"
  Q_consumerTag :: "string option"
  Q_consumerInitialized :: "ident option"

datatype destination = ToExchange ident | ToQueue ident

record Binding =
  B_initialized :: "ident option"
  B_source :: ident
  B_destination :: destination
  B_pattern :: string
  B_args :: "(string \<times> string) list"

section \<open>Promises, pending callbacks and the world\<close>

text \<open>
  A closure that the code hands to \<^verbatim>\<open>then\<close> or \<^verbatim>\<open>catch\<close>, by the place that creates it
  and the variables it captures.
\<close>

datatype 'j callback =
    CbConnectionCatch
  | CbExchangeInitialize ident ident
  | CbQueueInitialize ident ident
  | CbBindingInitialize ident ident
  | CbInitializeConsumer ident ident
  | CbRebuildAll ident
  | CbPromiseAll ident
  | CbExchangePublish ident Buffer string Properties
  | CbExchangeRetransmit string Buffer string Properties
  | CbQueueSendMessage ident Buffer Properties
  | CbQueueRetransmit string Buffer Properties
  | CbMessageSendMessage Message destination string string
  | CbMessageRetransmit Message destination string string
  | CbQueueProcessRpc ident ident "'j js_any"
  | CbStopConsumer ident ident
  | CbBindingDelete ident ident
  | CbExchangeDelete1 ident ident
  | CbExchangeDelete2 ident ident
  | CbExchangeClose1 ident ident
  | CbExchangeClose2 ident ident
  | CbQueueDelete1 ident ident
  | CbQueueDelete2 ident ident
  | CbQueueClose1 ident ident
  | CbQueueClose2 ident ident

datatype 'j pstate = Pending | Fulfilled "'j js_any" | Rejected error

record 'j promise =
  P_state :: "'j pstate"
  P_waiting :: "'j callback list"

text \<open>
  A node-style callback \<^verbatim>\<open>(err, ok) => ...\<close> that the code has handed to amqplib or to
  \<^verbatim>\<open>setTimeout\<close> and that has not been called yet.
\<close>

datatype consumerFunction = processedMsgConsumer | rawMsgConsumer | activateConsumerWrapper

datatype 'j request =
    ReqConnect nat ident
  | ReqTimeout nat ident
  | ReqCreateChannelExchange ident ident
  | ReqAssertExchange ident ident
  | ReqCreateChannelQueue ident ident
  | ReqAssertQueue ident ident
  | ReqBind ident ident
  | ReqUnbind ident ident
  | ReqConsume ident ident ident consumerFunction
  | ReqCancel ident ident
  | ReqExchangeRpcConsume ident ident ident "'j js_any" string
  | ReqQueueRpcConsume ident ident ident "'j js_any"
  | ReqDeleteExchange ident ident
  | ReqExchangeDeleteClose ident ident
  | ReqExchangeClose ident ident
  | ReqDeleteQueue ident ident
  | ReqQueueDeleteClose ident ident
  | ReqQueueClose ident ident

text \<open>What amqplib answers: \<^verbatim>\<open>err\<close>, or \<^verbatim>\<open>ok\<close> (with the consumer tag of a consume-ok).\<close>

datatype reply = Failed error | Succeeded string

text \<open>
  A message callback registered with \<^verbatim>\<open>channel.consume\<close>: the channel, the object
  whose method made the call and what the closure captures.
\<close>

datatype subscription =
    SubQueue ident ident consumerFunction
  | SubExchangeRpc ident ident ident string
  | SubQueueRpc ident ident ident string

text \<open>The calls into amqplib and the platform, in the order the code makes them.\<close>

datatype libcall =
    Connect string
  | SetTimeout nat
  | CreateChannel ident
  | AssertExchange ident string "string option" "DeclarationOptions option"
  | AssertQueue ident string "DeclarationOptions option"
  | BindQueue ident string string string
  | BindExchange ident string string string
  | UnbindQueue ident string string string
  | UnbindExchange ident string string string
  | Publish ident string string "Buffer option" Properties
  | SendToQueue ident string Buffer Properties
  | Consume ident string "ConsumerOptions option"
  | Cancel ident "string option"
  | Ack ident "AmqpLib_Message option" "bool option"
  | Nack ident "AmqpLib_Message option" "bool option"
  | Reject ident "AmqpLib_Message option" "bool option"
  | DeleteExchange ident string
  | DeleteQueue ident string
  | CloseChannel ident

record 'j world =
  conn :: Connection
  exchanges :: "ident \<Rightarrow> Exchange"
  queues :: "ident \<Rightarrow> 'j Queue"
  bindings :: "ident \<Rightarrow> Binding"
  promises :: "ident \<Rightarrow> 'j promise"
  all_remaining :: "ident \<Rightarrow> nat"
  closed :: "ident \<Rightarrow> bool"
  listeners :: "ident list"
  next_id :: ident
  jobs :: "('j callback \<times> 'j pstate) list"
  requests :: "'j request list"
  subscriptions :: "subscription list"
  trace :: "libcall list"
  logs :: "(string \<times> string) list"

section \<open>Primitives: logging, allocation, promises, channel calls\<close>

definition amqpts_log :: "string \<Rightarrow> string \<Rightarrow> 'j world \<Rightarrow> 'j world" where
  "amqpts_log level msg w = w\<lparr>logs := logs w @ [(level, msg)]\<rparr>"

text \<open>The decimal text of a number, as string concatenation prints it in a log line.\<close>

fun string_of_nat :: "nat \<Rightarrow> string" where
  "string_of_nat n =
     (if n < 10 then [char_of (48 + n)]
      else string_of_nat (n div 10) @ [char_of (48 + n mod 10)])"

declare string_of_nat.simps [simp del]

definition alloc :: "'j world \<Rightarrow> ident \<times> 'j world" where
  "alloc w = (next_id w, w\<lparr>next_id := Suc (next_id w)\<rparr>)"

text \<open>\<^verbatim>\<open>new Promise(...)\<close>, before its executor runs.\<close>

definition new_Promise :: "'j world \<Rightarrow> ident \<times> 'j world" where
  "new_Promise w =
     (let (p, w1) = alloc w
      in (p, w1\<lparr>promises := (promises w1)(p := \<lparr>P_state = Pending, P_waiting = []\<rparr>)\<rparr>))"

text \<open>
  \<^verbatim>\<open>resolve\<close> and \<^verbatim>\<open>reject\<close>: a promise settles once; its waiting reactions are queued
  as jobs and run later, never inside the call that settles it.
\<close>

definition settle :: "ident \<Rightarrow> 'j pstate \<Rightarrow> 'j world \<Rightarrow> 'j world" where
  "settle p s w =
     (if P_state (promises w p) \<noteq> Pending then w
      else w\<lparr>promises := (promises w)(p := \<lparr>P_state = s, P_waiting = []\<rparr>),
             jobs := jobs w @ map (\<lambda>cb. (cb, s)) (P_waiting (promises w p))\<rparr>)"

text \<open>\<^verbatim>\<open>p.then(cb)\<close>, \<^verbatim>\<open>p.catch(cb)\<close>: the reaction waits, or is queued if \<open>p\<close> has settled.\<close>

definition Promise_then :: "ident \<Rightarrow> 'j callback \<Rightarrow> 'j world \<Rightarrow> 'j world" where
  "Promise_then p cb w =
     (if P_state (promises w p) = Pending
      then w\<lparr>promises :=
               (promises w)(p := (promises w p)\<lparr>P_waiting := P_waiting (promises w p) @ [cb]\<rparr>)\<rparr>
      else w\<lparr>jobs := jobs w @ [(cb, P_state (promises w p))]\<rparr>)"

definition isFulfilled :: "ident \<Rightarrow> 'j world \<Rightarrow> bool" where
  "isFulfilled p w = (case P_state (promises w p) of Fulfilled v \<Rightarrow> True | _ \<Rightarrow> False)"

text \<open>
  \<^verbatim>\<open>Promise.all(promises)\<close>: a new promise that is fulfilled when every member is and
  rejected when one is. A member that is \<^verbatim>\<open>undefined\<close> counts as fulfilled.
\<close>

definition Promise_all :: "ident option list \<Rightarrow> 'j world \<Rightarrow> ident \<times> 'j world" where
  "Promise_all ps w =
     (let (q, w1) = new_Promise w;
          members = List.map_filter id ps;
          w2 = w1\<lparr>all_remaining := (all_remaining w1)(q := length members)\<rparr>
      in if members = [] then (q, settle q (Fulfilled AUndefined) w2)
         else (q, fold (\<lambda>p. Promise_then p (CbPromiseAll q)) members w2))"

definition Promise_all_callback :: "ident \<Rightarrow> 'j pstate \<Rightarrow> 'j world \<Rightarrow> 'j world" where
  "Promise_all_callback q s w =
     (case s of
        Rejected err \<Rightarrow> settle q (Rejected err) w
      | Fulfilled v \<Rightarrow>
          (let w1 = w\<lparr>all_remaining := (all_remaining w)(q := all_remaining w q - 1)\<rparr>
           in if all_remaining w1 q = 0 then settle q (Fulfilled AUndefined) w1 else w1)
      | Pending \<Rightarrow> w)"

text \<open>
  A method call on \<^verbatim>\<open>this._channel\<close>: a TypeError when the field is undefined, the
  channel's own error when amqplib has closed it (every later call on it throws), and
  otherwise the call, recorded in the trace.
\<close>

definition channel_call :: "ident option \<Rightarrow> (ident \<Rightarrow> libcall) \<Rightarrow> 'j world \<Rightarrow> error + 'j world" where
  "channel_call ch c w =
     (case ch of
        None \<Rightarrow> Inl (TypeError ''Cannot read property of undefined'')
      | Some i \<Rightarrow>
          if closed w i then Inl (IllegalOperationError ''Channel closed'')
          else Inr (w\<lparr>trace := trace w @ [c i]\<rparr>))"

section \<open>Connection: connecting\<close>

text \<open>
  \<^verbatim>\<open>tryToConnect(thisConnection, retry, callback)\<close>. The callback is the one closure that
  \<^verbatim>\<open>rebuildConnection\<close> creates; it is known by the promise \<open>p\<close> it settles.
\<close>

definition Connection_tryToConnect :: "nat \<Rightarrow> ident \<Rightarrow> 'j world \<Rightarrow> 'j world" where
  "Connection_tryToConnect retry p w =
     w\<lparr>trace := trace w @ [Connect (C_url (conn w))],
       requests := requests w @ [ReqConnect retry p]\<rparr>"

text \<open>The callback that \<^verbatim>\<open>rebuildConnection\<close> passes to \<^verbatim>\<open>tryToConnect\<close>.\<close>

definition Connection_rebuildConnection_callback ::
  "ident \<Rightarrow> error option \<Rightarrow> 'j world \<Rightarrow> 'j world" where
  "Connection_rebuildConnection_callback p err w =
     (case err of
        Some e \<Rightarrow> settle p (Rejected e) (w\<lparr>conn := (conn w)\<lparr>C_rebuilding := False\<rparr>\<rparr>)
      | None \<Rightarrow>
          (let w1 = w\<lparr>conn := (conn w)\<lparr>C_rebuilding := False\<rparr>\<rparr>;
               w2 = (if C_connectedBefore (conn w1)
                     then amqpts_log ''warn'' ''Connection re-established'' w1
                     else (let w' = amqpts_log ''info'' ''Connection established.'' w1
                           in w'\<lparr>conn := (conn w')\<lparr>C_connectedBefore := True\<rparr>\<rparr>))
           in settle p (Fulfilled AUndefined) w2))"

text \<open>
  The callback of \<^verbatim>\<open>AmqpLib.connect\<close> inside \<^verbatim>\<open>tryToConnect\<close>. On success amqplib hands
  over a new connection object, which gets the \<^verbatim>\<open>restart\<close> error listener.
\<close>

definition Connection_tryToConnect_callback ::
  "nat \<Rightarrow> ident \<Rightarrow> reply \<Rightarrow> 'j world \<Rightarrow> 'j world" where
  "Connection_tryToConnect_callback retry p r w =
     (case r of
        Failed err \<Rightarrow>
          (let w1 = amqpts_log ''warn'' ''Connection failed.'' w;
               rs = C_reconnectStrategy (conn w1)
           in if retries rs = 0 \<or> retries rs > int retry
              then (let w2 = amqpts_log ''warn''
                               (''Connection retry '' @ string_of_nat (retry + 1) @ '' in '' @
                                string_of_nat (interval rs) @ ''ms'') w1
                    in w2\<lparr>trace := trace w2 @ [SetTimeout (interval rs)],
                          requests := requests w2 @ [ReqTimeout (retry + 1) p]\<rparr>)
              else Connection_rebuildConnection_callback p (Some err)
                     (amqpts_log ''warn''
                        (''Connection failed, exiting: No connection retries left (retry '' @
                         string_of_nat retry @ '').'') w1))
      | Succeeded ok \<Rightarrow>
          (let (connection, w1) = alloc w;
               w2 = w1\<lparr>listeners := listeners w1 @ [connection]\<rparr>;
               w3 = w2\<lparr>conn := (conn w2)\<lparr>C_connection := Some connection\<rparr>\<rparr>
           in Connection_rebuildConnection_callback p None w3))"

definition Connection_rebuildConnection :: "'j world \<Rightarrow> ident option \<times> 'j world" where
  "Connection_rebuildConnection w =
     (if C_rebuilding (conn w)
      then (C_initialized (conn w),
            amqpts_log ''debug''
              ''Connection rebuild already in progress, joining active rebuild attempt.'' w)
      else (let w1 = w\<lparr>conn := (conn w)\<lparr>C_rebuilding := True\<rparr>\<rparr>;
                (p, w2) = new_Promise w1;
                w3 = Connection_tryToConnect 0 p w2;
                w4 = w3\<lparr>conn := (conn w3)\<lparr>C_initialized := Some p\<rparr>\<rparr>;
                w5 = Promise_then p CbConnectionCatch w4
            in (C_initialized (conn w5), w5)))"

text \<open>\<^verbatim>\<open>this.initialized.catch((err) => { log; throw err })\<close>.\<close>

definition Connection_catch :: "'j pstate \<Rightarrow> 'j world \<Rightarrow> 'j world" where
  "Connection_catch s w =
     (case s of
        Rejected err \<Rightarrow> amqpts_log ''warn'' ''Error creating connection!'' w
      | _ \<Rightarrow> w)"

section \<open>Exchange and Queue: initialisation\<close>

text \<open>
  Writing a key of a registry keeps its place if it is there and appends it otherwise
  (\<open>DAList.update\<close>); \<^verbatim>\<open>delete registry[key]\<close> is \<open>DAList.delete\<close>, and reading a key
  is \<open>DAList.lookup\<close>.
\<close>

text \<open>
  \<^verbatim>\<open>Exchange._initialize\<close>: the executor of the new promise waits for the connection;
  the exchange then writes itself into the registry under its name.
\<close>

definition Exchange_initialize :: "ident \<Rightarrow> 'j world \<Rightarrow> 'j world" where
  "Exchange_initialize e w =
     (let (p, w1) = new_Promise w;
          w2 = (case C_initialized (conn w1) of
                  None \<Rightarrow> settle p (Rejected (TypeError ''Cannot read property of undefined'')) w1
                | Some ci \<Rightarrow> Promise_then ci (CbExchangeInitialize e p) w1);
          w3 = w2\<lparr>exchanges := (exchanges w2)(e := (exchanges w2 e)\<lparr>E_initialized := Some p\<rparr>)\<rparr>
      in w3\<lparr>conn := (conn w3)\<lparr>C_exchanges :=
                 DAList.update (E_name (exchanges w3 e)) e (C_exchanges (conn w3))\<rparr>\<rparr>)"

text \<open>\<^verbatim>\<open>() => this._connection._connection.createChannel(...)\<close>, run when the connection is ready.\<close>

definition Exchange_initialize_then :: "ident \<Rightarrow> ident \<Rightarrow> 'j world \<Rightarrow> 'j world" where
  "Exchange_initialize_then e p w =
     (case C_connection (conn w) of
        None \<Rightarrow> w
      | Some c \<Rightarrow> w\<lparr>trace := trace w @ [CreateChannel c],
                     requests := requests w @ [ReqCreateChannelExchange e p]\<rparr>)"

text \<open>
  The callback of \<^verbatim>\<open>createChannel\<close>: on an error the promise is rejected and nothing
  else happens; otherwise the new channel is stored and the exchange is asserted on it.
\<close>

definition Exchange_createChannel_callback :: "ident \<Rightarrow> ident \<Rightarrow> reply \<Rightarrow> 'j world \<Rightarrow> 'j world" where
  "Exchange_createChannel_callback e p r w =
     (case r of
        Failed err \<Rightarrow> settle p (Rejected err) w
      | Succeeded ok \<Rightarrow>
          (let (channel, w1) = alloc w;
               w2 = w1\<lparr>exchanges := (exchanges w1)(e := (exchanges w1 e)\<lparr>E_channel := Some channel\<rparr>)\<rparr>;
               ex = exchanges w2 e
           in case channel_call (E_channel ex)
                     (\<lambda>c. AssertExchange c (E_name ex) (E_type ex) (E_options ex)) w2 of
                Inl err \<Rightarrow> w2
              | Inr w3 \<Rightarrow> w3\<lparr>requests := requests w3 @ [ReqAssertExchange e p]\<rparr>))"

text \<open>The callback of \<^verbatim>\<open>assertExchange\<close>.\<close>

definition Exchange_assertExchange_callback :: "ident \<Rightarrow> ident \<Rightarrow> reply \<Rightarrow> 'j world \<Rightarrow> 'j world" where
  "Exchange_assertExchange_callback e p r w =
     (case r of
        Failed err \<Rightarrow>
          (let w1 = amqpts_log ''error''
                      (''Failed to create exchange '' @ [CHR 0x27] @ E_name (exchanges w e) @
                       [CHR 0x27] @ ''.'') w;
               w2 = w1\<lparr>conn := (conn w1)\<lparr>C_exchanges :=
                          DAList.delete (E_name (exchanges w1 e)) (C_exchanges (conn w1))\<rparr>\<rparr>
           in settle p (Rejected err) w2)
      | Succeeded ok \<Rightarrow> settle p (Fulfilled AUndefined) w)"

text \<open>\<^verbatim>\<open>new Exchange(connection, name, type, options)\<close>.\<close>

definition new_Exchange ::
  "string \<Rightarrow> string option \<Rightarrow> DeclarationOptions option \<Rightarrow> 'j world \<Rightarrow> ident \<times> 'j world" where
  "new_Exchange name type options w =
     (let (e, w1) = alloc w;
          w2 = w1\<lparr>exchanges := (exchanges w1)(e :=
                   \<lparr>E_initialized = None, E_channel = None, E_name = name,
                    E_type = type, E_options = options\<rparr>)\<rparr>
      in (e, Exchange_initialize e w2))"

text \<open>\<^verbatim>\<open>Queue._initialize\<close>: as for an exchange, but the registry is not written here.\<close>

definition Queue_initialize :: "ident \<Rightarrow> 'j world \<Rightarrow> 'j world" where
  "Queue_initialize q w =
     (let (p, w1) = new_Promise w;
          w2 = (case C_initialized (conn w1) of
                  None \<Rightarrow> settle p (Rejected (TypeError ''Cannot read property of undefined'')) w1
                | Some ci \<Rightarrow> Promise_then ci (CbQueueInitialize q p) w1)
      in w2\<lparr>queues := (queues w2)(q := (queues w2 q)\<lparr>Q_initialized := Some p\<rparr>)\<rparr>)"

definition Queue_initialize_then :: "ident \<Rightarrow> ident \<Rightarrow> 'j world \<Rightarrow> 'j world" where
  "Queue_initialize_then q p w =
     (case C_connection (conn w) of
        None \<Rightarrow> w
      | Some c \<Rightarrow> w\<lparr>trace := trace w @ [CreateChannel c],
                     requests := requests w @ [ReqCreateChannelQueue q p]\<rparr>)"

definition Queue_createChannel_callback :: "ident \<Rightarrow> ident \<Rightarrow> reply \<Rightarrow> 'j world \<Rightarrow> 'j world" where
  "Queue_createChannel_callback q p r w =
     (case r of
        Failed err \<Rightarrow> settle p (Rejected err) w
      | Succeeded ok \<Rightarrow>
          (let (channel, w1) = alloc w;
               w2 = w1\<lparr>queues := (queues w1)(q := (queues w1 q)\<lparr>Q_channel := Some channel\<rparr>)\<rparr>;
               qu = queues w2 q
           in case channel_call (Q_channel qu) (\<lambda>c. AssertQueue c (Q_name qu) (Q_options qu)) w2 of
                Inl err \<Rightarrow> w2
              | Inr w3 \<Rightarrow> w3\<lparr>requests := requests w3 @ [ReqAssertQueue q p]\<rparr>))"

definition Queue_assertQueue_callback :: "ident \<Rightarrow> ident \<Rightarrow> reply \<Rightarrow> 'j world \<Rightarrow> 'j world" where
  "Queue_assertQueue_callback q p r w =
     (case r of
        Failed err \<Rightarrow>
          (let w1 = amqpts_log ''error''
                      (''Failed to create queue '' @ [CHR 0x27] @ Q_name (queues w q) @
                       [CHR 0x27] @ ''.'') w;
               w2 = w1\<lparr>conn := (conn w1)\<lparr>C_queues :=
                          DAList.delete (Q_name (queues w1 q)) (C_queues (conn w1))\<rparr>\<rparr>
           in settle p (Rejected err) w2)
      | Succeeded ok \<Rightarrow> settle p (Fulfilled AUndefined) w)"

text \<open>\<^verbatim>\<open>new Queue(connection, name, options)\<close>: the constructor writes the registry.\<close>

definition new_Queue :: "string \<Rightarrow> DeclarationOptions option \<Rightarrow> 'j world \<Rightarrow> ident \<times> 'j world" where
  "new_Queue name options w =
     (let (q, w1) = alloc w;
          w2 = w1\<lparr>queues := (queues w1)(q :=
                   \<lparr>Q_initialized = None, Q_channel = None, Q_name = name, Q_options = options,
                    Q_consumer = None, Q_isStartConsumer = False, Q_rawConsumer = False,
                    Q_consumerOptions = None, Q_consumerTag = None,
                    Q_consumerInitialized = None\<rparr>)\<rparr>;
          w3 = w2\<lparr>conn := (conn w2)\<lparr>C_queues := DAList.update name q (C_queues (conn w2))\<rparr>\<rparr>
      in (q, Queue_initialize q w3))"

section \<open>Connection: declaring\<close>

definition Connection_declareExchange ::
  "string \<Rightarrow> string option \<Rightarrow> DeclarationOptions option \<Rightarrow> 'j world \<Rightarrow> ident \<times> 'j world" where
  "Connection_declareExchange name type options w =
     (case DAList.lookup (C_exchanges (conn w)) name of
        None \<Rightarrow> new_Exchange name type options w
      | Some exchange \<Rightarrow> (exchange, w))"

definition Connection_declareQueue ::
  "string \<Rightarrow> DeclarationOptions option \<Rightarrow> 'j world \<Rightarrow> ident \<times> 'j world" where
  "Connection_declareQueue name options w =
     (case DAList.lookup (C_queues (conn w)) name of
        None \<Rightarrow> new_Queue name options w
      | Some queue \<Rightarrow> (queue, w))"

section \<open>Queue: consumers\<close>

text \<open>A truthy \<^verbatim>\<open>msg.properties.replyTo\<close>: defined and not the empty string.\<close>

definition truthy :: "string option \<Rightarrow> bool" where
  "truthy x = (case x of None \<Rightarrow> False | Some s \<Rightarrow> s \<noteq> [])"

text \<open>
  The body of the \<^verbatim>\<open>try\<close> block of \<^verbatim>\<open>processedMsgConsumer\<close>, for a message that is not
  empty: the error thrown and the world at the throw, or the world at the end.
\<close>

definition processedMsgConsumer_try ::
  "'j runtime \<Rightarrow> ident \<Rightarrow> AmqpLib_Message \<Rightarrow> 'j world \<Rightarrow> (error \<times> 'j world) + 'j world" where
  "processedMsgConsumer_try rt q msg w =
     (case Queue_unpackMessageContent rt msg of
        Inl err \<Rightarrow> Inl (err, w)
      | Inr payload \<Rightarrow>
          (case Q_consumer (queues w q) of
             None \<Rightarrow> Inl (TypeError ''this._consumer is not a function'', w)
           | Some consumer \<Rightarrow>
               (case consumer (Payload payload) of
                  Throws err \<Rightarrow> Inl (err, w)
                | Returns result \<Rightarrow>
                    (case (if truthy (replyTo (raw_properties msg))
                           then (case Queue_packMessageContent rt result no_properties of
                                   Inl err \<Rightarrow> Inl (err, w)
                                 | Inr (result', options) \<Rightarrow>
                                     (case channel_call (Q_channel (queues w q))
                                             (\<lambda>c. SendToQueue c (the (replyTo (raw_properties msg)))
                                                    result' options) w of
                                        Inl err \<Rightarrow> Inl (err, w)
                                      | Inr w1 \<Rightarrow> Inr w1))
                           else Inr w) of
                       Inl x \<Rightarrow> Inl x
                     | Inr w1 \<Rightarrow>
                         (case Q_consumerOptions (queues w1 q) of
                            None \<Rightarrow> Inl (TypeError ''Cannot read property noAck of undefined'', w1)
                          | Some options \<Rightarrow>
                              if noAck options \<noteq> Some True
                              then (case channel_call (Q_channel (queues w1 q))
                                           (\<lambda>c. Ack c (Some msg) None) w1 of
                                      Inl err \<Rightarrow> Inl (err, w1)
                                    | Inr w2 \<Rightarrow> Inr w2)
                              else Inr w1)))))"

definition consumer_error :: "error \<Rightarrow> 'j world \<Rightarrow> 'j world" where
  "consumer_error err w =
     amqpts_log ''error'' (''Queue.onMessage consumer function returned error: '' @ message err) w"

definition Queue_processedMsgConsumer ::
  "'j runtime \<Rightarrow> ident \<Rightarrow> AmqpLib_Message option \<Rightarrow> 'j world \<Rightarrow> 'j world" where
  "Queue_processedMsgConsumer rt q msg w =
     (case msg of
        None \<Rightarrow> w
      | Some m \<Rightarrow>
          (case processedMsgConsumer_try rt q m w of
             Inl (err, w1) \<Rightarrow> consumer_error err w1
           | Inr w1 \<Rightarrow> w1))"

definition Queue_rawMsgConsumer :: "ident \<Rightarrow> AmqpLib_Message option \<Rightarrow> 'j world \<Rightarrow> 'j world" where
  "Queue_rawMsgConsumer q msg w =
     (case Q_consumer (queues w q) of
        None \<Rightarrow> consumer_error (TypeError ''this._consumer is not a function'') w
      | Some consumer \<Rightarrow>
          (case consumer (RawMessage msg (Q_channel (queues w q))) of
             Throws err \<Rightarrow> consumer_error err w
           | Returns result \<Rightarrow> w))"

definition activateConsumerWrapper_try ::
  "'j runtime \<Rightarrow> ident \<Rightarrow> AmqpLib_Message option \<Rightarrow> 'j world \<Rightarrow> (error \<times> 'j world) + 'j world" where
  "activateConsumerWrapper_try rt q msg w =
     (case msg of
        None \<Rightarrow> Inl (TypeError ''Cannot read property content of null'', w)
      | Some m \<Rightarrow>
          (case new_Message rt (ABuffer (raw_content m)) (raw_properties m) of
             Inl err \<Rightarrow> Inl (err, w)
           | Inr message0 \<Rightarrow>
               (let message1 = message0\<lparr>M_fields := Some (raw_fields m), M_message := Some m,
                                         M_channel := Q_channel (queues w q)\<rparr>
                in case Q_consumer (queues w q) of
                     None \<Rightarrow> Inl (TypeError ''this._consumer is not a function'', w)
                   | Some consumer \<Rightarrow>
                       (case consumer (Wrapped message1) of
                          Throws err \<Rightarrow> Inl (err, w)
                        | Returns result \<Rightarrow>
                            if truthy (replyTo (raw_properties m))
                            then (case Queue_packMessageContent rt result no_properties of
                                    Inl err \<Rightarrow> Inl (err, w)
                                  | Inr (response, options) \<Rightarrow>
                                      (case channel_call (Q_channel (queues w q))
                                              (\<lambda>c. SendToQueue c (the (replyTo (raw_properties m)))
                                                     response options) w of
                                         Inl err \<Rightarrow> Inl (err, w)
                                       | Inr w1 \<Rightarrow> Inr w1))
                            else Inr w))))"

definition Queue_activateConsumerWrapper ::
  "'j runtime \<Rightarrow> ident \<Rightarrow> AmqpLib_Message option \<Rightarrow> 'j world \<Rightarrow> 'j world" where
  "Queue_activateConsumerWrapper rt q msg w =
     (case activateConsumerWrapper_try rt q msg w of
        Inl (err, w1) \<Rightarrow> consumer_error err w1
      | Inr w1 \<Rightarrow> w1)"

text \<open>\<^verbatim>\<open>_initializeConsumer\<close>: the new promise waits for the queue's \<^verbatim>\<open>initialized\<close>.\<close>

definition Queue_initializeConsumer :: "ident \<Rightarrow> 'j world \<Rightarrow> 'j world" where
  "Queue_initializeConsumer q w =
     (let (p, w1) = new_Promise w;
          w2 = (case Q_initialized (queues w1 q) of
                  None \<Rightarrow> settle p (Rejected (TypeError ''Cannot read property then of undefined'')) w1
                | Some qi \<Rightarrow> Promise_then qi (CbInitializeConsumer q p) w1)
      in w2\<lparr>queues := (queues w2)(q := (queues w2 q)\<lparr>Q_consumerInitialized := Some p\<rparr>)\<rparr>)"

definition Queue_initializeConsumer_then :: "ident \<Rightarrow> ident \<Rightarrow> 'j world \<Rightarrow> 'j world" where
  "Queue_initializeConsumer_then q p w =
     (let qu = queues w q;
          consumerFunction =
            (if Q_isStartConsumer qu
             then (if Q_rawConsumer qu then rawMsgConsumer else processedMsgConsumer)
             else activateConsumerWrapper)
      in case channel_call (Q_channel qu) (\<lambda>c. Consume c (Q_name qu) (Q_consumerOptions qu)) w of
           Inl err \<Rightarrow> w
         | Inr w1 \<Rightarrow>
             w1\<lparr>requests := requests w1 @ [ReqConsume (the (Q_channel qu)) q p consumerFunction]\<rparr>)"

definition Queue_consume_callback ::
  "ident \<Rightarrow> ident \<Rightarrow> ident \<Rightarrow> consumerFunction \<Rightarrow> reply \<Rightarrow> 'j world \<Rightarrow> 'j world" where
  "Queue_consume_callback ch q p f r w =
     (case r of
        Failed err \<Rightarrow> settle p (Rejected err) w
      | Succeeded consumerTag \<Rightarrow>
          (let w1 = w\<lparr>subscriptions := subscriptions w @ [SubQueue ch q f]\<rparr>;
               w2 = w1\<lparr>queues := (queues w1)(q := (queues w1 q)\<lparr>Q_consumerTag := Some consumerTag\<rparr>)\<rparr>
           in settle p (Fulfilled AUndefined) w2))"

text \<open>A promise that is rejected at once: \<^verbatim>\<open>new Promise((_, reject) => reject(new Error(...)))\<close>.\<close>

definition rejected_Promise :: "error \<Rightarrow> 'j world \<Rightarrow> ident \<times> 'j world" where
  "rejected_Promise err w = (let (p, w1) = new_Promise w in (p, settle p (Rejected err) w1))"

definition Queue_startConsumer ::
  "ident \<Rightarrow> ('j consumer_arg \<Rightarrow> 'j consumer_result) \<Rightarrow> ConsumerOptions \<Rightarrow> 'j world \<Rightarrow>
   ident option \<times> 'j world" where
  "Queue_startConsumer q onMessage options w =
     (if Q_consumerInitialized (queues w q) \<noteq> None
      then (let (p, w1) = rejected_Promise
                            (Error ''amqp-ts Queue.startConsumer error: consumer already defined'') w
            in (Some p, w1))
      else (let w1 = w\<lparr>queues := (queues w)(q := (queues w q)
                         \<lparr>Q_isStartConsumer := True,
                          Q_rawConsumer := (rawMessage options = Some True),
                          Q_consumerOptions := Some (options\<lparr>rawMessage := None\<rparr>),
                          Q_consumer := Some onMessage\<rparr>)\<rparr>;
                w2 = Queue_initializeConsumer q w1
            in (Q_consumerInitialized (queues w2 q), w2)))"

definition Queue_activateConsumer ::
  "ident \<Rightarrow> ('j consumer_arg \<Rightarrow> 'j consumer_result) \<Rightarrow> ConsumerOptions \<Rightarrow> 'j world \<Rightarrow>
   ident option \<times> 'j world" where
  "Queue_activateConsumer q onMessage options w =
     (if Q_consumerInitialized (queues w q) \<noteq> None
      then (let (p, w1) = rejected_Promise
                            (Error ''amqp-ts Queue.activateConsumer error: consumer already defined'') w
            in (Some p, w1))
      else (let w1 = w\<lparr>queues := (queues w)(q := (queues w q)
                         \<lparr>Q_consumerOptions := Some options, Q_consumer := Some onMessage\<rparr>)\<rparr>;
                w2 = Queue_initializeConsumer q w1
            in (Q_consumerInitialized (queues w2 q), w2)))"

definition Queue_stopConsumer :: "ident \<Rightarrow> 'j world \<Rightarrow> ident \<times> 'j world" where
  "Queue_stopConsumer q w =
     (case Q_consumerInitialized (queues w q) of
        None \<Rightarrow> rejected_Promise (Error ''amqp-ts Queue.cancelConsumer error: no consumer defined'') w
      | Some ci \<Rightarrow>
          (let (p, w1) = new_Promise w in (p, Promise_then ci (CbStopConsumer q p) w1)))"

definition Queue_stopConsumer_then :: "ident \<Rightarrow> ident \<Rightarrow> 'j world \<Rightarrow> 'j world" where
  "Queue_stopConsumer_then q p w =
     (case channel_call (Q_channel (queues w q)) (\<lambda>c. Cancel c (Q_consumerTag (queues w q))) w of
        Inl err \<Rightarrow> w
      | Inr w1 \<Rightarrow> w1\<lparr>requests := requests w1 @ [ReqCancel q p]\<rparr>)"

definition Queue_cancel_callback :: "ident \<Rightarrow> ident \<Rightarrow> reply \<Rightarrow> 'j world \<Rightarrow> 'j world" where
  "Queue_cancel_callback q p r w =
     (case r of
        Failed err \<Rightarrow> settle p (Rejected err) w
      | Succeeded ok \<Rightarrow>
          settle p (Fulfilled AUndefined)
            (w\<lparr>queues := (queues w)(q := (queues w q)
                  \<lparr>Q_consumerInitialized := None, Q_consumer := None, Q_consumerOptions := None\<rparr>)\<rparr>))"

section \<open>Binding\<close>

definition destination_name :: "destination \<Rightarrow> 'j world \<Rightarrow> string" where
  "destination_name d w = (case d of ToExchange e \<Rightarrow> E_name (exchanges w e) | ToQueue q \<Rightarrow> Q_name (queues w q))"

definition destination_initialized :: "destination \<Rightarrow> 'j world \<Rightarrow> ident option" where
  "destination_initialized d w =
     (case d of ToExchange e \<Rightarrow> E_initialized (exchanges w e) | ToQueue q \<Rightarrow> Q_initialized (queues w q))"

definition destination_channel :: "destination \<Rightarrow> 'j world \<Rightarrow> ident option" where
  "destination_channel d w =
     (case d of ToExchange e \<Rightarrow> E_channel (exchanges w e) | ToQueue q \<Rightarrow> Q_channel (queues w q))"

text \<open>\<^verbatim>\<open>Binding.id(destination, source, pattern)\<close>.\<close>

definition Binding_id :: "destination \<Rightarrow> ident \<Rightarrow> string \<Rightarrow> 'j world \<Rightarrow> string" where
  "Binding_id d source pattern w =
     ''['' @ E_name (exchanges w source) @ '']to'' @
     (case d of ToQueue q \<Rightarrow> ''Queue'' | ToExchange e \<Rightarrow> ''Exchange'') @
     ''['' @ destination_name d w @ '']'' @ pattern"

definition Binding_initialize :: "ident \<Rightarrow> 'j world \<Rightarrow> 'j world" where
  "Binding_initialize b w =
     (let (p, w1) = new_Promise w;
          w2 = (case destination_initialized (B_destination (bindings w1 b)) w1 of
                  None \<Rightarrow> settle p (Rejected (TypeError ''Cannot read property then of undefined'')) w1
                | Some di \<Rightarrow> Promise_then di (CbBindingInitialize b p) w1)
      in w2\<lparr>bindings := (bindings w2)(b := (bindings w2 b)\<lparr>B_initialized := Some p\<rparr>)\<rparr>)"

definition Binding_initialize_then :: "ident \<Rightarrow> ident \<Rightarrow> 'j world \<Rightarrow> 'j world" where
  "Binding_initialize_then b p w =
     (let bi = bindings w b;
          d = B_destination bi;
          dn = destination_name d w;
          sn = E_name (exchanges w (B_source bi))
      in case channel_call (destination_channel d w)
                (\<lambda>c. case d of ToQueue q \<Rightarrow> BindQueue c dn sn (B_pattern bi)
                               | ToExchange e \<Rightarrow> BindExchange c dn sn (B_pattern bi)) w of
           Inl err \<Rightarrow> w
         | Inr w1 \<Rightarrow> w1\<lparr>requests := requests w1 @ [ReqBind b p]\<rparr>)"

definition Binding_bind_callback :: "ident \<Rightarrow> ident \<Rightarrow> reply \<Rightarrow> 'j world \<Rightarrow> 'j world" where
  "Binding_bind_callback b p r w =
     (case r of
        Failed err \<Rightarrow>
          (let bi = bindings w b;
               w1 = amqpts_log ''error''
                      (''Failed to create '' @
                       (case B_destination bi of ToQueue q \<Rightarrow> ''queue'' | ToExchange e \<Rightarrow> ''exchange'') @
                       '' binding ('' @ E_name (exchanges w (B_source bi)) @ ''->'' @
                       destination_name (B_destination bi) w @ '')'') w;
               w2 = w1\<lparr>conn := (conn w1)\<lparr>C_bindings :=
                          DAList.delete (Binding_id (B_destination bi) (B_source bi) (B_pattern bi) w1)
                            (C_bindings (conn w1))\<rparr>\<rparr>
           in settle p (Rejected err) w2)
      | Succeeded ok \<Rightarrow> settle p (Fulfilled AUndefined) w)"

text \<open>
  \<^verbatim>\<open>new Binding(destination, source, pattern, args)\<close>, which is what \<^verbatim>\<open>bind\<close> of an
  exchange or a queue does; \<^verbatim>\<open>bind\<close> returns the binding's \<^verbatim>\<open>initialized\<close>.
\<close>

definition new_Binding ::
  "destination \<Rightarrow> ident \<Rightarrow> string \<Rightarrow> (string \<times> string) list \<Rightarrow> 'j world \<Rightarrow> ident \<times> 'j world" where
  "new_Binding d source pattern args w =
     (let (b, w1) = alloc w;
          w2 = w1\<lparr>bindings := (bindings w1)(b :=
                   \<lparr>B_initialized = None, B_source = source, B_destination = d,
                    B_pattern = pattern, B_args = args\<rparr>)\<rparr>;
          w3 = w2\<lparr>conn := (conn w2)\<lparr>C_bindings :=
                     DAList.update (Binding_id d source pattern w2) b (C_bindings (conn w2))\<rparr>\<rparr>
      in (b, Binding_initialize b w3))"

definition bind :: "destination \<Rightarrow> ident \<Rightarrow> string \<Rightarrow> (string \<times> string) list \<Rightarrow> 'j world \<Rightarrow>
   ident option \<times> 'j world" where
  "bind d source pattern args w =
     (let (b, w1) = new_Binding d source pattern args w in (B_initialized (bindings w1 b), w1))"

definition Binding_delete :: "ident \<Rightarrow> 'j world \<Rightarrow> ident \<times> 'j world" where
  "Binding_delete b w =
     (let (p, w1) = new_Promise w
      in case destination_initialized (B_destination (bindings w1 b)) w1 of
           None \<Rightarrow> (p, settle p (Rejected (TypeError ''Cannot read property then of undefined'')) w1)
         | Some di \<Rightarrow> (p, Promise_then di (CbBindingDelete b p) w1))"

definition Binding_delete_then :: "ident \<Rightarrow> ident \<Rightarrow> 'j world \<Rightarrow> 'j world" where
  "Binding_delete_then b p w =
     (let bi = bindings w b;
          d = B_destination bi;
          dn = destination_name d w;
          sn = E_name (exchanges w (B_source bi))
      in case channel_call (destination_channel d w)
                (\<lambda>c. case d of ToQueue q \<Rightarrow> UnbindQueue c dn sn (B_pattern bi)
                               | ToExchange e \<Rightarrow> UnbindExchange c dn sn (B_pattern bi)) w of
           Inl err \<Rightarrow> w
         | Inr w1 \<Rightarrow> w1\<lparr>requests := requests w1 @ [ReqUnbind b p]\<rparr>)"

definition Binding_unbind_callback :: "ident \<Rightarrow> ident \<Rightarrow> reply \<Rightarrow> 'j world \<Rightarrow> 'j world" where
  "Binding_unbind_callback b p r w =
     (case r of
        Failed err \<Rightarrow> settle p (Rejected err) w
      | Succeeded ok \<Rightarrow>
          (let bi = bindings w b;
               w1 = w\<lparr>conn := (conn w)\<lparr>C_bindings :=
                         DAList.delete (Binding_id (B_destination bi) (B_source bi) (B_pattern bi) w)
                           (C_bindings (conn w))\<rparr>\<rparr>
           in settle p (Fulfilled AUndefined) w1))"

text \<open>
  \<^verbatim>\<open>Binding.removeBindingsContaining(connectionPoint)\<close>: the loop over the registry
  collects the promises of the deletes; the result is their \<^verbatim>\<open>Promise.all\<close>.
\<close>

definition binding_contains :: "destination \<Rightarrow> Binding \<Rightarrow> bool" where
  "binding_contains cp bi = (ToExchange (B_source bi) = cp \<or> B_destination bi = cp)"

definition removeBindingsContaining_step ::
  "destination \<Rightarrow> string \<Rightarrow> ident option list \<times> 'j world \<Rightarrow> ident option list \<times> 'j world" where
  "removeBindingsContaining_step cp bindingId acc =
     (let (ps, w) = acc
      in case DAList.lookup (C_bindings (conn w)) bindingId of
           None \<Rightarrow> (ps, w)
         | Some b \<Rightarrow>
             if binding_contains cp (bindings w b)
             then (let (p, w') = Binding_delete b w in (ps @ [Some p], w'))
             else (ps, w))"

definition removeBindingsContaining_loop ::
  "destination \<Rightarrow> string list \<Rightarrow> 'j world \<Rightarrow> ident option list \<times> 'j world" where
  "removeBindingsContaining_loop cp ks w = fold (removeBindingsContaining_step cp) ks ([], w)"

definition Binding_removeBindingsContaining :: "destination \<Rightarrow> 'j world \<Rightarrow> ident \<times> 'j world" where
  "Binding_removeBindingsContaining cp w =
     (let (ps, w1) = removeBindingsContaining_loop cp (map fst (DAList.impl_of (C_bindings (conn w)))) w
      in Promise_all ps w1)"

section \<open>Connection: rebuilding\<close>

text \<open>\<^verbatim>\<open>completeConfiguration\<close>: the promises of everything in the three registries.\<close>

definition Connection_completeConfiguration :: "'j world \<Rightarrow> ident \<times> 'j world" where
  "Connection_completeConfiguration w =
     Promise_all
       (map (\<lambda>(k, e). E_initialized (exchanges w e)) (DAList.impl_of (C_exchanges (conn w))) @
        concat (map (\<lambda>(k, q). Q_initialized (queues w q) #
                      (case Q_consumerInitialized (queues w q) of None \<Rightarrow> [] | Some ci \<Rightarrow> [Some ci]))
                    (DAList.impl_of (C_queues (conn w)))) @
        map (\<lambda>(k, b). B_initialized (bindings w b)) (DAList.impl_of (C_bindings (conn w))))
       w"

text \<open>The three loops of \<^verbatim>\<open>_rebuildAll\<close>, each over the keys of a registry.\<close>

definition rebuildAll_exchange :: "string \<Rightarrow> 'j world \<Rightarrow> 'j world" where
  "rebuildAll_exchange exchangeId w =
     (case DAList.lookup (C_exchanges (conn w)) exchangeId of
        None \<Rightarrow> w
      | Some exchange \<Rightarrow>
          Exchange_initialize exchange
            (amqpts_log ''debug''
               (''Re-initialize Exchange '' @ [CHR 0x27] @ E_name (exchanges w exchange) @
                [CHR 0x27] @ ''.'') w))"

definition rebuildAll_queue :: "string \<Rightarrow> 'j world \<Rightarrow> 'j world" where
  "rebuildAll_queue queueId w =
     (case DAList.lookup (C_queues (conn w)) queueId of
        None \<Rightarrow> w
      | Some queue \<Rightarrow>
          (let consumer = Q_consumer (queues w queue);
               w1 = amqpts_log ''debug''
                      (''Re-initialize queue '' @ [CHR 0x27] @ Q_name (queues w queue) @
                       [CHR 0x27] @ ''.'') w;
               w2 = Queue_initialize queue w1
           in if consumer \<noteq> None
              then Queue_initializeConsumer queue
                     (amqpts_log ''debug''
                        (''Re-initialize consumer for queue '' @ [CHR 0x27] @
                         Q_name (queues w2 queue) @ [CHR 0x27] @ ''.'') w2)
              else w2))"

definition rebuildAll_binding :: "string \<Rightarrow> 'j world \<Rightarrow> 'j world" where
  "rebuildAll_binding bindingId w =
     (case DAList.lookup (C_bindings (conn w)) bindingId of
        None \<Rightarrow> w
      | Some binding \<Rightarrow>
          Binding_initialize binding
            (amqpts_log ''debug''
               (''Re-initialize binding from '' @ [CHR 0x27] @
                E_name (exchanges w (B_source (bindings w binding))) @ [CHR 0x27] @ '' to '' @
                [CHR 0x27] @ destination_name (B_destination (bindings w binding)) w @
                [CHR 0x27] @ ''.'') w))"

definition Connection_rebuildAll :: "error \<Rightarrow> 'j world \<Rightarrow> ident \<times> 'j world" where
  "Connection_rebuildAll err w =
     (let w1 = amqpts_log ''warn'' (''Connection error: '' @ message err) w;
          w2 = amqpts_log ''debug'' ''Rebuilding connection NOW.'' w1;
          w3 = snd (Connection_rebuildConnection w2);
          w4 = fold rebuildAll_exchange (map fst (DAList.impl_of (C_exchanges (conn w3)))) w3;
          w5 = fold rebuildAll_queue (map fst (DAList.impl_of (C_queues (conn w4)))) w4;
          w6 = fold rebuildAll_binding (map fst (DAList.impl_of (C_bindings (conn w5)))) w5;
          (p, w7) = new_Promise w6;
          (pa, w8) = Connection_completeConfiguration w7
      in (p, Promise_then pa (CbRebuildAll p) w8))"

text \<open>The two reactions to \<^verbatim>\<open>completeConfiguration()\<close> in \<^verbatim>\<open>_rebuildAll\<close>.\<close>

definition Connection_rebuildAll_then :: "ident \<Rightarrow> 'j pstate \<Rightarrow> 'j world \<Rightarrow> 'j world" where
  "Connection_rebuildAll_then p s w =
     (case s of
        Fulfilled v \<Rightarrow> settle p (Fulfilled AUndefined) (amqpts_log ''debug'' ''Rebuild success.'' w)
      | Rejected rejectReason \<Rightarrow>
          settle p (Rejected rejectReason) (amqpts_log ''debug'' ''Rebuild failed.'' w)
      | Pending \<Rightarrow> w)"

text \<open>The \<^verbatim>\<open>restart\<close> listener that \<^verbatim>\<open>tryToConnect\<close> puts on a connection.\<close>

definition Connection_restart :: "ident \<Rightarrow> error \<Rightarrow> 'j world \<Rightarrow> 'j world" where
  "Connection_restart connection err w =
     (if connection \<in> set (listeners w)
      then (let w1 = amqpts_log ''debug'' ''Connection error occurred.'' w;
                w2 = w1\<lparr>listeners := removeAll connection (listeners w1)\<rparr>
            in snd (Connection_rebuildAll err w2))
      else w)"

section \<open>Publishing\<close>

text \<open>
  \<^verbatim>\<open>Exchange.publish\<close>: the content is normalised, then the send waits for
  \<^verbatim>\<open>initialized\<close>. An error of the normalisation is thrown to the caller.
\<close>

definition Exchange_publish ::
  "'j runtime \<Rightarrow> ident \<Rightarrow> 'j js_any \<Rightarrow> string \<Rightarrow> Properties \<Rightarrow> 'j world \<Rightarrow> error + 'j world" where
  "Exchange_publish rt e content routingKey options w =
     (case Exchange_publish_content rt content options of
        Inl err \<Rightarrow> Inl err
      | Inr (content', options') \<Rightarrow>
          (case E_initialized (exchanges w e) of
             None \<Rightarrow> Inl (TypeError ''Cannot read property then of undefined'')
           | Some p \<Rightarrow> Inr (Promise_then p (CbExchangePublish e content' routingKey options') w)))"

text \<open>The reaction \<^verbatim>\<open>() => { try { this._channel.publish(...) } catch (err) { ... } }\<close>.\<close>

definition Exchange_publish_then ::
  "ident \<Rightarrow> Buffer \<Rightarrow> string \<Rightarrow> Properties \<Rightarrow> 'j world \<Rightarrow> 'j world" where
  "Exchange_publish_then e content routingKey options w =
     (case channel_call (E_channel (exchanges w e))
             (\<lambda>c. Publish c (E_name (exchanges w e)) routingKey (Some content) options) w of
        Inr w1 \<Rightarrow> w1
      | Inl err \<Rightarrow>
          (let w1 = amqpts_log ''warn'' (''Exchange publish error: '' @ message err) w;
               exchangeName = E_name (exchanges w1 e);
               (p, w2) = Connection_rebuildAll err w1
           in Promise_then p (CbExchangeRetransmit exchangeName content routingKey options) w2))"

text \<open>
  The reaction to the rebuild: the exchange is looked up by name and \<^verbatim>\<open>publish\<close> is
  called on it. An exception in a reaction (no such exchange) goes nowhere.
\<close>

definition Exchange_retransmit ::
  "'j runtime \<Rightarrow> string \<Rightarrow> Buffer \<Rightarrow> string \<Rightarrow> Properties \<Rightarrow> 'j world \<Rightarrow> 'j world" where
  "Exchange_retransmit rt exchangeName content routingKey options w =
     (let w1 = amqpts_log ''debug'' ''Retransmitting message.'' w
      in case DAList.lookup (C_exchanges (conn w1)) exchangeName of
           None \<Rightarrow> w1
         | Some e \<Rightarrow>
             (case Exchange_publish rt e (ABuffer content) routingKey options w1 of
                Inl err \<Rightarrow> w1
              | Inr w2 \<Rightarrow> w2))"

text \<open>The closure \<^verbatim>\<open>sendMessage\<close> of \<^verbatim>\<open>Queue.publish\<close>.\<close>

definition Queue_sendMessage :: "ident \<Rightarrow> Buffer \<Rightarrow> Properties \<Rightarrow> 'j world \<Rightarrow> 'j world" where
  "Queue_sendMessage q content options w =
     (case channel_call (Q_channel (queues w q))
             (\<lambda>c. SendToQueue c (Q_name (queues w q)) content options) w of
        Inr w1 \<Rightarrow> w1
      | Inl err \<Rightarrow>
          (let w1 = amqpts_log ''debug'' (''Queue publish error: '' @ message err) w;
               queueName = Q_name (queues w1 q);
               w2 = amqpts_log ''debug'' ''Try to rebuild connection, before Call.'' w1;
               (p, w3) = Connection_rebuildAll err w2
           in Promise_then p (CbQueueRetransmit queueName content options) w3))"

definition Queue_publish ::
  "'j runtime \<Rightarrow> ident \<Rightarrow> 'j js_any \<Rightarrow> Properties \<Rightarrow> 'j world \<Rightarrow> error + 'j world" where
  "Queue_publish rt q content options w =
     (case Queue_packMessageContent rt content options of
        Inl err \<Rightarrow> Inl err
      | Inr (content', options') \<Rightarrow>
          (case Q_initialized (queues w q) of
             None \<Rightarrow> Inl (TypeError ''Cannot read property isFulfilled of undefined'')
           | Some p \<Rightarrow>
               if isFulfilled p w then Inr (Queue_sendMessage q content' options' w)
               else Inr (Promise_then p (CbQueueSendMessage q content' options') w)))"

definition Queue_retransmit ::
  "'j runtime \<Rightarrow> string \<Rightarrow> Buffer \<Rightarrow> Properties \<Rightarrow> 'j world \<Rightarrow> 'j world" where
  "Queue_retransmit rt queueName content options w =
     (let w1 = amqpts_log ''debug'' ''Retransmitting message.'' w
      in case DAList.lookup (C_queues (conn w1)) queueName of
           None \<Rightarrow> w1
         | Some q \<Rightarrow>
             (case Queue_publish rt q (ABuffer content) options w1 of
                Inl err \<Rightarrow> w1
              | Inr w2 \<Rightarrow> w2))"

text \<open>
  \<^verbatim>\<open>Message.sendTo\<close> (\<^verbatim>\<open>send\<close> of an exchange or a queue delegates to it). The message
  is captured as it is at the call.
\<close>

definition content_any :: "Buffer option \<Rightarrow> 'j js_any" where
  "content_any c = (case c of None \<Rightarrow> AUndefined | Some b \<Rightarrow> ABuffer b)"

definition Message_sendMessage ::
  "Message \<Rightarrow> destination \<Rightarrow> string \<Rightarrow> string \<Rightarrow> 'j world \<Rightarrow> 'j world" where
  "Message_sendMessage m d exchange routingKey w =
     (case channel_call (destination_channel d w)
             (\<lambda>c. Publish c exchange routingKey (M_content m) (M_properties m)) w of
        Inr w1 \<Rightarrow> w1
      | Inl err \<Rightarrow>
          (let w1 = amqpts_log ''debug'' (''Publish error: '' @ message err) w;
               destinationName = destination_name d w1;
               w2 = amqpts_log ''debug'' ''Try to rebuild connection, before Call.'' w1;
               (p, w3) = Connection_rebuildAll err w2
           in Promise_then p (CbMessageRetransmit m d destinationName routingKey) w3))"

definition Message_sendTo :: "Message \<Rightarrow> destination \<Rightarrow> string \<Rightarrow> 'j world \<Rightarrow> error + 'j world" where
  "Message_sendTo m d routingKey w =
     (let exchange = (case d of ToQueue q \<Rightarrow> [] | ToExchange e \<Rightarrow> destination_name d w);
          routingKey' = (case d of ToQueue q \<Rightarrow> destination_name d w | ToExchange e \<Rightarrow> routingKey)
      in case destination_initialized d w of
           None \<Rightarrow> Inl (TypeError ''Cannot read property isFulfilled of undefined'')
         | Some p \<Rightarrow>
             if isFulfilled p w then Inr (Message_sendMessage m d exchange routingKey' w)
             else Inr (Promise_then p (CbMessageSendMessage m d exchange routingKey') w))"

definition Message_retransmit ::
  "'j runtime \<Rightarrow> Message \<Rightarrow> destination \<Rightarrow> string \<Rightarrow> string \<Rightarrow> 'j world \<Rightarrow> 'j world" where
  "Message_retransmit rt m d destinationName routingKey w =
     (let w1 = amqpts_log ''debug'' ''Retransmitting message.'' w
      in case d of
           ToQueue q0 \<Rightarrow>
             (case DAList.lookup (C_queues (conn w1)) destinationName of
                None \<Rightarrow> w1
              | Some q \<Rightarrow>
                  (case Queue_publish rt q (content_any (M_content m)) (M_properties m) w1 of
                     Inl err \<Rightarrow> w1
                   | Inr w2 \<Rightarrow> w2))
         | ToExchange e0 \<Rightarrow>
             (case DAList.lookup (C_exchanges (conn w1)) destinationName of
                None \<Rightarrow> w1
              | Some e \<Rightarrow>
                  (case Exchange_publish rt e (content_any (M_content m)) routingKey
                          (M_properties m) w1 of
                     Inl err \<Rightarrow> w1
                   | Inr w2 \<Rightarrow> w2)))"

section \<open>Message: acknowledging\<close>

text \<open>
  \<^verbatim>\<open>ack\<close>, \<^verbatim>\<open>nack\<close> and \<^verbatim>\<open>reject\<close> of a message: the world after the call, or the error
  that the channel throws.
\<close>

definition Message_ack :: "Message \<Rightarrow> bool option \<Rightarrow> 'j world \<Rightarrow> error + 'j world" where
  "Message_ack m allUpTo w =
     (if M_channel m \<noteq> None then channel_call (M_channel m) (\<lambda>c. Ack c (M_message m) allUpTo) w
      else Inr w)"

definition Message_nack :: "Message \<Rightarrow> bool option \<Rightarrow> 'j world \<Rightarrow> error + 'j world" where
  "Message_nack m requeue w =
     (if M_channel m \<noteq> None then channel_call (M_channel m) (\<lambda>c. Nack c (M_message m) requeue) w
      else Inr w)"

definition Message_reject :: "Message \<Rightarrow> bool option \<Rightarrow> 'j world \<Rightarrow> error + 'j world" where
  "Message_reject m requeue w =
     (if M_channel m \<noteq> None then channel_call (M_channel m) (\<lambda>c. Reject c (M_message m) requeue) w
      else Inr w)"

section \<open>Remote procedure calls\<close>

definition DIRECT_REPLY_TO_QUEUE :: string where
  "DIRECT_REPLY_TO_QUEUE = ''amq.rabbitmq.reply-to''"

definition rpc_consume :: "ident \<Rightarrow> libcall" where
  "rpc_consume c = Consume c DIRECT_REPLY_TO_QUEUE (Some \<lparr>rawMessage = None, noAck = Some True\<rparr>)"

text \<open>
  \<^verbatim>\<open>Exchange.rpc\<close>: the executor of the returned promise calls \<^verbatim>\<open>this._channel.consume\<close>
  at once; an exception in an executor rejects its promise.
\<close>

definition Exchange_rpc :: "ident \<Rightarrow> 'j js_any \<Rightarrow> string \<Rightarrow> 'j world \<Rightarrow> ident \<times> 'j world" where
  "Exchange_rpc e requestParameters routingKey w =
     (let (p, w1) = new_Promise w
      in case channel_call (E_channel (exchanges w1 e)) rpc_consume w1 of
           Inl err \<Rightarrow> (p, settle p (Rejected err) w1)
         | Inr w2 \<Rightarrow>
             (p, w2\<lparr>requests := requests w2 @
                     [ReqExchangeRpcConsume (the (E_channel (exchanges w1 e))) e p
                        requestParameters routingKey]\<rparr>))"

definition Exchange_rpc_consume_callback ::
  "'j runtime \<Rightarrow> ident \<Rightarrow> ident \<Rightarrow> ident \<Rightarrow> 'j js_any \<Rightarrow> string \<Rightarrow> reply \<Rightarrow> 'j world \<Rightarrow> 'j world" where
  "Exchange_rpc_consume_callback rt ch e p requestParameters routingKey r w =
     (case r of
        Failed err \<Rightarrow>
          settle p (Rejected (Error (''amqp-ts: Exchange.rpc error: '' @ message err))) w
      | Succeeded consumerTag \<Rightarrow>
          (let w1 = w\<lparr>subscriptions := subscriptions w @ [SubExchangeRpc ch e p consumerTag]\<rparr>
           in case new_Message rt requestParameters (no_properties\<lparr>replyTo := Some DIRECT_REPLY_TO_QUEUE\<rparr>) of
                Inl err \<Rightarrow> w1
              | Inr callMessage \<Rightarrow>
                  (case Message_sendTo callMessage (ToExchange e) routingKey w1 of
                     Inl err \<Rightarrow> w1
                   | Inr w2 \<Rightarrow> w2)))"

text \<open>The message callback of an rpc: cancel the consumer, resolve with the decoded reply.\<close>

definition Exchange_rpc_reply ::
  "'j runtime \<Rightarrow> ident \<Rightarrow> ident \<Rightarrow> string \<Rightarrow> AmqpLib_Message option \<Rightarrow> 'j world \<Rightarrow> 'j world" where
  "Exchange_rpc_reply rt e p consumerTag msg w =
     (case channel_call (E_channel (exchanges w e)) (\<lambda>c. Cancel c (Some consumerTag)) w of
        Inl err \<Rightarrow> w
      | Inr w1 \<Rightarrow>
          (case msg of
             None \<Rightarrow> w1
           | Some m \<Rightarrow>
               (case new_Message rt (ABuffer (raw_content m)) (raw_properties m) of
                  Inl err \<Rightarrow> w1
                | Inr resultMessage \<Rightarrow>
                    (case Message_getContent rt resultMessage of
                       Inl err \<Rightarrow> w1
                     | Inr v \<Rightarrow> settle p (Fulfilled v) w1))))"

text \<open>
  \<^verbatim>\<open>Queue.rpc\<close>: \<^verbatim>\<open>processRpc\<close> runs at once if \<^verbatim>\<open>initialized\<close> is fulfilled and as a
  reaction to it otherwise.
\<close>

definition Queue_processRpc :: "ident \<Rightarrow> ident \<Rightarrow> 'j js_any \<Rightarrow> 'j world \<Rightarrow> error + 'j world" where
  "Queue_processRpc q p requestParameters w =
     (case channel_call (Q_channel (queues w q)) rpc_consume w of
        Inl err \<Rightarrow> Inl err
      | Inr w1 \<Rightarrow>
          Inr (w1\<lparr>requests := requests w1 @
                    [ReqQueueRpcConsume (the (Q_channel (queues w q))) q p requestParameters]\<rparr>))"

definition Queue_rpc :: "ident \<Rightarrow> 'j js_any \<Rightarrow> 'j world \<Rightarrow> ident \<times> 'j world" where
  "Queue_rpc q requestParameters w =
     (let (p, w1) = new_Promise w
      in case Q_initialized (queues w1 q) of
           None \<Rightarrow> (p, settle p (Rejected (TypeError ''Cannot read property isFulfilled of undefined'')) w1)
         | Some qi \<Rightarrow>
             if isFulfilled qi w1
             then (case Queue_processRpc q p requestParameters w1 of
                     Inl err \<Rightarrow> (p, settle p (Rejected err) w1)
                   | Inr w2 \<Rightarrow> (p, w2))
             else (p, Promise_then qi (CbQueueProcessRpc q p requestParameters) w1))"

definition Queue_rpc_consume_callback ::
  "'j runtime \<Rightarrow> ident \<Rightarrow> ident \<Rightarrow> ident \<Rightarrow> 'j js_any \<Rightarrow> reply \<Rightarrow> 'j world \<Rightarrow> 'j world" where
  "Queue_rpc_consume_callback rt ch q p requestParameters r w =
     (case r of
        Failed err \<Rightarrow>
          settle p (Rejected (Error (''amqp-ts: Queue.rpc error: '' @ message err))) w
      | Succeeded consumerTag \<Rightarrow>
          (let w1 = w\<lparr>subscriptions := subscriptions w @ [SubQueueRpc ch q p consumerTag]\<rparr>
           in case Queue_publish rt q requestParameters
                     (no_properties\<lparr>replyTo := Some DIRECT_REPLY_TO_QUEUE\<rparr>) w1 of
                Inl err \<Rightarrow> w1
              | Inr w2 \<Rightarrow> w2))"

definition Queue_rpc_reply ::
  "'j runtime \<Rightarrow> ident \<Rightarrow> ident \<Rightarrow> string \<Rightarrow> AmqpLib_Message option \<Rightarrow> 'j world \<Rightarrow> 'j world" where
  "Queue_rpc_reply rt q p consumerTag msg w =
     (case channel_call (Q_channel (queues w q)) (\<lambda>c. Cancel c (Some consumerTag)) w of
        Inl err \<Rightarrow> w
      | Inr w1 \<Rightarrow>
          (case msg of
             None \<Rightarrow> w1
           | Some m \<Rightarrow>
               (case Queue_unpackMessageContent rt m of
                  Inl err \<Rightarrow> w1
                | Inr v \<Rightarrow> settle p (Fulfilled v) w1)))"

section \<open>Deleting and closing an exchange or a queue\<close>

text \<open>\<^verbatim>\<open>this._channel.close(cb)\<close>: after it, every call on the channel throws.\<close>

definition channel_close :: "ident option \<Rightarrow> 'j world \<Rightarrow> error + 'j world" where
  "channel_close ch w =
     (case channel_call ch CloseChannel w of
        Inl err \<Rightarrow> Inl err
      | Inr w1 \<Rightarrow> Inr (w1\<lparr>closed := (closed w1)(the ch := True)\<rparr>))"

text \<open>
  \<^verbatim>\<open>Exchange.delete\<close> and \<^verbatim>\<open>Exchange.close\<close>: the first reaction removes the bindings,
  the second runs when those removals are done.
\<close>

definition Exchange_delete :: "ident \<Rightarrow> 'j world \<Rightarrow> ident \<times> 'j world" where
  "Exchange_delete e w =
     (let (p, w1) = new_Promise w
      in case E_initialized (exchanges w1 e) of
           None \<Rightarrow> (p, settle p (Rejected (TypeError ''Cannot read property then of undefined'')) w1)
         | Some ei \<Rightarrow> (p, Promise_then ei (CbExchangeDelete1 e p) w1))"

definition Exchange_delete_then1 :: "ident \<Rightarrow> ident \<Rightarrow> 'j world \<Rightarrow> 'j world" where
  "Exchange_delete_then1 e p w =
     (let (pa, w1) = Binding_removeBindingsContaining (ToExchange e) w
      in Promise_then pa (CbExchangeDelete2 e p) w1)"

definition Exchange_delete_then2 :: "ident \<Rightarrow> ident \<Rightarrow> 'j world \<Rightarrow> 'j world" where
  "Exchange_delete_then2 e p w =
     (case channel_call (E_channel (exchanges w e)) (\<lambda>c. DeleteExchange c (E_name (exchanges w e))) w of
        Inl err \<Rightarrow> w
      | Inr w1 \<Rightarrow> w1\<lparr>requests := requests w1 @ [ReqDeleteExchange e p]\<rparr>)"

definition Exchange_deleteExchange_callback :: "ident \<Rightarrow> ident \<Rightarrow> reply \<Rightarrow> 'j world \<Rightarrow> 'j world" where
  "Exchange_deleteExchange_callback e p r w =
     (case r of
        Failed err \<Rightarrow> settle p (Rejected err) w
      | Succeeded ok \<Rightarrow>
          (case channel_close (E_channel (exchanges w e)) w of
             Inl err \<Rightarrow> w
           | Inr w1 \<Rightarrow> w1\<lparr>requests := requests w1 @ [ReqExchangeDeleteClose e p]\<rparr>))"

definition Exchange_invalidate :: "ident \<Rightarrow> 'j world \<Rightarrow> 'j world" where
  "Exchange_invalidate e w =
     (let w1 = w\<lparr>exchanges := (exchanges w)(e := (exchanges w e)\<lparr>E_initialized := None\<rparr>)\<rparr>
      in w1\<lparr>conn := (conn w1)\<lparr>C_exchanges :=
                 DAList.delete (E_name (exchanges w1 e)) (C_exchanges (conn w1))\<rparr>\<rparr>)"

definition Exchange_delete_close_callback :: "ident \<Rightarrow> ident \<Rightarrow> reply \<Rightarrow> 'j world \<Rightarrow> 'j world" where
  "Exchange_delete_close_callback e p r w =
     (let w1 = Exchange_invalidate e w
      in case r of
           Failed err \<Rightarrow> settle p (Rejected err) w1
         | Succeeded ok \<Rightarrow>
             settle p (Fulfilled AUndefined)
               (w1\<lparr>exchanges := (exchanges w1)(e := (exchanges w1 e)\<lparr>E_channel := None\<rparr>)\<rparr>))"

definition Exchange_close :: "ident \<Rightarrow> 'j world \<Rightarrow> ident \<times> 'j world" where
  "Exchange_close e w =
     (let (p, w1) = new_Promise w
      in case E_initialized (exchanges w1 e) of
           None \<Rightarrow> (p, settle p (Rejected (TypeError ''Cannot read property then of undefined'')) w1)
         | Some ei \<Rightarrow> (p, Promise_then ei (CbExchangeClose1 e p) w1))"

definition Exchange_close_then1 :: "ident \<Rightarrow> ident \<Rightarrow> 'j world \<Rightarrow> 'j world" where
  "Exchange_close_then1 e p w =
     (let (pa, w1) = Binding_removeBindingsContaining (ToExchange e) w
      in Promise_then pa (CbExchangeClose2 e p) w1)"

definition Exchange_close_then2 :: "ident \<Rightarrow> ident \<Rightarrow> 'j world \<Rightarrow> 'j world" where
  "Exchange_close_then2 e p w =
     (let w1 = Exchange_invalidate e w
      in case channel_close (E_channel (exchanges w1 e)) w1 of
           Inl err \<Rightarrow> w1
         | Inr w2 \<Rightarrow> w2\<lparr>requests := requests w2 @ [ReqExchangeClose e p]\<rparr>)"

definition Exchange_close_callback :: "ident \<Rightarrow> ident \<Rightarrow> reply \<Rightarrow> 'j world \<Rightarrow> 'j world" where
  "Exchange_close_callback e p r w =
     (case r of
        Failed err \<Rightarrow> settle p (Rejected err) w
      | Succeeded ok \<Rightarrow>
          settle p (Fulfilled AUndefined)
            (w\<lparr>exchanges := (exchanges w)(e := (exchanges w e)\<lparr>E_channel := None\<rparr>)\<rparr>))"

definition Queue_delete :: "ident \<Rightarrow> 'j world \<Rightarrow> ident \<times> 'j world" where
  "Queue_delete q w =
     (let (p, w1) = new_Promise w
      in case Q_initialized (queues w1 q) of
           None \<Rightarrow> (p, settle p (Rejected (TypeError ''Cannot read property then of undefined'')) w1)
         | Some qi \<Rightarrow> (p, Promise_then qi (CbQueueDelete1 q p) w1))"

definition Queue_delete_then1 :: "ident \<Rightarrow> ident \<Rightarrow> 'j world \<Rightarrow> 'j world" where
  "Queue_delete_then1 q p w =
     (let (pa, w1) = Binding_removeBindingsContaining (ToQueue q) w
      in Promise_then pa (CbQueueDelete2 q p) w1)"

definition Queue_delete_then2 :: "ident \<Rightarrow> ident \<Rightarrow> 'j world \<Rightarrow> 'j world" where
  "Queue_delete_then2 q p w =
     (case channel_call (Q_channel (queues w q)) (\<lambda>c. DeleteQueue c (Q_name (queues w q))) w of
        Inl err \<Rightarrow> w
      | Inr w1 \<Rightarrow> w1\<lparr>requests := requests w1 @ [ReqDeleteQueue q p]\<rparr>)"

definition Queue_invalidate :: "ident \<Rightarrow> 'j world \<Rightarrow> 'j world" where
  "Queue_invalidate q w =
     (let w1 = w\<lparr>queues := (queues w)(q := (queues w q)\<lparr>Q_initialized := None\<rparr>)\<rparr>
      in w1\<lparr>conn := (conn w1)\<lparr>C_queues :=
                 DAList.delete (Q_name (queues w1 q)) (C_queues (conn w1))\<rparr>\<rparr>)"

definition Queue_deleteQueue_callback :: "ident \<Rightarrow> ident \<Rightarrow> reply \<Rightarrow> 'j world \<Rightarrow> 'j world" where
  "Queue_deleteQueue_callback q p r w =
     (case r of
        Failed err \<Rightarrow> settle p (Rejected err) w
      | Succeeded ok \<Rightarrow>
          (let w1 = Queue_invalidate q w
           in case channel_close (Q_channel (queues w1 q)) w1 of
                Inl err \<Rightarrow> w1
              | Inr w2 \<Rightarrow> w2\<lparr>requests := requests w2 @ [ReqQueueDeleteClose q p]\<rparr>))"

definition Queue_close_callback :: "ident \<Rightarrow> ident \<Rightarrow> reply \<Rightarrow> 'j world \<Rightarrow> 'j world" where
  "Queue_close_callback q p r w =
     (case r of
        Failed err \<Rightarrow> settle p (Rejected err) w
      | Succeeded ok \<Rightarrow>
          settle p (Fulfilled AUndefined)
            (w\<lparr>queues := (queues w)(q := (queues w q)\<lparr>Q_channel := None\<rparr>)\<rparr>))"

definition Queue_close :: "ident \<Rightarrow> 'j world \<Rightarrow> ident \<times> 'j world" where
  "Queue_close q w =
     (let (p, w1) = new_Promise w
      in case Q_initialized (queues w1 q) of
           None \<Rightarrow> (p, settle p (Rejected (TypeError ''Cannot read property then of undefined'')) w1)
         | Some qi \<Rightarrow> (p, Promise_then qi (CbQueueClose1 q p) w1))"

definition Queue_close_then1 :: "ident \<Rightarrow> ident \<Rightarrow> 'j world \<Rightarrow> 'j world" where
  "Queue_close_then1 q p w =
     (let (pa, w1) = Binding_removeBindingsContaining (ToQueue q) w
      in Promise_then pa (CbQueueClose2 q p) w1)"

definition Queue_close_then2 :: "ident \<Rightarrow> ident \<Rightarrow> 'j world \<Rightarrow> 'j world" where
  "Queue_close_then2 q p w =
     (let w1 = Queue_invalidate q w
      in case channel_close (Q_channel (queues w1 q)) w1 of
           Inl err \<Rightarrow> w1
         | Inr w2 \<Rightarrow> w2\<lparr>requests := requests w2 @ [ReqQueueClose q p]\<rparr>)"

section \<open>The event loop\<close>

text \<open>
  Running a queued reaction. A reaction registered with \<^verbatim>\<open>then(f)\<close> runs \<open>f\<close> only on
  fulfilment; the reactions of \<^verbatim>\<open>Promise.all\<close>, of \<^verbatim>\<open>then(f, g)\<close> in \<^verbatim>\<open>_rebuildAll\<close> and
  of \<^verbatim>\<open>catch\<close> also see a rejection.
\<close>

definition run_fulfilled :: "'j runtime \<Rightarrow> 'j callback \<Rightarrow> 'j world \<Rightarrow> 'j world" where
  "run_fulfilled rt cb w =
     (case cb of
        CbConnectionCatch \<Rightarrow> w
      | CbExchangeInitialize e p \<Rightarrow> Exchange_initialize_then e p w
      | CbQueueInitialize q p \<Rightarrow> Queue_initialize_then q p w
      | CbBindingInitialize b p \<Rightarrow> Binding_initialize_then b p w
      | CbInitializeConsumer q p \<Rightarrow> Queue_initializeConsumer_then q p w
      | CbRebuildAll p \<Rightarrow> w
      | CbPromiseAll q \<Rightarrow> w
      | CbExchangePublish e content routingKey options \<Rightarrow>
          Exchange_publish_then e content routingKey options w
      | CbExchangeRetransmit exchangeName content routingKey options \<Rightarrow>
          Exchange_retransmit rt exchangeName content routingKey options w
      | CbQueueSendMessage q content options \<Rightarrow> Queue_sendMessage q content options w
      | CbQueueRetransmit queueName content options \<Rightarrow>
          Queue_retransmit rt queueName content options w
      | CbMessageSendMessage m d exchange routingKey \<Rightarrow> Message_sendMessage m d exchange routingKey w
      | CbMessageRetransmit m d destinationName routingKey \<Rightarrow>
          Message_retransmit rt m d destinationName routingKey w
      | CbQueueProcessRpc q p requestParameters \<Rightarrow>
          (case Queue_processRpc q p requestParameters w of Inl err \<Rightarrow> w | Inr w1 \<Rightarrow> w1)
      | CbStopConsumer q p \<Rightarrow> Queue_stopConsumer_then q p w
      | CbBindingDelete b p \<Rightarrow> Binding_delete_then b p w
      | CbExchangeDelete1 e p \<Rightarrow> Exchange_delete_then1 e p w
      | CbExchangeDelete2 e p \<Rightarrow> Exchange_delete_then2 e p w
      | CbExchangeClose1 e p \<Rightarrow> Exchange_close_then1 e p w
      | CbExchangeClose2 e p \<Rightarrow> Exchange_close_then2 e p w
      | CbQueueDelete1 q p \<Rightarrow> Queue_delete_then1 q p w
      | CbQueueDelete2 q p \<Rightarrow> Queue_delete_then2 q p w
      | CbQueueClose1 q p \<Rightarrow> Queue_close_then1 q p w
      | CbQueueClose2 q p \<Rightarrow> Queue_close_then2 q p w)"

definition run_callback :: "'j runtime \<Rightarrow> 'j callback \<Rightarrow> 'j pstate \<Rightarrow> 'j world \<Rightarrow> 'j world" where
  "run_callback rt cb s w =
     (case cb of
        CbConnectionCatch \<Rightarrow> Connection_catch s w
      | CbRebuildAll p \<Rightarrow> Connection_rebuildAll_then p s w
      | CbPromiseAll q \<Rightarrow> Promise_all_callback q s w
      | _ \<Rightarrow> (case s of Fulfilled v \<Rightarrow> run_fulfilled rt cb w | _ \<Rightarrow> w))"

text \<open>amqplib (or the timer) calls back: the closure that was handed over runs.\<close>

definition handle_request :: "'j runtime \<Rightarrow> 'j request \<Rightarrow> reply \<Rightarrow> 'j world \<Rightarrow> 'j world" where
  "handle_request rt req r w =
     (case req of
        ReqConnect retry p \<Rightarrow> Connection_tryToConnect_callback retry p r w
      | ReqTimeout retry p \<Rightarrow> Connection_tryToConnect retry p w
      | ReqCreateChannelExchange e p \<Rightarrow> Exchange_createChannel_callback e p r w
      | ReqAssertExchange e p \<Rightarrow> Exchange_assertExchange_callback e p r w
      | ReqCreateChannelQueue q p \<Rightarrow> Queue_createChannel_callback q p r w
      | ReqAssertQueue q p \<Rightarrow> Queue_assertQueue_callback q p r w
      | ReqBind b p \<Rightarrow> Binding_bind_callback b p r w
      | ReqUnbind b p \<Rightarrow> Binding_unbind_callback b p r w
      | ReqConsume ch q p f \<Rightarrow> Queue_consume_callback ch q p f r w
      | ReqCancel q p \<Rightarrow> Queue_cancel_callback q p r w
      | ReqExchangeRpcConsume ch e p requestParameters routingKey \<Rightarrow>
          Exchange_rpc_consume_callback rt ch e p requestParameters routingKey r w
      | ReqQueueRpcConsume ch q p requestParameters \<Rightarrow>
          Queue_rpc_consume_callback rt ch q p requestParameters r w
      | ReqDeleteExchange e p \<Rightarrow> Exchange_deleteExchange_callback e p r w
      | ReqExchangeDeleteClose e p \<Rightarrow> Exchange_delete_close_callback e p r w
      | ReqExchangeClose e p \<Rightarrow> Exchange_close_callback e p r w
      | ReqDeleteQueue q p \<Rightarrow> Queue_deleteQueue_callback q p r w
      | ReqQueueDeleteClose q p \<Rightarrow> Queue_close_callback q p r w
      | ReqQueueClose q p \<Rightarrow> Queue_close_callback q p r w)"

text \<open>The broker delivers a message to a consumer (on a channel that is still open).\<close>

definition deliver :: "'j runtime \<Rightarrow> subscription \<Rightarrow> AmqpLib_Message option \<Rightarrow> 'j world \<Rightarrow> 'j world" where
  "deliver rt sub msg w =
     (case sub of
        SubQueue ch q f \<Rightarrow>
          (if closed w ch then w
           else (case f of
                   processedMsgConsumer \<Rightarrow> Queue_processedMsgConsumer rt q msg w
                 | rawMsgConsumer \<Rightarrow> Queue_rawMsgConsumer q msg w
                 | activateConsumerWrapper \<Rightarrow> Queue_activateConsumerWrapper rt q msg w))
      | SubExchangeRpc ch e p consumerTag \<Rightarrow>
          (if closed w ch then w else Exchange_rpc_reply rt e p consumerTag msg w)
      | SubQueueRpc ch q p consumerTag \<Rightarrow>
          (if closed w ch then w else Queue_rpc_reply rt q p consumerTag msg w))"

text \<open>What the application calls.\<close>

datatype 'j api =
    DeclareExchange string "string option" "DeclarationOptions option"
  | DeclareQueue string "DeclarationOptions option"
  | ExchangePublish ident "'j js_any" string Properties
  | QueuePublish ident "'j js_any" Properties
  | Send Message destination string
  | ExchangeRpc ident "'j js_any" string
  | QueueRpc ident "'j js_any"
  | StartConsumer ident "'j consumer_arg \<Rightarrow> 'j consumer_result" ConsumerOptions
  | ActivateConsumer ident "'j consumer_arg \<Rightarrow> 'j consumer_result" ConsumerOptions
  | StopConsumer ident
  | Bind destination ident string "(string \<times> string) list"
  | ExchangeDelete ident
  | ExchangeClose ident
  | QueueDelete ident
  | QueueClose ident
  | RebuildAll error

definition call :: "'j runtime \<Rightarrow> 'j api \<Rightarrow> 'j world \<Rightarrow> 'j world" where
  "call rt a w =
     (case a of
        DeclareExchange name type options \<Rightarrow> snd (Connection_declareExchange name type options w)
      | DeclareQueue name options \<Rightarrow> snd (Connection_declareQueue name options w)
      | ExchangePublish e content routingKey options \<Rightarrow>
          (case Exchange_publish rt e content routingKey options w of Inl err \<Rightarrow> w | Inr w1 \<Rightarrow> w1)
      | QueuePublish q content options \<Rightarrow>
          (case Queue_publish rt q content options w of Inl err \<Rightarrow> w | Inr w1 \<Rightarrow> w1)
      | Send m d routingKey \<Rightarrow>
          (case Message_sendTo m d routingKey w of Inl err \<Rightarrow> w | Inr w1 \<Rightarrow> w1)
      | ExchangeRpc e requestParameters routingKey \<Rightarrow> snd (Exchange_rpc e requestParameters routingKey w)
      | QueueRpc q requestParameters \<Rightarrow> snd (Queue_rpc q requestParameters w)
      | StartConsumer q onMessage options \<Rightarrow> snd (Queue_startConsumer q onMessage options w)
      | ActivateConsumer q onMessage options \<Rightarrow> snd (Queue_activateConsumer q onMessage options w)
      | StopConsumer q \<Rightarrow> snd (Queue_stopConsumer q w)
      | Bind d source pattern args \<Rightarrow> snd (bind d source pattern args w)
      | ExchangeDelete e \<Rightarrow> snd (Exchange_delete e w)
      | ExchangeClose e \<Rightarrow> snd (Exchange_close e w)
      | QueueDelete q \<Rightarrow> snd (Queue_delete q w)
      | QueueClose q \<Rightarrow> snd (Queue_close q w)
      | RebuildAll err \<Rightarrow> snd (Connection_rebuildAll err w))"

text \<open>
  One turn of the event loop: a call of the application, a callback from amqplib or a
  timer (the \<open>i\<close>-th outstanding one), the next queued reaction, a delivery, an
  \<^verbatim>\<open>error\<close> event of a connection, or a channel that the broker drops silently.
\<close>

datatype 'j event =
    Call "'j api"
  | Callback nat reply
  | Job
  | Delivery nat "AmqpLib_Message option"
  | ConnectionError ident error
  | ChannelDropped ident

definition step :: "'j runtime \<Rightarrow> 'j event \<Rightarrow> 'j world \<Rightarrow> 'j world" where
  "step rt ev w =
     (case ev of
        Call a \<Rightarrow> call rt a w
      | Callback i r \<Rightarrow>
          (if i < length (requests w)
           then handle_request rt (requests w ! i) r
                  (w\<lparr>requests := take i (requests w) @ drop (Suc i) (requests w)\<rparr>)
           else w)
      | Job \<Rightarrow>
          (case jobs w of
             [] \<Rightarrow> w
           | (cb, s) # js \<Rightarrow> run_callback rt cb s (w\<lparr>jobs := js\<rparr>))
      | Delivery i msg \<Rightarrow>
          (if i < length (subscriptions w) then deliver rt (subscriptions w ! i) msg w else w)
      | ConnectionError connection err \<Rightarrow> Connection_restart connection err w
      | ChannelDropped ch \<Rightarrow> w\<lparr>closed := (closed w)(ch := True)\<rparr>)"

definition run :: "'j runtime \<Rightarrow> 'j event list \<Rightarrow> 'j world \<Rightarrow> 'j world" where
  "run rt evs w = fold (step rt) evs w"

text \<open>
  \<^verbatim>\<open>new Connection(url, socketOptions, reconnectStrategy)\<close> in a world where nothing has
  happened yet: the constructor fills the fields and calls \<^verbatim>\<open>rebuildConnection\<close>.
\<close>

definition default_Exchange :: Exchange where
  "default_Exchange = \<lparr>E_initialized = None, E_channel = None, E_name = [], E_type = None,
                       E_options = None\<rparr>"

definition default_Queue :: "'j Queue" where
  "default_Queue = \<lparr>Q_initialized = None, Q_channel = None, Q_name = [], Q_options = None,
                    Q_consumer = None, Q_isStartConsumer = False, Q_rawConsumer = False,
                    Q_consumerOptions = None, Q_consumerTag = None, Q_consumerInitialized = None\<rparr>"

definition default_Binding :: Binding where
  "default_Binding = \<lparr>B_initialized = None, B_source = 0, B_destination = ToExchange 0,
                      B_pattern = [], B_args = []\<rparr>"

definition empty_world :: "Connection \<Rightarrow> 'j world" where
  "empty_world c =
     \<lparr>conn = c, exchanges = (\<lambda>i. default_Exchange), queues = (\<lambda>i. default_Queue),
      bindings = (\<lambda>i. default_Binding),
      promises = (\<lambda>i. \<lparr>P_state = Pending, P_waiting = []\<rparr>),
      all_remaining = (\<lambda>i. 0), closed = (\<lambda>i. False), listeners = [], next_id = 0,
      jobs = [], requests = [], subscriptions = [], trace = [], logs = []\<rparr>"

definition new_Connection :: "string \<Rightarrow> ReconnectStrategy \<Rightarrow> 'j world" where
  "new_Connection url reconnectStrategy =
     snd (Connection_rebuildConnection
            (empty_world
               \<lparr>C_initialized = None, C_url = url, C_reconnectStrategy = reconnectStrategy,
                C_connectedBefore = False, C_connection = None, C_rebuilding = False,
                C_exchanges = DAList.empty, C_queues = DAList.empty, C_bindings = DAList.empty\<rparr>))"

section \<open>A platform and inputs for closed examples\<close>

text \<open>
  A small platform on which closed instances of the theorems are evaluated: strings are
  ASCII (one byte per character), the other values are natural numbers, printed in
  decimal by \<^verbatim>\<open>JSON.stringify\<close>; \<^verbatim>\<open>JSON.parse\<close> reads the one text the examples use.
\<close>

definition example_runtime :: "nat runtime" where
  "example_runtime =
     \<lparr>Buffer_of_string = map of_char,
      Buffer_toString = map (\<lambda>b. char_of (unat b)),
      JSON_stringify = (\<lambda>v. case v of AOther n \<Rightarrow> Some (string_of_nat n) | _ \<Rightarrow> None),
      JSON_parse = (\<lambda>s. if s = ''7'' then Inr (AOther 7) else Inl (SyntaxError s))\<rparr>"

definition example_Message :: Message where
  "example_Message = \<lparr>M_content = None, M_fields = None, M_properties = no_properties,
                       M_channel = None, M_message = None\<rparr>"






text \<open>
  Connect attempts that all fail: amqplib reports each error to the one outstanding
  callback, and the timer of the retry (if one was set) fires.
\<close>

definition connect_failures :: "error list \<Rightarrow> 'j event list" where
  "connect_failures errs =
     concat (map (\<lambda>e. [Callback 0 (Failed e), Callback 0 (Succeeded [])]) errs)"

text \<open>A connection to a local broker, just constructed, and scenarios on it.\<close>

definition local_world :: "nat world" where
  "local_world = new_Connection ''amqp://localhost'' \<lparr>retries = 0, interval = 1500\<rparr>"

text \<open>
  The application declares exchange \<^verbatim>\<open>e1\<close>; the connection is established; the exchange
  gets its channel and the broker confirms the declaration.
\<close>

definition exchange_initialized_events :: "nat event list" where
  "exchange_initialized_events =
     [Call (DeclareExchange ''e1'' (Some ''direct'') None), Callback 0 (Succeeded []), Job, Job,
      Callback 0 (Succeeded []), Callback 0 (Succeeded [])]"

text \<open>The same, but \<^verbatim>\<open>createChannel\<close> reports an error.\<close>

definition exchange_channel_failure_events :: "nat event list" where
  "exchange_channel_failure_events =
     [Call (DeclareExchange ''e1'' (Some ''direct'') None), Callback 0 (Succeeded []), Job, Job,
      Callback 0 (Failed (Error ''no channel''))]"

text \<open>The same, but the broker refuses the declaration.\<close>

definition exchange_declaration_failure_events :: "nat event list" where
  "exchange_declaration_failure_events =
     [Call (DeclareExchange ''e1'' (Some ''direct'') None), Callback 0 (Succeeded []), Job, Job,
      Callback 0 (Succeeded []), Callback 0 (Failed (Error ''PRECONDITION_FAILED''))]"

text \<open>
  The exchange is initialised; then the connection emits \<^verbatim>\<open>error\<close> and the rebuild
  starts: the exchange has a new, pending \<^verbatim>\<open>initialized\<close> and still its old channel.
\<close>

definition exchange_rebuilding_events :: "nat event list" where
  "exchange_rebuilding_events =
     exchange_initialized_events @ [ConnectionError 3 (Error ''Heartbeat timeout'')]"

section \<open>What the round trip asks of the platform\<close>



section \<open>The rebuild guard\<close>

text \<open>
  A connect attempt is in flight while amqplib still owes the callback of
  \<^verbatim>\<open>AmqpLib.connect\<close>, or while the timer of a retry is set; both carry the \<^verbatim>\<open>initialized\<close>
  promise that \<^verbatim>\<open>rebuildConnection\<close> created for them.
\<close>

fun is_connect_request :: "'j request \<Rightarrow> bool" where
  "is_connect_request (ReqConnect retry p) = True"
| "is_connect_request (ReqTimeout retry p) = True"
| "is_connect_request r = False"

fun connect_promise :: "'j request \<Rightarrow> ident option" where
  "connect_promise (ReqConnect retry p) = Some p"
| "connect_promise (ReqTimeout retry p) = Some p"
| "connect_promise r = None"

abbreviation connect_requests :: "'j world \<Rightarrow> 'j request list" where
  "connect_requests w \<equiv> filter is_connect_request (requests w)"

text \<open>
  While the guard \<^verbatim>\<open>_rebuilding\<close> is set there is one connect attempt in flight, and it
  settles the promise in \<^verbatim>\<open>initialized\<close>; while it is not set there is none.
\<close>

definition rebuild_invariant :: "'j world \<Rightarrow> bool" where
  "rebuild_invariant w =
     (map connect_promise (connect_requests w) =
        (if C_rebuilding (conn w) then [C_initialized (conn w)] else []))"

text \<open>
  The guard, the promise and the attempt in flight; a function keeps them when it leaves
  them as they are while the guard is set.
\<close>

definition rebuild_state :: "'j world \<Rightarrow> bool \<times> ident option \<times> 'j request list" where
  "rebuild_state w = (C_rebuilding (conn w), C_initialized (conn w), connect_requests w)"

definition keeps_rebuild :: "bool \<times> ident option \<times> 'j request list \<Rightarrow> 'j world \<Rightarrow> bool" where
  "keeps_rebuild c w = (rebuild_invariant w \<and> (fst c \<longrightarrow> rebuild_state w = c))"

text \<open>
  The event that settles the connect attempt: amqplib calls back with a connection, or
  with an error when \<^verbatim>\<open>retries === 0 || retries > retry\<close> is false (no retry is left).
\<close>

definition connect_settles :: "'j event \<Rightarrow> 'j world \<Rightarrow> bool" where
  "connect_settles ev w =
     (case ev of
        Callback i r \<Rightarrow>
          i < length (requests w) \<and>
          (case requests w ! i of
             ReqConnect retry p \<Rightarrow>
               (case r of
                  Succeeded ok \<Rightarrow> True
                | Failed err \<Rightarrow>
                    \<not> (retries (C_reconnectStrategy (conn w)) = 0 \<or>
                       retries (C_reconnectStrategy (conn w)) > int retry))
           | _ \<Rightarrow> False)
      | _ \<Rightarrow> False)"

text \<open>The events that belong to the connect attempt: its callback and its retry timer.\<close>

definition connect_event :: "'j event \<Rightarrow> 'j world \<Rightarrow> bool" where
  "connect_event ev w =
     (case ev of
        Callback i r \<Rightarrow> i < length (requests w) \<and> is_connect_request (requests w ! i)
      | _ \<Rightarrow> False)"

section \<open>Properties\<close>

text \<open>All definitions of the model, for evaluating it on closed inputs.\<close>

lemmas world_defs =
  JSON_stringify_of_def new_Buffer_def no_properties_def contentType_or_def
  Message_setContent_def new_Message_def Message_getContent_def Queue_packMessageContent_def
  Queue_unpackMessageContent_def Exchange_publish_content_def amqpts_log_def alloc_def
  new_Promise_def settle_def Promise_then_def isFulfilled_def Promise_all_def
  Promise_all_callback_def channel_call_def Connection_tryToConnect_def
  Connection_rebuildConnection_callback_def Connection_tryToConnect_callback_def
  Connection_rebuildConnection_def Connection_catch_def Exchange_initialize_def
  Exchange_initialize_then_def Exchange_createChannel_callback_def
  Exchange_assertExchange_callback_def new_Exchange_def Queue_initialize_def
  Queue_initialize_then_def Queue_createChannel_callback_def Queue_assertQueue_callback_def
  new_Queue_def Connection_declareExchange_def Connection_declareQueue_def truthy_def
  processedMsgConsumer_try_def consumer_error_def Queue_processedMsgConsumer_def
  Queue_rawMsgConsumer_def activateConsumerWrapper_try_def Queue_activateConsumerWrapper_def
  Queue_initializeConsumer_def Queue_initializeConsumer_then_def Queue_consume_callback_def
  rejected_Promise_def Queue_startConsumer_def Queue_activateConsumer_def
  Queue_stopConsumer_def Queue_stopConsumer_then_def Queue_cancel_callback_def
  destination_name_def destination_initialized_def destination_channel_def Binding_id_def
  Binding_initialize_def Binding_initialize_then_def Binding_bind_callback_def new_Binding_def
  bind_def Binding_delete_def Binding_delete_then_def Binding_unbind_callback_def
  binding_contains_def removeBindingsContaining_step_def
  removeBindingsContaining_loop_def Binding_removeBindingsContaining_def
  Connection_completeConfiguration_def rebuildAll_exchange_def rebuildAll_queue_def
  rebuildAll_binding_def Connection_rebuildAll_def Connection_rebuildAll_then_def
  Connection_restart_def Exchange_publish_def Exchange_publish_then_def Exchange_retransmit_def
  Queue_sendMessage_def Queue_publish_def Queue_retransmit_def content_any_def
  Message_sendMessage_def Message_sendTo_def Message_retransmit_def Message_ack_def
  Message_nack_def Message_reject_def DIRECT_REPLY_TO_QUEUE_def rpc_consume_def
  Exchange_rpc_def Exchange_rpc_consume_callback_def Exchange_rpc_reply_def
  Queue_processRpc_def Queue_rpc_def Queue_rpc_consume_callback_def Queue_rpc_reply_def
  channel_close_def Exchange_delete_def Exchange_delete_then1_def Exchange_delete_then2_def
  Exchange_deleteExchange_callback_def Exchange_invalidate_def
  Exchange_delete_close_callback_def Exchange_close_def Exchange_close_then1_def
  Exchange_close_then2_def Exchange_close_callback_def Queue_delete_def Queue_delete_then1_def
  Queue_delete_then2_def Queue_invalidate_def Queue_deleteQueue_callback_def
  Queue_close_callback_def Queue_close_def Queue_close_then1_def Queue_close_then2_def
  run_fulfilled_def run_callback_def handle_request_def deliver_def call_def step_def run_def
  default_Exchange_def default_Queue_def default_Binding_def empty_world_def new_Connection_def

lemmas registry_simps =
  DAList.lookup.rep_eq DAList.update.rep_eq DAList.delete.rep_eq DAList.empty.rep_eq


subsection \<open>Content encoding\<close>

text \<open>
  Claim C5, at an input where the code departs from it. The claim: on each of the three
  encoding paths a value that is neither a string nor a Buffer is JSON-stringified and
  \<^verbatim>\<open>contentType\<close> defaults to \<^verbatim>\<open>application/json\<close>, a content type supplied by the caller
  being preserved. For the value 7 published with \<^verbatim>\<open>contentType: "text/plain"\<close>,
  \<^verbatim>\<open>Message.setContent\<close> and \<^verbatim>\<open>Queue._packMessageContent\<close> replace the caller's content type
  by \<^verbatim>\<open>application/json\<close>; only the normalisation inside \<^verbatim>\<open>Exchange.publish\<close> keeps it.
\<close>

theorem contentType_of_other_value:
  "(\<exists>m'. Message_setContent example_runtime (AOther 7)
           (example_Message\<lparr>M_properties := no_properties\<lparr>contentType := Some ''text/plain''\<rparr>\<rparr>) = Inr m' \<and>
         contentType (M_properties m') = Some ''application/json'') \<and>
   (\<exists>b options'. Queue_packMessageContent example_runtime (AOther 7)
           (no_properties\<lparr>contentType := Some ''text/plain''\<rparr>) = Inr (b, options') \<and>
         contentType options' = Some ''application/json'') \<and>
   (\<exists>b options'. Exchange_publish_content example_runtime (AOther 7)
           (no_properties\<lparr>contentType := Some ''text/plain''\<rparr>) = Inr (b, options') \<and>
         contentType options' = Some ''text/plain'')"
  by (simp add: Message_setContent_def Queue_packMessageContent_def Exchange_publish_content_def
      new_Buffer_def JSON_stringify_of_def example_runtime_def contentType_or_def)



subsection \<open>Acknowledging a message that was not received\<close>

text \<open>
  Claim C10. For a message that carries no receiving channel (\<^verbatim>\<open>_channel\<close> is
  undefined, as for every message constructed locally), \<^verbatim>\<open>ack\<close>, \<^verbatim>\<open>nack\<close> and
  \<^verbatim>\<open>reject\<close> do nothing: they return normally and leave the world, and so the trace of
  channel operations, as it was.
\<close>

theorem Message_ack_nack_reject_without_channel:
  "M_channel m = None \<Longrightarrow>
     Message_ack m allUpTo w = Inr w \<and> Message_nack m requeue w = Inr w \<and>
     Message_reject m requeue w = Inr w"
  by (simp add: Message_ack_def Message_nack_def Message_reject_def)

theorem Message_ack_nack_reject_without_channel_witness:
  "Message_ack example_Message None
     (new_Connection ''amqp://localhost'' \<lparr>retries = 0, interval = 1500\<rparr> :: nat world) =
     Inr (new_Connection ''amqp://localhost'' \<lparr>retries = 0, interval = 1500\<rparr>) \<and>
   Message_nack example_Message (Some True)
     (new_Connection ''amqp://localhost'' \<lparr>retries = 0, interval = 1500\<rparr> :: nat world) =
     Inr (new_Connection ''amqp://localhost'' \<lparr>retries = 0, interval = 1500\<rparr>) \<and>
   Message_reject example_Message (Some True)
     (new_Connection ''amqp://localhost'' \<lparr>retries = 0, interval = 1500\<rparr> :: nat world) =
     Inr (new_Connection ''amqp://localhost'' \<lparr>retries = 0, interval = 1500\<rparr>)"
  using Message_ack_nack_reject_without_channel [of example_Message None
      "new_Connection ''amqp://localhost'' \<lparr>retries = 0, interval = 1500\<rparr> :: nat world" "Some True"]
  by (simp add: example_Message_def)

lemma new_Message_no_channel: "new_Message rt c options = Inr m \<Longrightarrow> M_channel m = None"
  by (auto simp: new_Message_def Message_setContent_def Let_def split: if_splits sum.splits)

subsection \<open>The legacy consumer\<close>




subsection \<open>Connecting and retrying\<close>

lemma run_append: "run rt (xs @ ys) w = run rt ys (run rt xs w)"
  by (simp add: run_def)

lemma run_Cons: "run rt (x # xs) w = run rt xs (step rt x w)"
  by (simp add: run_def)

lemma run_Nil: "run rt [] w = w"
  by (simp add: run_def)

lemma connect_failures_Cons:
  "connect_failures (e # errs) = Callback 0 (Failed e) # Callback 0 (Succeeded []) # connect_failures errs"
  by (simp add: connect_failures_def)

lemma connect_failure_retry:
  assumes "requests w = [ReqConnect k p]"
    and "retries (C_reconnectStrategy (conn w)) = 0 \<or> int k < retries (C_reconnectStrategy (conn w))"
  shows "run rt [Callback 0 (Failed e), Callback 0 (Succeeded [])] w =
           w\<lparr>requests := [ReqConnect (Suc k) p],
             trace := trace w @ [SetTimeout (interval (C_reconnectStrategy (conn w))), Connect (C_url (conn w))],
             logs := logs w @ [(''warn'', ''Connection failed.''),
                               (''warn'', ''Connection retry '' @ string_of_nat (Suc k) @ '' in '' @
                                  string_of_nat (interval (C_reconnectStrategy (conn w))) @ ''ms'')]\<rparr>"
  using assms
  by (simp add: run_def step_def handle_request_def Connection_tryToConnect_callback_def
      Connection_tryToConnect_def amqpts_log_def Let_def)

lemma connect_failures_retry:
  assumes "requests w = [ReqConnect k p]"
    and "retries (C_reconnectStrategy (conn w)) = 0 \<or>
         int (k + length errs) \<le> retries (C_reconnectStrategy (conn w))"
  shows "requests (run rt (connect_failures errs) w) = [ReqConnect (k + length errs) p] \<and>
         trace (run rt (connect_failures errs) w) =
           trace w @ concat (replicate (length errs)
                       [SetTimeout (interval (C_reconnectStrategy (conn w))), Connect (C_url (conn w))]) \<and>
         conn (run rt (connect_failures errs) w) = conn w \<and>
         promises (run rt (connect_failures errs) w) = promises w \<and>
         jobs (run rt (connect_failures errs) w) = jobs w"
  using assms
proof (induction errs arbitrary: w k)
  case Nil
  then show ?case by (simp add: connect_failures_def run_def)
next
  case (Cons e errs)
  let ?w1 = "run rt [Callback 0 (Failed e), Callback 0 (Succeeded [])] w"
  have guard: "retries (C_reconnectStrategy (conn w)) = 0 \<or> int k < retries (C_reconnectStrategy (conn w))"
    using Cons.prems(2) by auto
  note s = connect_failure_retry [OF Cons.prems(1) guard, of rt e]
  have r1: "requests ?w1 = [ReqConnect (Suc k) p]" and c1: "conn ?w1 = conn w"
    and p1: "promises ?w1 = promises w" and j1: "jobs ?w1 = jobs w"
    and t1: "trace ?w1 = trace w @ [SetTimeout (interval (C_reconnectStrategy (conn w))), Connect (C_url (conn w))]"
    by (simp_all add: s)
  have g1: "retries (C_reconnectStrategy (conn ?w1)) = 0 \<or>
         int (Suc k + length errs) \<le> retries (C_reconnectStrategy (conn ?w1))"
    using Cons.prems(2) c1 by auto
  have split: "run rt (connect_failures (e # errs)) w = run rt (connect_failures errs) ?w1"
    by (simp add: connect_failures_Cons run_def)
  from Cons.IH [OF r1 g1] show ?case
    unfolding split by (simp add: c1 p1 j1 t1)
qed

lemma connect_failure_last:
  assumes "requests w = [ReqConnect k p]"
    and "\<not> (retries (C_reconnectStrategy (conn w)) = 0 \<or> int k < retries (C_reconnectStrategy (conn w)))"
    and "P_state (promises w p) = Pending"
  shows "requests (run rt [Callback 0 (Failed e), Callback 0 (Succeeded [])] w) = [] \<and>
         trace (run rt [Callback 0 (Failed e), Callback 0 (Succeeded [])] w) = trace w \<and>
         P_state (promises (run rt [Callback 0 (Failed e), Callback 0 (Succeeded [])] w) p) = Rejected e \<and>
         C_rebuilding (conn (run rt [Callback 0 (Failed e), Callback 0 (Succeeded [])] w)) = False \<and>
         C_initialized (conn (run rt [Callback 0 (Failed e), Callback 0 (Succeeded [])] w)) = C_initialized (conn w)"
  using assms
  by (simp add: run_def step_def handle_request_def Connection_tryToConnect_callback_def
      Connection_rebuildConnection_callback_def settle_def
      Connection_tryToConnect_def amqpts_log_def Let_def)

lemma new_Connection_facts:
  "requests (new_Connection url rs :: 'j world) = [ReqConnect 0 0]"
  "trace (new_Connection url rs :: 'j world) = [Connect url]"
  "C_reconnectStrategy (conn (new_Connection url rs :: 'j world)) = rs"
  "C_url (conn (new_Connection url rs :: 'j world)) = url"
  "C_initialized (conn (new_Connection url rs :: 'j world)) = Some 0"
  "C_rebuilding (conn (new_Connection url rs :: 'j world))"
  "P_state (promises (new_Connection url rs :: 'j world) 0) = Pending"
  by (simp_all add: new_Connection_def Connection_rebuildConnection_def empty_world_def
      new_Promise_def alloc_def Connection_tryToConnect_def Promise_then_def Let_def)

lemma connect_failures_from_start:
  assumes "r = 0 \<or> int (length es) \<le> r"
  shows "trace (run rt (connect_failures es) (new_Connection url \<lparr>retries = r, interval = i\<rparr>)) =
           Connect url # concat (replicate (length es) [SetTimeout i, Connect url]) \<and>
         requests (run rt (connect_failures es) (new_Connection url \<lparr>retries = r, interval = i\<rparr>)) =
           [ReqConnect (length es) 0] \<and>
         C_reconnectStrategy (conn (run rt (connect_failures es)
             (new_Connection url \<lparr>retries = r, interval = i\<rparr>))) = \<lparr>retries = r, interval = i\<rparr> \<and>
         C_initialized (conn (run rt (connect_failures es)
             (new_Connection url \<lparr>retries = r, interval = i\<rparr>))) = Some 0 \<and>
         P_state (promises (run rt (connect_failures es)
             (new_Connection url \<lparr>retries = r, interval = i\<rparr>)) 0) = Pending"
proof -
  let ?w0 = "new_Connection url \<lparr>retries = r, interval = i\<rparr> :: 'a world"
  note f = new_Connection_facts [of url "\<lparr>retries = r, interval = i\<rparr>"]
  have req: "requests ?w0 = [ReqConnect 0 0]" by (simp add: f)
  have g: "retries (C_reconnectStrategy (conn ?w0)) = 0 \<or>
             int (0 + length es) \<le> retries (C_reconnectStrategy (conn ?w0))"
      using assms by (simp add: f)
  note c = connect_failures_retry [OF req g, of rt]
  have c1: "requests (run rt (connect_failures es) ?w0) = [ReqConnect (0 + length es) 0]"
    using c by blast
  have c2: "trace (run rt (connect_failures es) ?w0) =
           trace ?w0 @ concat (replicate (length es)
                       [SetTimeout (interval (C_reconnectStrategy (conn ?w0))), Connect (C_url (conn ?w0))])"
    using c by blast
  have c3: "conn (run rt (connect_failures es) ?w0) = conn ?w0" using c by blast
  have c4: "promises (run rt (connect_failures es) ?w0) = promises ?w0" using c by blast
  show ?thesis unfolding c1 c2 c3 c4 by (simp add: f)
qed

text \<open>
  Claim C3. A connection constructed with \<^verbatim>\<open>{retries: r, interval: i}\<close> whose connect
  attempts all fail: for \<open>r > 0\<close>, after \<open>r + 1\<close> failures exactly \<open>r + 1\<close> attempts have
  been made, each retry set \<open>i\<close> milliseconds after the failure before it, no attempt or
  timer is outstanding, and \<^verbatim>\<open>initialized\<close> is rejected with the last error; after fewer
  failures it is still pending with the next attempt outstanding. For \<open>r = 0\<close>, after any
  number of failures \<^verbatim>\<open>initialized\<close> is pending and the next attempt is outstanding.
\<close>

theorem connect_attempts_and_retries:
  "(0 < r \<and> length errs = nat r + 1 \<longrightarrow>
      trace (run rt (connect_failures errs) (new_Connection url \<lparr>retries = r, interval = i\<rparr>)) =
        Connect url # concat (replicate (nat r) [SetTimeout i, Connect url]) \<and>
      requests (run rt (connect_failures errs) (new_Connection url \<lparr>retries = r, interval = i\<rparr>)) = [] \<and>
      C_initialized (conn (run rt (connect_failures errs) (new_Connection url \<lparr>retries = r, interval = i\<rparr>))) = Some 0 \<and>
      P_state (promises (run rt (connect_failures errs) (new_Connection url \<lparr>retries = r, interval = i\<rparr>)) 0) =
        Rejected (last errs)) \<and>
   (0 < r \<and> length errs \<le> nat r \<longrightarrow>
      requests (run rt (connect_failures errs) (new_Connection url \<lparr>retries = r, interval = i\<rparr>)) =
        [ReqConnect (length errs) 0] \<and>
      P_state (promises (run rt (connect_failures errs) (new_Connection url \<lparr>retries = r, interval = i\<rparr>)) 0) = Pending) \<and>
   (r = 0 \<longrightarrow>
      trace (run rt (connect_failures errs) (new_Connection url \<lparr>retries = r, interval = i\<rparr>)) =
        Connect url # concat (replicate (length errs) [SetTimeout i, Connect url]) \<and>
      requests (run rt (connect_failures errs) (new_Connection url \<lparr>retries = r, interval = i\<rparr>)) =
        [ReqConnect (length errs) 0] \<and>
      P_state (promises (run rt (connect_failures errs) (new_Connection url \<lparr>retries = r, interval = i\<rparr>)) 0) = Pending)"
proof -
  let ?w0 = "new_Connection url \<lparr>retries = r, interval = i\<rparr> :: 'a world"
  have part2: "0 < r \<and> length errs \<le> nat r \<longrightarrow>
      requests (run rt (connect_failures errs) ?w0) = [ReqConnect (length errs) 0] \<and>
      P_state (promises (run rt (connect_failures errs) ?w0) 0) = Pending"
  proof
    assume a: "0 < r \<and> length errs \<le> nat r"
    then have "r = 0 \<or> int (length errs) \<le> r" by linarith
    from connect_failures_from_start [OF this, of rt url i]
    show "requests (run rt (connect_failures errs) ?w0) = [ReqConnect (length errs) 0] \<and>
      P_state (promises (run rt (connect_failures errs) ?w0) 0) = Pending" by blast
  qed
  have part3: "r = 0 \<longrightarrow>
      trace (run rt (connect_failures errs) ?w0) =
        Connect url # concat (replicate (length errs) [SetTimeout i, Connect url]) \<and>
      requests (run rt (connect_failures errs) ?w0) = [ReqConnect (length errs) 0] \<and>
      P_state (promises (run rt (connect_failures errs) ?w0) 0) = Pending"
  proof
    assume "r = 0"
    then have "r = 0 \<or> int (length errs) \<le> r" by simp
    from connect_failures_from_start [OF this, of rt url i]
    show "trace (run rt (connect_failures errs) ?w0) =
        Connect url # concat (replicate (length errs) [SetTimeout i, Connect url]) \<and>
      requests (run rt (connect_failures errs) ?w0) = [ReqConnect (length errs) 0] \<and>
      P_state (promises (run rt (connect_failures errs) ?w0) 0) = Pending" by blast
  qed
  have part1: "0 < r \<and> length errs = nat r + 1 \<longrightarrow>
      trace (run rt (connect_failures errs) ?w0) =
        Connect url # concat (replicate (nat r) [SetTimeout i, Connect url]) \<and>
      requests (run rt (connect_failures errs) ?w0) = [] \<and>
      C_initialized (conn (run rt (connect_failures errs) ?w0)) = Some 0 \<and>
      P_state (promises (run rt (connect_failures errs) ?w0) 0) = Rejected (last errs)"
  proof
    assume a: "0 < r \<and> length errs = nat r + 1"
    then have ne: "errs \<noteq> []" by auto
    define es where "es = butlast errs"
    define e where "e = last errs"
    have len: "length es = nat r" using a by (simp add: es_def)
    have errs_eq: "errs = es @ [e]" using ne by (simp add: es_def e_def)
    define w where "w = run rt (connect_failures es) ?w0"
    have "r = 0 \<or> int (length es) \<le> r" using a len by linarith
    from connect_failures_from_start [OF this, of rt url i]
    have r: "trace w = Connect url # concat (replicate (nat r) [SetTimeout i, Connect url])"
      "requests w = [ReqConnect (nat r) 0]"
      "C_reconnectStrategy (conn w) = \<lparr>retries = r, interval = i\<rparr>"
      "C_initialized (conn w) = Some 0"
      "P_state (promises w 0) = Pending"
      unfolding len w_def by blast+
    have stop: "\<not> (retries (C_reconnectStrategy (conn w)) = 0 \<or>
                   int (nat r) < retries (C_reconnectStrategy (conn w)))"
      using a by (simp add: r)
    have split: "run rt (connect_failures errs) ?w0 =
                 run rt [Callback 0 (Failed e), Callback 0 (Succeeded [])] w"
      unfolding errs_eq w_def by (simp add: connect_failures_def run_def)
    from connect_failure_last [OF r(2) stop r(5), of rt e]
    show "trace (run rt (connect_failures errs) ?w0) =
        Connect url # concat (replicate (nat r) [SetTimeout i, Connect url]) \<and>
      requests (run rt (connect_failures errs) ?w0) = [] \<and>
      C_initialized (conn (run rt (connect_failures errs) ?w0)) = Some 0 \<and>
      P_state (promises (run rt (connect_failures errs) ?w0) 0) = Rejected (last errs)"
      unfolding split by (simp add: r e_def)
  qed
  from part1 part2 part3 show ?thesis by blast
qed

theorem connect_attempts_and_retries_witness:
  "trace (run example_runtime (connect_failures [Error ''a'', Error ''b'', Error ''c''])
            (new_Connection ''amqp://nowhere'' \<lparr>retries = 2, interval = 10\<rparr>)) =
     [Connect ''amqp://nowhere'', SetTimeout 10, Connect ''amqp://nowhere'', SetTimeout 10,
      Connect ''amqp://nowhere''] \<and>
   P_state (promises (run example_runtime (connect_failures [Error ''a'', Error ''b'', Error ''c''])
            (new_Connection ''amqp://nowhere'' \<lparr>retries = 2, interval = 10\<rparr>)) 0) = Rejected (Error ''c'') \<and>
   P_state (promises (run example_runtime (connect_failures [Error ''a'', Error ''b'', Error ''c''])
            (new_Connection ''amqp://nowhere'' \<lparr>retries = 0, interval = 10\<rparr>)) 0) = Pending"
  using connect_attempts_and_retries [of 2 "[Error ''a'', Error ''b'', Error ''c'']" example_runtime
      "''amqp://nowhere''" 10]
    connect_attempts_and_retries [of 0 "[Error ''a'', Error ''b'', Error ''c'']" example_runtime
      "''amqp://nowhere''" 10]
  by (simp add: numeral_eq_Suc)

subsection \<open>What the primitives leave alone\<close>

lemma conn_settle [simp]: "conn (settle p s w) = conn w"
  by (simp add: settle_def)

lemma conn_Promise_then [simp]: "conn (Promise_then p cb w) = conn w"
  by (simp add: Promise_then_def)

lemma conn_new_Promise [simp]: "conn (snd (new_Promise w)) = conn w"
  by (simp add: new_Promise_def alloc_def)

lemma fst_new_Promise [simp]: "fst (new_Promise w) = next_id w"
  by (simp add: new_Promise_def alloc_def)

lemma exchanges_settle [simp]: "exchanges (settle p s w) = exchanges w"
  by (simp add: settle_def)

lemma exchanges_Promise_then [simp]: "exchanges (Promise_then p cb w) = exchanges w"
  by (simp add: Promise_then_def)

lemma exchanges_new_Promise [simp]: "exchanges (snd (new_Promise w)) = exchanges w"
  by (simp add: new_Promise_def alloc_def)

lemma queues_settle [simp]: "queues (settle p s w) = queues w"
  by (simp add: settle_def)

lemma queues_Promise_then [simp]: "queues (Promise_then p cb w) = queues w"
  by (simp add: Promise_then_def)

lemma queues_new_Promise [simp]: "queues (snd (new_Promise w)) = queues w"
  by (simp add: new_Promise_def alloc_def)

lemma promises_amqpts_log [simp]: "promises (amqpts_log l m w) = promises w"
  by (simp add: amqpts_log_def)

lemma conn_amqpts_log [simp]: "conn (amqpts_log l m w) = conn w"
  by (simp add: amqpts_log_def)

lemma exchanges_amqpts_log [simp]: "exchanges (amqpts_log l m w) = exchanges w"
  by (simp add: amqpts_log_def)

lemma queues_amqpts_log [simp]: "queues (amqpts_log l m w) = queues w"
  by (simp add: amqpts_log_def)

lemma next_id_amqpts_log [simp]: "next_id (amqpts_log l m w) = next_id w"
  by (simp add: amqpts_log_def)

lemma next_id_settle [simp]: "next_id (settle p s w) = next_id w"
  by (simp add: settle_def)

lemma P_state_settle:
  "P_state (promises w p) = Pending \<Longrightarrow> P_state (promises (settle p s w) p) = s"
  by (simp add: settle_def)

subsection \<open>Declaring by name\<close>



lemma new_Exchange_registers:
  "fst (new_Exchange name type options w) = next_id w \<and>
   DAList.lookup (C_exchanges (conn (snd (new_Exchange name type options w)))) name = Some (next_id w) \<and>
   E_name (exchanges (snd (new_Exchange name type options w)) (next_id w)) = name \<and>
   E_type (exchanges (snd (new_Exchange name type options w)) (next_id w)) = type \<and>
   E_options (exchanges (snd (new_Exchange name type options w)) (next_id w)) = options"
  by (simp add: new_Exchange_def Exchange_initialize_def alloc_def Let_def case_prod_beta
      split: option.split)

lemma new_Queue_registers:
  "fst (new_Queue name options w) = next_id w \<and>
   DAList.lookup (C_queues (conn (snd (new_Queue name options w)))) name = Some (next_id w) \<and>
   Q_name (queues (snd (new_Queue name options w)) (next_id w)) = name \<and>
   Q_options (queues (snd (new_Queue name options w)) (next_id w)) = options"
  by (simp add: new_Queue_def Queue_initialize_def alloc_def Let_def case_prod_beta
      split: option.split)



lemma declareExchange_fresh:
  "DAList.lookup (C_exchanges (conn w)) name = None \<Longrightarrow>
     Connection_declareExchange name type options w = new_Exchange name type options w"
  by (simp add: Connection_declareExchange_def)

lemma declareQueue_fresh:
  "DAList.lookup (C_queues (conn w)) name = None \<Longrightarrow>
     Connection_declareQueue name options w = new_Queue name options w"
  by (simp add: Connection_declareQueue_def)












subsection \<open>A failed initialisation\<close>

text \<open>
  Claim C4, as amended. When the broker refuses the declaration of an exchange or a queue
  (\<^verbatim>\<open>assertExchange\<close> or \<^verbatim>\<open>assertQueue\<close> reports an error), the entry under the
  entity's name is removed from the connection's registry and the promise of that
  initialisation is rejected with the error; a later declaration of the name creates a new
  object.
\<close>

theorem declaration_failure_removes_entity:
  "DAList.lookup (C_exchanges (conn (Exchange_assertExchange_callback e p (Failed err) w)))
      (E_name (exchanges w e)) = None \<and>
   (P_state (promises w p) = Pending \<longrightarrow>
      P_state (promises (Exchange_assertExchange_callback e p (Failed err) w) p) = Rejected err) \<and>
   fst (Connection_declareExchange (E_name (exchanges w e)) type options
          (Exchange_assertExchange_callback e p (Failed err) w)) = next_id w \<and>
   DAList.lookup (C_queues (conn (Queue_assertQueue_callback q p (Failed err) w)))
      (Q_name (queues w q)) = None \<and>
   (P_state (promises w p) = Pending \<longrightarrow>
      P_state (promises (Queue_assertQueue_callback q p (Failed err) w) p) = Rejected err) \<and>
   fst (Connection_declareQueue (Q_name (queues w q)) options'
          (Queue_assertQueue_callback q p (Failed err) w)) = next_id w"
proof -
  have e1: "DAList.lookup (C_exchanges (conn (Exchange_assertExchange_callback e p (Failed err) w)))
      (E_name (exchanges w e)) = None"
    by (simp add: Exchange_assertExchange_callback_def Let_def)
  have e2: "P_state (promises w p) = Pending \<longrightarrow>
      P_state (promises (Exchange_assertExchange_callback e p (Failed err) w) p) = Rejected err"
    by (simp add: Exchange_assertExchange_callback_def Let_def P_state_settle)
  have e3: "next_id (Exchange_assertExchange_callback e p (Failed err) w) = next_id w"
    by (simp add: Exchange_assertExchange_callback_def Let_def)
  have e4: "fst (Connection_declareExchange (E_name (exchanges w e)) type options
          (Exchange_assertExchange_callback e p (Failed err) w)) = next_id w"
    using new_Exchange_registers [of "E_name (exchanges w e)" type options
        "Exchange_assertExchange_callback e p (Failed err) w"]
    by (simp add: declareExchange_fresh [OF e1] e3)
  have q1: "DAList.lookup (C_queues (conn (Queue_assertQueue_callback q p (Failed err) w)))
      (Q_name (queues w q)) = None"
    by (simp add: Queue_assertQueue_callback_def Let_def)
  have q2: "P_state (promises w p) = Pending \<longrightarrow>
      P_state (promises (Queue_assertQueue_callback q p (Failed err) w) p) = Rejected err"
    by (simp add: Queue_assertQueue_callback_def Let_def P_state_settle)
  have q3: "next_id (Queue_assertQueue_callback q p (Failed err) w) = next_id w"
    by (simp add: Queue_assertQueue_callback_def Let_def)
  have q4: "fst (Connection_declareQueue (Q_name (queues w q)) options'
          (Queue_assertQueue_callback q p (Failed err) w)) = next_id w"
    using new_Queue_registers [of "Q_name (queues w q)" options'
        "Queue_assertQueue_callback q p (Failed err) w"]
    by (simp add: declareQueue_fresh [OF q1] q3)
  from e1 e2 e4 q1 q2 q4 show ?thesis by blast
qed

text \<open>
  Against claim C4 as stated (every failure point of the initialisation removes the
  entity): when \<^verbatim>\<open>createChannel\<close> reports an error, the exchange's \<^verbatim>\<open>initialized\<close> is
  rejected and the exchange is still registered under its name.
\<close>

theorem channel_failure_keeps_exchange_registered:
  "E_initialized (exchanges (run example_runtime exchange_channel_failure_events local_world) 1) = Some 2 \<and>
   P_state (promises (run example_runtime exchange_channel_failure_events local_world) 2) =
     Rejected (Error ''no channel'') \<and>
   DAList.lookup (C_exchanges (conn (run example_runtime exchange_channel_failure_events local_world))) ''e1'' =
     Some 1"
  by (simp add: world_defs registry_simps Let_def local_world_def
      exchange_channel_failure_events_def cong: let_weak_cong)

lemma declaration_failure_world:
  "requests (run example_runtime (butlast exchange_declaration_failure_events) local_world) = [ReqAssertExchange 1 2] \<and>
   E_name (exchanges (run example_runtime (butlast exchange_declaration_failure_events) local_world) 1) = ''e1'' \<and>
   P_state (promises (run example_runtime (butlast exchange_declaration_failure_events) local_world) 2) = Pending \<and>
   DAList.lookup (C_exchanges (conn (run example_runtime (butlast exchange_declaration_failure_events) local_world))) ''e1'' = Some 1"
  by (simp add: world_defs registry_simps Let_def local_world_def
      exchange_declaration_failure_events_def cong: let_weak_cong)

theorem declaration_failure_removes_entity_witness:
  "DAList.lookup (C_exchanges (conn (Exchange_assertExchange_callback 1 2 (Failed (Error ''PRECONDITION_FAILED''))
      (run example_runtime (butlast exchange_declaration_failure_events) local_world)))) ''e1'' = None \<and>
   P_state (promises (Exchange_assertExchange_callback 1 2 (Failed (Error ''PRECONDITION_FAILED''))
      (run example_runtime (butlast exchange_declaration_failure_events) local_world)) 2) =
     Rejected (Error ''PRECONDITION_FAILED'')"
  using declaration_failure_removes_entity [of 1 2 "Error ''PRECONDITION_FAILED''"
      "run example_runtime (butlast exchange_declaration_failure_events) local_world"]
    declaration_failure_world
  by simp

subsection \<open>Waiting for \<open>initialized\<close>\<close>

text \<open>
  Claim C9, at inputs where the code departs from it. The claim: no operation touches the
  channel of an exchange or a queue before its \<^verbatim>\<open>initialized\<close> has resolved.
  \<^verbatim>\<open>Exchange.rpc\<close> does not wait: called while a rebuild has left the exchange with a
  pending \<^verbatim>\<open>initialized\<close>, it calls \<^verbatim>\<open>consume\<close> on the old channel at once; called on an
  exchange that has just been declared, it finds no channel and its promise is rejected at
  once with a TypeError.
\<close>

theorem Exchange_rpc_is_not_gated:
  "P_state (promises (run example_runtime exchange_rebuilding_events local_world)
      (the (E_initialized (exchanges (run example_runtime exchange_rebuilding_events local_world) 1)))) = Pending \<and>
   trace (snd (Exchange_rpc 1 (AOther 7) [] (run example_runtime exchange_rebuilding_events local_world))) =
     trace (run example_runtime exchange_rebuilding_events local_world) @
       [Consume 4 ''amq.rabbitmq.reply-to'' (Some \<lparr>rawMessage = None, noAck = Some True\<rparr>)] \<and>
   P_state (promises (run example_runtime [Call (DeclareExchange ''e1'' None None)] local_world)
      (the (E_initialized (exchanges (run example_runtime [Call (DeclareExchange ''e1'' None None)] local_world) 1)))) = Pending \<and>
   P_state (promises (snd (Exchange_rpc 1 (AOther 7) [] (run example_runtime [Call (DeclareExchange ''e1'' None None)] local_world)))
      (fst (Exchange_rpc 1 (AOther 7) [] (run example_runtime [Call (DeclareExchange ''e1'' None None)] local_world)))) =
     Rejected (TypeError ''Cannot read property of undefined'')"
  by (simp add: world_defs registry_simps Let_def local_world_def exchange_rebuilding_events_def
      exchange_initialized_events_def cong: let_weak_cong)

subsection \<open>What the functions leave of the rebuild guard\<close>

text \<open>
  Apart from \<^verbatim>\<open>rebuildConnection\<close> and the callbacks of the connect attempt, no function
  touches the guard, the \<^verbatim>\<open>initialized\<close> promise of the connection or the connect attempt
  in flight.
\<close>

lemma fold_keeps:
  assumes "\<And>x w. g (f x w) = g w"
  shows "g (fold f xs w) = g w"
  using assms by (induction xs arbitrary: w) simp_all

lemma amqpts_log_frame [simp]:
  "conn (amqpts_log l m w) = conn w" "requests (amqpts_log l m w) = requests w"
  by (simp_all add: amqpts_log_def)

lemma new_Promise_frame [simp]:
  "conn (snd (new_Promise w)) = conn w" "requests (snd (new_Promise w)) = requests w"
  by (simp_all add: new_Promise_def alloc_def)

lemma settle_frame [simp]:
  "conn (settle p s w) = conn w" "requests (settle p s w) = requests w"
  by (simp_all add: settle_def)

lemma Promise_then_frame [simp]:
  "conn (Promise_then p cb w) = conn w" "requests (Promise_then p cb w) = requests w"
  by (simp_all add: Promise_then_def)

lemma rejected_Promise_frame [simp]:
  "conn (snd (rejected_Promise err w)) = conn w" "requests (snd (rejected_Promise err w)) = requests w"
  by (simp_all add: rejected_Promise_def case_prod_beta)

lemma Promise_all_frame [simp]:
  "conn (snd (Promise_all ps w)) = conn w" "requests (snd (Promise_all ps w)) = requests w"
  by (simp_all add: Promise_all_def Let_def case_prod_beta fold_keeps)

lemma Promise_all_callback_frame [simp]:
  "conn (Promise_all_callback q s w) = conn w" "requests (Promise_all_callback q s w) = requests w"
  by (simp_all add: Promise_all_callback_def Let_def split: pstate.split)

lemma channel_call_frame:
  "channel_call ch c w = Inr w' \<Longrightarrow> conn w' = conn w \<and> requests w' = requests w"
  by (auto simp: channel_call_def split: option.splits if_splits)

lemma channel_close_frame:
  "channel_close ch w = Inr w' \<Longrightarrow> conn w' = conn w \<and> requests w' = requests w"
  by (auto simp: channel_close_def dest: channel_call_frame split: sum.splits)

lemma Connection_catch_frame [simp]:
  "conn (Connection_catch s w) = conn w" "requests (Connection_catch s w) = requests w"
  by (simp_all add: Connection_catch_def split: pstate.split)


lemma Exchange_initialize_frame [simp]:
  "C_rebuilding (conn (Exchange_initialize e w)) = C_rebuilding (conn w)"
  "C_initialized (conn (Exchange_initialize e w)) = C_initialized (conn w)"
  "connect_requests (Exchange_initialize e w) = connect_requests w"
  by (simp_all add: Exchange_initialize_def  Let_def case_prod_beta channel_call_def channel_close_def
      split: option.split sum.split reply.split pstate.split destination.split prod.split
        subscription.split consumerFunction.split consumer_result.split)

lemma Exchange_initialize_then_frame [simp]:
  "C_rebuilding (conn (Exchange_initialize_then e p w)) = C_rebuilding (conn w)"
  "C_initialized (conn (Exchange_initialize_then e p w)) = C_initialized (conn w)"
  "connect_requests (Exchange_initialize_then e p w) = connect_requests w"
  by (simp_all add: Exchange_initialize_then_def  Let_def case_prod_beta channel_call_def channel_close_def
      split: option.split sum.split reply.split pstate.split destination.split prod.split
        subscription.split consumerFunction.split consumer_result.split)

lemma Exchange_createChannel_callback_frame [simp]:
  "C_rebuilding (conn (Exchange_createChannel_callback e p r w)) = C_rebuilding (conn w)"
  "C_initialized (conn (Exchange_createChannel_callback e p r w)) = C_initialized (conn w)"
  "connect_requests (Exchange_createChannel_callback e p r w) = connect_requests w"
  by (simp_all add: Exchange_createChannel_callback_def alloc_def Let_def case_prod_beta channel_call_def channel_close_def
      split: option.split sum.split reply.split pstate.split destination.split prod.split
        subscription.split consumerFunction.split consumer_result.split)

lemma Exchange_assertExchange_callback_frame [simp]:
  "C_rebuilding (conn (Exchange_assertExchange_callback e p r w)) = C_rebuilding (conn w)"
  "C_initialized (conn (Exchange_assertExchange_callback e p r w)) = C_initialized (conn w)"
  "connect_requests (Exchange_assertExchange_callback e p r w) = connect_requests w"
  by (simp_all add: Exchange_assertExchange_callback_def  Let_def case_prod_beta channel_call_def channel_close_def
      split: option.split sum.split reply.split pstate.split destination.split prod.split
        subscription.split consumerFunction.split consumer_result.split)

lemma new_Exchange_frame [simp]:
  "C_rebuilding (conn (snd (new_Exchange name type options w))) = C_rebuilding (conn w)"
  "C_initialized (conn (snd (new_Exchange name type options w))) = C_initialized (conn w)"
  "connect_requests (snd (new_Exchange name type options w)) = connect_requests w"
  by (simp_all add: new_Exchange_def alloc_def Let_def case_prod_beta channel_call_def channel_close_def
      split: option.split sum.split reply.split pstate.split destination.split prod.split
        subscription.split consumerFunction.split consumer_result.split)

lemma Queue_initialize_frame [simp]:
  "C_rebuilding (conn (Queue_initialize q w)) = C_rebuilding (conn w)"
  "C_initialized (conn (Queue_initialize q w)) = C_initialized (conn w)"
  "connect_requests (Queue_initialize q w) = connect_requests w"
  by (simp_all add: Queue_initialize_def  Let_def case_prod_beta channel_call_def channel_close_def
      split: option.split sum.split reply.split pstate.split destination.split prod.split
        subscription.split consumerFunction.split consumer_result.split)

lemma Queue_initialize_then_frame [simp]:
  "C_rebuilding (conn (Queue_initialize_then q p w)) = C_rebuilding (conn w)"
  "C_initialized (conn (Queue_initialize_then q p w)) = C_initialized (conn w)"
  "connect_requests (Queue_initialize_then q p w) = connect_requests w"
  by (simp_all add: Queue_initialize_then_def  Let_def case_prod_beta channel_call_def channel_close_def
      split: option.split sum.split reply.split pstate.split destination.split prod.split
        subscription.split consumerFunction.split consumer_result.split)

lemma Queue_createChannel_callback_frame [simp]:
  "C_rebuilding (conn (Queue_createChannel_callback q p r w)) = C_rebuilding (conn w)"
  "C_initialized (conn (Queue_createChannel_callback q p r w)) = C_initialized (conn w)"
  "connect_requests (Queue_createChannel_callback q p r w) = connect_requests w"
  by (simp_all add: Queue_createChannel_callback_def alloc_def Let_def case_prod_beta channel_call_def channel_close_def
      split: option.split sum.split reply.split pstate.split destination.split prod.split
        subscription.split consumerFunction.split consumer_result.split)

lemma Queue_assertQueue_callback_frame [simp]:
  "C_rebuilding (conn (Queue_assertQueue_callback q p r w)) = C_rebuilding (conn w)"
  "C_initialized (conn (Queue_assertQueue_callback q p r w)) = C_initialized (conn w)"
  "connect_requests (Queue_assertQueue_callback q p r w) = connect_requests w"
  by (simp_all add: Queue_assertQueue_callback_def  Let_def case_prod_beta channel_call_def channel_close_def
      split: option.split sum.split reply.split pstate.split destination.split prod.split
        subscription.split consumerFunction.split consumer_result.split)

lemma new_Queue_frame [simp]:
  "C_rebuilding (conn (snd (new_Queue name options w))) = C_rebuilding (conn w)"
  "C_initialized (conn (snd (new_Queue name options w))) = C_initialized (conn w)"
  "connect_requests (snd (new_Queue name options w)) = connect_requests w"
  by (simp_all add: new_Queue_def alloc_def Let_def case_prod_beta channel_call_def channel_close_def
      split: option.split sum.split reply.split pstate.split destination.split prod.split
        subscription.split consumerFunction.split consumer_result.split)

lemma Connection_declareExchange_frame [simp]:
  "C_rebuilding (conn (snd (Connection_declareExchange name type options w))) = C_rebuilding (conn w)"
  "C_initialized (conn (snd (Connection_declareExchange name type options w))) = C_initialized (conn w)"
  "connect_requests (snd (Connection_declareExchange name type options w)) = connect_requests w"
  by (simp_all add: Connection_declareExchange_def  Let_def case_prod_beta channel_call_def channel_close_def
      split: option.split sum.split reply.split pstate.split destination.split prod.split
        subscription.split consumerFunction.split consumer_result.split)

lemma Connection_declareQueue_frame [simp]:
  "C_rebuilding (conn (snd (Connection_declareQueue name options w))) = C_rebuilding (conn w)"
  "C_initialized (conn (snd (Connection_declareQueue name options w))) = C_initialized (conn w)"
  "connect_requests (snd (Connection_declareQueue name options w)) = connect_requests w"
  by (simp_all add: Connection_declareQueue_def  Let_def case_prod_beta channel_call_def channel_close_def
      split: option.split sum.split reply.split pstate.split destination.split prod.split
        subscription.split consumerFunction.split consumer_result.split)

lemma consumer_error_frame [simp]:
  "C_rebuilding (conn (consumer_error err w)) = C_rebuilding (conn w)"
  "C_initialized (conn (consumer_error err w)) = C_initialized (conn w)"
  "connect_requests (consumer_error err w) = connect_requests w"
  by (simp_all add: consumer_error_def  Let_def case_prod_beta channel_call_def channel_close_def
      split: option.split sum.split reply.split pstate.split destination.split prod.split
        subscription.split consumerFunction.split consumer_result.split)

lemma Queue_rawMsgConsumer_frame [simp]:
  "C_rebuilding (conn (Queue_rawMsgConsumer q msg w)) = C_rebuilding (conn w)"
  "C_initialized (conn (Queue_rawMsgConsumer q msg w)) = C_initialized (conn w)"
  "connect_requests (Queue_rawMsgConsumer q msg w) = connect_requests w"
  by (simp_all add: Queue_rawMsgConsumer_def  Let_def case_prod_beta channel_call_def channel_close_def
      split: option.split sum.split reply.split pstate.split destination.split prod.split
        subscription.split consumerFunction.split consumer_result.split)

lemma Queue_initializeConsumer_frame [simp]:
  "C_rebuilding (conn (Queue_initializeConsumer q w)) = C_rebuilding (conn w)"
  "C_initialized (conn (Queue_initializeConsumer q w)) = C_initialized (conn w)"
  "connect_requests (Queue_initializeConsumer q w) = connect_requests w"
  by (simp_all add: Queue_initializeConsumer_def  Let_def case_prod_beta channel_call_def channel_close_def
      split: option.split sum.split reply.split pstate.split destination.split prod.split
        subscription.split consumerFunction.split consumer_result.split)

lemma Queue_initializeConsumer_then_frame [simp]:
  "C_rebuilding (conn (Queue_initializeConsumer_then q p w)) = C_rebuilding (conn w)"
  "C_initialized (conn (Queue_initializeConsumer_then q p w)) = C_initialized (conn w)"
  "connect_requests (Queue_initializeConsumer_then q p w) = connect_requests w"
  by (simp_all add: Queue_initializeConsumer_then_def  Let_def case_prod_beta channel_call_def channel_close_def
      split: option.split sum.split reply.split pstate.split destination.split prod.split
        subscription.split consumerFunction.split consumer_result.split)

lemma Queue_consume_callback_frame [simp]:
  "C_rebuilding (conn (Queue_consume_callback ch q p f r w)) = C_rebuilding (conn w)"
  "C_initialized (conn (Queue_consume_callback ch q p f r w)) = C_initialized (conn w)"
  "connect_requests (Queue_consume_callback ch q p f r w) = connect_requests w"
  by (simp_all add: Queue_consume_callback_def  Let_def case_prod_beta channel_call_def channel_close_def
      split: option.split sum.split reply.split pstate.split destination.split prod.split
        subscription.split consumerFunction.split consumer_result.split)

lemma Queue_startConsumer_frame [simp]:
  "C_rebuilding (conn (snd (Queue_startConsumer q onMessage options w))) = C_rebuilding (conn w)"
  "C_initialized (conn (snd (Queue_startConsumer q onMessage options w))) = C_initialized (conn w)"
  "connect_requests (snd (Queue_startConsumer q onMessage options w)) = connect_requests w"
  by (simp_all add: Queue_startConsumer_def  Let_def case_prod_beta channel_call_def channel_close_def
      split: option.split sum.split reply.split pstate.split destination.split prod.split
        subscription.split consumerFunction.split consumer_result.split)

lemma Queue_activateConsumer_frame [simp]:
  "C_rebuilding (conn (snd (Queue_activateConsumer q onMessage options w))) = C_rebuilding (conn w)"
  "C_initialized (conn (snd (Queue_activateConsumer q onMessage options w))) = C_initialized (conn w)"
  "connect_requests (snd (Queue_activateConsumer q onMessage options w)) = connect_requests w"
  by (simp_all add: Queue_activateConsumer_def  Let_def case_prod_beta channel_call_def channel_close_def
      split: option.split sum.split reply.split pstate.split destination.split prod.split
        subscription.split consumerFunction.split consumer_result.split)

lemma Queue_stopConsumer_frame [simp]:
  "C_rebuilding (conn (snd (Queue_stopConsumer q w))) = C_rebuilding (conn w)"
  "C_initialized (conn (snd (Queue_stopConsumer q w))) = C_initialized (conn w)"
  "connect_requests (snd (Queue_stopConsumer q w)) = connect_requests w"
  by (simp_all add: Queue_stopConsumer_def  Let_def case_prod_beta channel_call_def channel_close_def
      split: option.split sum.split reply.split pstate.split destination.split prod.split
        subscription.split consumerFunction.split consumer_result.split)

lemma Queue_stopConsumer_then_frame [simp]:
  "C_rebuilding (conn (Queue_stopConsumer_then q p w)) = C_rebuilding (conn w)"
  "C_initialized (conn (Queue_stopConsumer_then q p w)) = C_initialized (conn w)"
  "connect_requests (Queue_stopConsumer_then q p w) = connect_requests w"
  by (simp_all add: Queue_stopConsumer_then_def  Let_def case_prod_beta channel_call_def channel_close_def
      split: option.split sum.split reply.split pstate.split destination.split prod.split
        subscription.split consumerFunction.split consumer_result.split)

lemma Queue_cancel_callback_frame [simp]:
  "C_rebuilding (conn (Queue_cancel_callback q p r w)) = C_rebuilding (conn w)"
  "C_initialized (conn (Queue_cancel_callback q p r w)) = C_initialized (conn w)"
  "connect_requests (Queue_cancel_callback q p r w) = connect_requests w"
  by (simp_all add: Queue_cancel_callback_def  Let_def case_prod_beta channel_call_def channel_close_def
      split: option.split sum.split reply.split pstate.split destination.split prod.split
        subscription.split consumerFunction.split consumer_result.split)

lemma Binding_initialize_frame [simp]:
  "C_rebuilding (conn (Binding_initialize b w)) = C_rebuilding (conn w)"
  "C_initialized (conn (Binding_initialize b w)) = C_initialized (conn w)"
  "connect_requests (Binding_initialize b w) = connect_requests w"
  by (simp_all add: Binding_initialize_def  Let_def case_prod_beta channel_call_def channel_close_def
      split: option.split sum.split reply.split pstate.split destination.split prod.split
        subscription.split consumerFunction.split consumer_result.split)

lemma Binding_initialize_then_frame [simp]:
  "C_rebuilding (conn (Binding_initialize_then b p w)) = C_rebuilding (conn w)"
  "C_initialized (conn (Binding_initialize_then b p w)) = C_initialized (conn w)"
  "connect_requests (Binding_initialize_then b p w) = connect_requests w"
  by (simp_all add: Binding_initialize_then_def  Let_def case_prod_beta channel_call_def channel_close_def
      split: option.split sum.split reply.split pstate.split destination.split prod.split
        subscription.split consumerFunction.split consumer_result.split)

lemma Binding_bind_callback_frame [simp]:
  "C_rebuilding (conn (Binding_bind_callback b p r w)) = C_rebuilding (conn w)"
  "C_initialized (conn (Binding_bind_callback b p r w)) = C_initialized (conn w)"
  "connect_requests (Binding_bind_callback b p r w) = connect_requests w"
  by (simp_all add: Binding_bind_callback_def  Let_def case_prod_beta channel_call_def channel_close_def
      split: option.split sum.split reply.split pstate.split destination.split prod.split
        subscription.split consumerFunction.split consumer_result.split)

lemma new_Binding_frame [simp]:
  "C_rebuilding (conn (snd (new_Binding d source pattern args w))) = C_rebuilding (conn w)"
  "C_initialized (conn (snd (new_Binding d source pattern args w))) = C_initialized (conn w)"
  "connect_requests (snd (new_Binding d source pattern args w)) = connect_requests w"
  by (simp_all add: new_Binding_def alloc_def Let_def case_prod_beta channel_call_def channel_close_def
      split: option.split sum.split reply.split pstate.split destination.split prod.split
        subscription.split consumerFunction.split consumer_result.split)

lemma bind_frame [simp]:
  "C_rebuilding (conn (snd (bind d source pattern args w))) = C_rebuilding (conn w)"
  "C_initialized (conn (snd (bind d source pattern args w))) = C_initialized (conn w)"
  "connect_requests (snd (bind d source pattern args w)) = connect_requests w"
  by (simp_all add: bind_def  Let_def case_prod_beta channel_call_def channel_close_def
      split: option.split sum.split reply.split pstate.split destination.split prod.split
        subscription.split consumerFunction.split consumer_result.split)

lemma Binding_delete_frame [simp]:
  "C_rebuilding (conn (snd (Binding_delete b w))) = C_rebuilding (conn w)"
  "C_initialized (conn (snd (Binding_delete b w))) = C_initialized (conn w)"
  "connect_requests (snd (Binding_delete b w)) = connect_requests w"
  by (simp_all add: Binding_delete_def  Let_def case_prod_beta channel_call_def channel_close_def
      split: option.split sum.split reply.split pstate.split destination.split prod.split
        subscription.split consumerFunction.split consumer_result.split)

lemma Binding_delete_then_frame [simp]:
  "C_rebuilding (conn (Binding_delete_then b p w)) = C_rebuilding (conn w)"
  "C_initialized (conn (Binding_delete_then b p w)) = C_initialized (conn w)"
  "connect_requests (Binding_delete_then b p w) = connect_requests w"
  by (simp_all add: Binding_delete_then_def  Let_def case_prod_beta channel_call_def channel_close_def
      split: option.split sum.split reply.split pstate.split destination.split prod.split
        subscription.split consumerFunction.split consumer_result.split)

lemma Binding_unbind_callback_frame [simp]:
  "C_rebuilding (conn (Binding_unbind_callback b p r w)) = C_rebuilding (conn w)"
  "C_initialized (conn (Binding_unbind_callback b p r w)) = C_initialized (conn w)"
  "connect_requests (Binding_unbind_callback b p r w) = connect_requests w"
  by (simp_all add: Binding_unbind_callback_def  Let_def case_prod_beta channel_call_def channel_close_def
      split: option.split sum.split reply.split pstate.split destination.split prod.split
        subscription.split consumerFunction.split consumer_result.split)



lemma processedMsgConsumer_try_frame:
  "processedMsgConsumer_try rt q m w = Inl (err, w') \<Longrightarrow> conn w' = conn w \<and> requests w' = requests w"
  "processedMsgConsumer_try rt q m w = Inr w' \<Longrightarrow> conn w' = conn w \<and> requests w' = requests w"
  by (auto simp: processedMsgConsumer_try_def
      split: sum.splits option.splits consumer_result.splits if_splits prod.splits
      dest!: channel_call_frame)

lemma Queue_processedMsgConsumer_frame [simp]:
  "conn (Queue_processedMsgConsumer rt q msg w) = conn w"
  "requests (Queue_processedMsgConsumer rt q msg w) = requests w"
  by (auto simp: Queue_processedMsgConsumer_def consumer_error_def
      split: option.splits sum.splits prod.splits dest: processedMsgConsumer_try_frame)

lemma activateConsumerWrapper_try_frame:
  "activateConsumerWrapper_try rt q msg w = Inl (err, w') \<Longrightarrow> conn w' = conn w \<and> requests w' = requests w"
  "activateConsumerWrapper_try rt q msg w = Inr w' \<Longrightarrow> conn w' = conn w \<and> requests w' = requests w"
  by (auto simp: activateConsumerWrapper_try_def Let_def
      split: sum.splits option.splits consumer_result.splits if_splits prod.splits
      dest!: channel_call_frame)

lemma Queue_activateConsumerWrapper_frame [simp]:
  "conn (Queue_activateConsumerWrapper rt q msg w) = conn w"
  "requests (Queue_activateConsumerWrapper rt q msg w) = requests w"
  by (auto simp: Queue_activateConsumerWrapper_def consumer_error_def
      split: option.splits sum.splits prod.splits dest: activateConsumerWrapper_try_frame)


lemma removeBindingsContaining_step_frame [simp]:
  "C_rebuilding (conn (snd (removeBindingsContaining_step cp k acc))) = C_rebuilding (conn (snd acc))"
  "C_initialized (conn (snd (removeBindingsContaining_step cp k acc))) = C_initialized (conn (snd acc))"
  "connect_requests (snd (removeBindingsContaining_step cp k acc)) = connect_requests (snd acc)"
  by (simp_all add: removeBindingsContaining_step_def case_prod_beta Let_def split: option.split)

lemma removeBindingsContaining_fold_frame:
  "C_rebuilding (conn (snd (fold (removeBindingsContaining_step cp) ks acc))) = C_rebuilding (conn (snd acc)) \<and>
   C_initialized (conn (snd (fold (removeBindingsContaining_step cp) ks acc))) = C_initialized (conn (snd acc)) \<and>
   connect_requests (snd (fold (removeBindingsContaining_step cp) ks acc)) = connect_requests (snd acc)"
  by (induction ks arbitrary: acc) simp_all

lemma removeBindingsContaining_loop_frame [simp]:
  "C_rebuilding (conn (snd (removeBindingsContaining_loop cp ks w))) = C_rebuilding (conn w)"
  "C_initialized (conn (snd (removeBindingsContaining_loop cp ks w))) = C_initialized (conn w)"
  "connect_requests (snd (removeBindingsContaining_loop cp ks w)) = connect_requests w"
  using removeBindingsContaining_fold_frame [of cp ks "([], w)"]
  by (simp_all add: removeBindingsContaining_loop_def)

lemma Promise_all_frame3 [simp]:
  "C_rebuilding (conn (snd (Promise_all ps w))) = C_rebuilding (conn w)"
  "C_initialized (conn (snd (Promise_all ps w))) = C_initialized (conn w)"
  "connect_requests (snd (Promise_all ps w)) = connect_requests w"
  by simp_all

lemma Binding_removeBindingsContaining_frame [simp]:
  "C_rebuilding (conn (snd (Binding_removeBindingsContaining cp w))) = C_rebuilding (conn w)"
  "C_initialized (conn (snd (Binding_removeBindingsContaining cp w))) = C_initialized (conn w)"
  "connect_requests (snd (Binding_removeBindingsContaining cp w)) = connect_requests w"
  by (simp_all add: Binding_removeBindingsContaining_def case_prod_beta)

lemma Connection_completeConfiguration_frame [simp]:
  "C_rebuilding (conn (snd (Connection_completeConfiguration w))) = C_rebuilding (conn w)"
  "C_initialized (conn (snd (Connection_completeConfiguration w))) = C_initialized (conn w)"
  "connect_requests (snd (Connection_completeConfiguration w)) = connect_requests w"
  by (simp_all add: Connection_completeConfiguration_def  Let_def case_prod_beta channel_call_def channel_close_def
      split: option.split sum.split reply.split pstate.split destination.split prod.split
        subscription.split consumerFunction.split consumer_result.split)

lemma rebuildAll_exchange_frame [simp]:
  "C_rebuilding (conn (rebuildAll_exchange exchangeId w)) = C_rebuilding (conn w)"
  "C_initialized (conn (rebuildAll_exchange exchangeId w)) = C_initialized (conn w)"
  "connect_requests (rebuildAll_exchange exchangeId w) = connect_requests w"
  by (simp_all add: rebuildAll_exchange_def  Let_def case_prod_beta channel_call_def channel_close_def
      split: option.split sum.split reply.split pstate.split destination.split prod.split
        subscription.split consumerFunction.split consumer_result.split)

lemma rebuildAll_queue_frame [simp]:
  "C_rebuilding (conn (rebuildAll_queue queueId w)) = C_rebuilding (conn w)"
  "C_initialized (conn (rebuildAll_queue queueId w)) = C_initialized (conn w)"
  "connect_requests (rebuildAll_queue queueId w) = connect_requests w"
  by (simp_all add: rebuildAll_queue_def  Let_def case_prod_beta channel_call_def channel_close_def
      split: option.split sum.split reply.split pstate.split destination.split prod.split
        subscription.split consumerFunction.split consumer_result.split)

lemma rebuildAll_binding_frame [simp]:
  "C_rebuilding (conn (rebuildAll_binding bindingId w)) = C_rebuilding (conn w)"
  "C_initialized (conn (rebuildAll_binding bindingId w)) = C_initialized (conn w)"
  "connect_requests (rebuildAll_binding bindingId w) = connect_requests w"
  by (simp_all add: rebuildAll_binding_def  Let_def case_prod_beta channel_call_def channel_close_def
      split: option.split sum.split reply.split pstate.split destination.split prod.split
        subscription.split consumerFunction.split consumer_result.split)

lemma fold_rebuildAll_frame [simp]:
  "C_rebuilding (conn (fold rebuildAll_exchange ks w)) = C_rebuilding (conn w)"
  "C_initialized (conn (fold rebuildAll_exchange ks w)) = C_initialized (conn w)"
  "connect_requests (fold rebuildAll_exchange ks w) = connect_requests w"
  "C_rebuilding (conn (fold rebuildAll_queue ks w)) = C_rebuilding (conn w)"
  "C_initialized (conn (fold rebuildAll_queue ks w)) = C_initialized (conn w)"
  "connect_requests (fold rebuildAll_queue ks w) = connect_requests w"
  "C_rebuilding (conn (fold rebuildAll_binding ks w)) = C_rebuilding (conn w)"
  "C_initialized (conn (fold rebuildAll_binding ks w)) = C_initialized (conn w)"
  "connect_requests (fold rebuildAll_binding ks w) = connect_requests w"
  by (induction ks arbitrary: w) simp_all


lemma Connection_rebuildAll_then_frame [simp]:
  "C_rebuilding (conn (Connection_rebuildAll_then p s w)) = C_rebuilding (conn w)"
  "C_initialized (conn (Connection_rebuildAll_then p s w)) = C_initialized (conn w)"
  "connect_requests (Connection_rebuildAll_then p s w) = connect_requests w"
  by (simp_all add: Connection_rebuildAll_then_def  Let_def case_prod_beta channel_call_def channel_close_def
      split: option.split sum.split reply.split pstate.split destination.split prod.split
        subscription.split consumerFunction.split consumer_result.split)

lemma Exchange_retransmit_frame [simp]:
  "C_rebuilding (conn (Exchange_retransmit rt exchangeName content routingKey options w)) = C_rebuilding (conn w)"
  "C_initialized (conn (Exchange_retransmit rt exchangeName content routingKey options w)) = C_initialized (conn w)"
  "connect_requests (Exchange_retransmit rt exchangeName content routingKey options w) = connect_requests w"
  by (simp_all add: Exchange_retransmit_def Exchange_publish_def Let_def case_prod_beta channel_call_def channel_close_def
      split: option.split sum.split reply.split pstate.split destination.split prod.split
        subscription.split consumerFunction.split consumer_result.split)

lemma Exchange_rpc_frame [simp]:
  "C_rebuilding (conn (snd (Exchange_rpc e requestParameters routingKey w))) = C_rebuilding (conn w)"
  "C_initialized (conn (snd (Exchange_rpc e requestParameters routingKey w))) = C_initialized (conn w)"
  "connect_requests (snd (Exchange_rpc e requestParameters routingKey w)) = connect_requests w"
  by (simp_all add: Exchange_rpc_def  Let_def case_prod_beta channel_call_def channel_close_def
      split: option.split sum.split reply.split pstate.split destination.split prod.split
        subscription.split consumerFunction.split consumer_result.split)

lemma Exchange_rpc_reply_frame [simp]:
  "C_rebuilding (conn (Exchange_rpc_reply rt e p consumerTag msg w)) = C_rebuilding (conn w)"
  "C_initialized (conn (Exchange_rpc_reply rt e p consumerTag msg w)) = C_initialized (conn w)"
  "connect_requests (Exchange_rpc_reply rt e p consumerTag msg w) = connect_requests w"
  by (simp_all add: Exchange_rpc_reply_def  Let_def case_prod_beta channel_call_def channel_close_def
      split: option.split sum.split reply.split pstate.split destination.split prod.split
        subscription.split consumerFunction.split consumer_result.split)

lemma Queue_rpc_frame [simp]:
  "C_rebuilding (conn (snd (Queue_rpc q requestParameters w))) = C_rebuilding (conn w)"
  "C_initialized (conn (snd (Queue_rpc q requestParameters w))) = C_initialized (conn w)"
  "connect_requests (snd (Queue_rpc q requestParameters w)) = connect_requests w"
  by (simp_all add: Queue_rpc_def Queue_processRpc_def Let_def case_prod_beta channel_call_def channel_close_def
      split: option.split sum.split reply.split pstate.split destination.split prod.split
        subscription.split consumerFunction.split consumer_result.split)

lemma Queue_rpc_reply_frame [simp]:
  "C_rebuilding (conn (Queue_rpc_reply rt q p consumerTag msg w)) = C_rebuilding (conn w)"
  "C_initialized (conn (Queue_rpc_reply rt q p consumerTag msg w)) = C_initialized (conn w)"
  "connect_requests (Queue_rpc_reply rt q p consumerTag msg w) = connect_requests w"
  by (simp_all add: Queue_rpc_reply_def  Let_def case_prod_beta channel_call_def channel_close_def
      split: option.split sum.split reply.split pstate.split destination.split prod.split
        subscription.split consumerFunction.split consumer_result.split)

lemma Exchange_delete_frame [simp]:
  "C_rebuilding (conn (snd (Exchange_delete e w))) = C_rebuilding (conn w)"
  "C_initialized (conn (snd (Exchange_delete e w))) = C_initialized (conn w)"
  "connect_requests (snd (Exchange_delete e w)) = connect_requests w"
  by (simp_all add: Exchange_delete_def  Let_def case_prod_beta channel_call_def channel_close_def
      split: option.split sum.split reply.split pstate.split destination.split prod.split
        subscription.split consumerFunction.split consumer_result.split)

lemma Exchange_delete_then1_frame [simp]:
  "C_rebuilding (conn (Exchange_delete_then1 e p w)) = C_rebuilding (conn w)"
  "C_initialized (conn (Exchange_delete_then1 e p w)) = C_initialized (conn w)"
  "connect_requests (Exchange_delete_then1 e p w) = connect_requests w"
  by (simp_all add: Exchange_delete_then1_def  Let_def case_prod_beta channel_call_def channel_close_def
      split: option.split sum.split reply.split pstate.split destination.split prod.split
        subscription.split consumerFunction.split consumer_result.split)

lemma Exchange_delete_then2_frame [simp]:
  "C_rebuilding (conn (Exchange_delete_then2 e p w)) = C_rebuilding (conn w)"
  "C_initialized (conn (Exchange_delete_then2 e p w)) = C_initialized (conn w)"
  "connect_requests (Exchange_delete_then2 e p w) = connect_requests w"
  by (simp_all add: Exchange_delete_then2_def  Let_def case_prod_beta channel_call_def channel_close_def
      split: option.split sum.split reply.split pstate.split destination.split prod.split
        subscription.split consumerFunction.split consumer_result.split)

lemma Exchange_deleteExchange_callback_frame [simp]:
  "C_rebuilding (conn (Exchange_deleteExchange_callback e p r w)) = C_rebuilding (conn w)"
  "C_initialized (conn (Exchange_deleteExchange_callback e p r w)) = C_initialized (conn w)"
  "connect_requests (Exchange_deleteExchange_callback e p r w) = connect_requests w"
  by (simp_all add: Exchange_deleteExchange_callback_def  Let_def case_prod_beta channel_call_def channel_close_def
      split: option.split sum.split reply.split pstate.split destination.split prod.split
        subscription.split consumerFunction.split consumer_result.split)

lemma Exchange_invalidate_frame [simp]:
  "C_rebuilding (conn (Exchange_invalidate e w)) = C_rebuilding (conn w)"
  "C_initialized (conn (Exchange_invalidate e w)) = C_initialized (conn w)"
  "connect_requests (Exchange_invalidate e w) = connect_requests w"
  by (simp_all add: Exchange_invalidate_def  Let_def case_prod_beta channel_call_def channel_close_def
      split: option.split sum.split reply.split pstate.split destination.split prod.split
        subscription.split consumerFunction.split consumer_result.split)

lemma Exchange_delete_close_callback_frame [simp]:
  "C_rebuilding (conn (Exchange_delete_close_callback e p r w)) = C_rebuilding (conn w)"
  "C_initialized (conn (Exchange_delete_close_callback e p r w)) = C_initialized (conn w)"
  "connect_requests (Exchange_delete_close_callback e p r w) = connect_requests w"
  by (simp_all add: Exchange_delete_close_callback_def  Let_def case_prod_beta channel_call_def channel_close_def
      split: option.split sum.split reply.split pstate.split destination.split prod.split
        subscription.split consumerFunction.split consumer_result.split)

lemma Exchange_close_frame [simp]:
  "C_rebuilding (conn (snd (Exchange_close e w))) = C_rebuilding (conn w)"
  "C_initialized (conn (snd (Exchange_close e w))) = C_initialized (conn w)"
  "connect_requests (snd (Exchange_close e w)) = connect_requests w"
  by (simp_all add: Exchange_close_def  Let_def case_prod_beta channel_call_def channel_close_def
      split: option.split sum.split reply.split pstate.split destination.split prod.split
        subscription.split consumerFunction.split consumer_result.split)

lemma Exchange_close_then1_frame [simp]:
  "C_rebuilding (conn (Exchange_close_then1 e p w)) = C_rebuilding (conn w)"
  "C_initialized (conn (Exchange_close_then1 e p w)) = C_initialized (conn w)"
  "connect_requests (Exchange_close_then1 e p w) = connect_requests w"
  by (simp_all add: Exchange_close_then1_def  Let_def case_prod_beta channel_call_def channel_close_def
      split: option.split sum.split reply.split pstate.split destination.split prod.split
        subscription.split consumerFunction.split consumer_result.split)

lemma Exchange_close_then2_frame [simp]:
  "C_rebuilding (conn (Exchange_close_then2 e p w)) = C_rebuilding (conn w)"
  "C_initialized (conn (Exchange_close_then2 e p w)) = C_initialized (conn w)"
  "connect_requests (Exchange_close_then2 e p w) = connect_requests w"
  by (simp_all add: Exchange_close_then2_def  Let_def case_prod_beta channel_call_def channel_close_def
      split: option.split sum.split reply.split pstate.split destination.split prod.split
        subscription.split consumerFunction.split consumer_result.split)

lemma Exchange_close_callback_frame [simp]:
  "C_rebuilding (conn (Exchange_close_callback e p r w)) = C_rebuilding (conn w)"
  "C_initialized (conn (Exchange_close_callback e p r w)) = C_initialized (conn w)"
  "connect_requests (Exchange_close_callback e p r w) = connect_requests w"
  by (simp_all add: Exchange_close_callback_def  Let_def case_prod_beta channel_call_def channel_close_def
      split: option.split sum.split reply.split pstate.split destination.split prod.split
        subscription.split consumerFunction.split consumer_result.split)

lemma Queue_delete_frame [simp]:
  "C_rebuilding (conn (snd (Queue_delete q w))) = C_rebuilding (conn w)"
  "C_initialized (conn (snd (Queue_delete q w))) = C_initialized (conn w)"
  "connect_requests (snd (Queue_delete q w)) = connect_requests w"
  by (simp_all add: Queue_delete_def  Let_def case_prod_beta channel_call_def channel_close_def
      split: option.split sum.split reply.split pstate.split destination.split prod.split
        subscription.split consumerFunction.split consumer_result.split)

lemma Queue_delete_then1_frame [simp]:
  "C_rebuilding (conn (Queue_delete_then1 q p w)) = C_rebuilding (conn w)"
  "C_initialized (conn (Queue_delete_then1 q p w)) = C_initialized (conn w)"
  "connect_requests (Queue_delete_then1 q p w) = connect_requests w"
  by (simp_all add: Queue_delete_then1_def  Let_def case_prod_beta channel_call_def channel_close_def
      split: option.split sum.split reply.split pstate.split destination.split prod.split
        subscription.split consumerFunction.split consumer_result.split)

lemma Queue_delete_then2_frame [simp]:
  "C_rebuilding (conn (Queue_delete_then2 q p w)) = C_rebuilding (conn w)"
  "C_initialized (conn (Queue_delete_then2 q p w)) = C_initialized (conn w)"
  "connect_requests (Queue_delete_then2 q p w) = connect_requests w"
  by (simp_all add: Queue_delete_then2_def  Let_def case_prod_beta channel_call_def channel_close_def
      split: option.split sum.split reply.split pstate.split destination.split prod.split
        subscription.split consumerFunction.split consumer_result.split)

lemma Queue_invalidate_frame [simp]:
  "C_rebuilding (conn (Queue_invalidate q w)) = C_rebuilding (conn w)"
  "C_initialized (conn (Queue_invalidate q w)) = C_initialized (conn w)"
  "connect_requests (Queue_invalidate q w) = connect_requests w"
  by (simp_all add: Queue_invalidate_def  Let_def case_prod_beta channel_call_def channel_close_def
      split: option.split sum.split reply.split pstate.split destination.split prod.split
        subscription.split consumerFunction.split consumer_result.split)

lemma Queue_deleteQueue_callback_frame [simp]:
  "C_rebuilding (conn (Queue_deleteQueue_callback q p r w)) = C_rebuilding (conn w)"
  "C_initialized (conn (Queue_deleteQueue_callback q p r w)) = C_initialized (conn w)"
  "connect_requests (Queue_deleteQueue_callback q p r w) = connect_requests w"
  by (simp_all add: Queue_deleteQueue_callback_def  Let_def case_prod_beta channel_call_def channel_close_def
      split: option.split sum.split reply.split pstate.split destination.split prod.split
        subscription.split consumerFunction.split consumer_result.split)

lemma Queue_close_callback_frame [simp]:
  "C_rebuilding (conn (Queue_close_callback q p r w)) = C_rebuilding (conn w)"
  "C_initialized (conn (Queue_close_callback q p r w)) = C_initialized (conn w)"
  "connect_requests (Queue_close_callback q p r w) = connect_requests w"
  by (simp_all add: Queue_close_callback_def  Let_def case_prod_beta channel_call_def channel_close_def
      split: option.split sum.split reply.split pstate.split destination.split prod.split
        subscription.split consumerFunction.split consumer_result.split)

lemma Queue_close_frame [simp]:
  "C_rebuilding (conn (snd (Queue_close q w))) = C_rebuilding (conn w)"
  "C_initialized (conn (snd (Queue_close q w))) = C_initialized (conn w)"
  "connect_requests (snd (Queue_close q w)) = connect_requests w"
  by (simp_all add: Queue_close_def  Let_def case_prod_beta channel_call_def channel_close_def
      split: option.split sum.split reply.split pstate.split destination.split prod.split
        subscription.split consumerFunction.split consumer_result.split)

lemma Queue_close_then1_frame [simp]:
  "C_rebuilding (conn (Queue_close_then1 q p w)) = C_rebuilding (conn w)"
  "C_initialized (conn (Queue_close_then1 q p w)) = C_initialized (conn w)"
  "connect_requests (Queue_close_then1 q p w) = connect_requests w"
  by (simp_all add: Queue_close_then1_def  Let_def case_prod_beta channel_call_def channel_close_def
      split: option.split sum.split reply.split pstate.split destination.split prod.split
        subscription.split consumerFunction.split consumer_result.split)

lemma Queue_close_then2_frame [simp]:
  "C_rebuilding (conn (Queue_close_then2 q p w)) = C_rebuilding (conn w)"
  "C_initialized (conn (Queue_close_then2 q p w)) = C_initialized (conn w)"
  "connect_requests (Queue_close_then2 q p w) = connect_requests w"
  by (simp_all add: Queue_close_then2_def  Let_def case_prod_beta channel_call_def channel_close_def
      split: option.split sum.split reply.split pstate.split destination.split prod.split
        subscription.split consumerFunction.split consumer_result.split)

lemma deliver_frame [simp]:
  "C_rebuilding (conn (deliver rt sub msg w)) = C_rebuilding (conn w)"
  "C_initialized (conn (deliver rt sub msg w)) = C_initialized (conn w)"
  "connect_requests (deliver rt sub msg w) = connect_requests w"
  by (simp_all add: deliver_def  Let_def case_prod_beta channel_call_def channel_close_def
      split: option.split sum.split reply.split pstate.split destination.split prod.split
        subscription.split consumerFunction.split consumer_result.split)

subsection \<open>One rebuild in flight\<close>

text \<open>
  The functions that may call \<^verbatim>\<open>_rebuildAll\<close> keep the guard, the promise and the attempt in
  flight when a rebuild is already in progress, and establish the invariant otherwise.
\<close>

lemmas keeps_defs = keeps_rebuild_def rebuild_invariant_def rebuild_state_def


lemma Connection_rebuildConnection_keeps:
  assumes "keeps_rebuild c w"
  shows "keeps_rebuild c (snd (Connection_rebuildConnection w))"
proof (cases "C_rebuilding (conn w)")
  case True
  then show ?thesis
    using assms by (simp add: Connection_rebuildConnection_def keeps_defs)
next
  case False
  with assms have none: "connect_requests w = []" and c: "\<not> fst c"
    by (auto simp: keeps_defs)
  show ?thesis
    using False none c
    by (simp add: Connection_rebuildConnection_def Connection_tryToConnect_def Let_def
        case_prod_beta keeps_defs)
qed

lemma Connection_rebuildAll_keeps:
  assumes "keeps_rebuild c w"
  shows "keeps_rebuild c (snd (Connection_rebuildAll err w))"
proof -
  let ?w2 = "amqpts_log ''debug'' ''Rebuilding connection NOW.''
               (amqpts_log ''warn'' (''Connection error: '' @ message err) w)"
  have "keeps_rebuild c ?w2"
    using assms by (simp add: keeps_defs)
  from Connection_rebuildConnection_keeps [OF this]
  have "keeps_rebuild c (snd (Connection_rebuildConnection ?w2))" .
  then show ?thesis
    by (simp add: Connection_rebuildAll_def Let_def case_prod_beta keeps_defs)
qed

lemma Connection_rebuildAll_sets_guard:
  "C_rebuilding (conn (snd (Connection_rebuildAll err w)))"
  by (simp add: Connection_rebuildAll_def Let_def case_prod_beta Connection_rebuildConnection_def
      Connection_tryToConnect_def)

lemma Connection_restart_keeps:
  assumes "keeps_rebuild c w"
  shows "keeps_rebuild c (Connection_restart connection err w)"
proof (cases "connection \<in> set (listeners w)")
  case False
  then show ?thesis using assms by (simp add: Connection_restart_def)
next
  case True
  let ?w2 = "(amqpts_log ''debug'' ''Connection error occurred.'' w)
               \<lparr>listeners := removeAll connection
                   (listeners (amqpts_log ''debug'' ''Connection error occurred.'' w))\<rparr>"
  have "keeps_rebuild c ?w2" using assms by (simp add: keeps_defs)
  from Connection_rebuildAll_keeps [OF this, of err] True
  show ?thesis by (simp add: Connection_restart_def Let_def)
qed

lemma keeps_after_rebuildAll_then:
  assumes "keeps_rebuild c w" and "conn w1 = conn w" and "requests w1 = requests w"
  shows "keeps_rebuild c (Promise_then (fst (Connection_rebuildAll err w1)) cb
           (snd (Connection_rebuildAll err w1)))"
proof -
  have "keeps_rebuild c w1" using assms by (simp add: keeps_defs)
  from Connection_rebuildAll_keeps [OF this, of err]
  show ?thesis by (simp add: keeps_defs)
qed

lemma Exchange_publish_then_keeps:
  assumes "keeps_rebuild c w"
  shows "keeps_rebuild c (Exchange_publish_then e content routingKey options w)"
proof (cases "channel_call (E_channel (exchanges w e))
             (\<lambda>c. Publish c (E_name (exchanges w e)) routingKey (Some content) options) w")
  case (Inr w1)
  with assms channel_call_frame [OF Inr] show ?thesis
    by (simp add: Exchange_publish_then_def keeps_defs)
next
  case (Inl err)
  with keeps_after_rebuildAll_then [OF assms, of
      "amqpts_log ''warn'' (''Exchange publish error: '' @ message err) w" err]
  show ?thesis by (simp add: Exchange_publish_then_def Let_def case_prod_beta)
qed

lemma Queue_sendMessage_keeps:
  assumes "keeps_rebuild c w"
  shows "keeps_rebuild c (Queue_sendMessage q content options w)"
proof (cases "channel_call (Q_channel (queues w q))
             (\<lambda>c. SendToQueue c (Q_name (queues w q)) content options) w")
  case (Inr w1)
  with assms channel_call_frame [OF Inr] show ?thesis
    by (simp add: Queue_sendMessage_def keeps_defs)
next
  case (Inl err)
  with keeps_after_rebuildAll_then [OF assms, of
      "amqpts_log ''debug'' ''Try to rebuild connection, before Call.''
         (amqpts_log ''debug'' (''Queue publish error: '' @ message err) w)" err]
  show ?thesis by (simp add: Queue_sendMessage_def Let_def case_prod_beta)
qed

lemma Message_sendMessage_keeps:
  assumes "keeps_rebuild c w"
  shows "keeps_rebuild c (Message_sendMessage m d exchange routingKey w)"
proof (cases "channel_call (destination_channel d w)
             (\<lambda>c. Publish c exchange routingKey (M_content m) (M_properties m)) w")
  case (Inr w1)
  with assms channel_call_frame [OF Inr] show ?thesis
    by (simp add: Message_sendMessage_def keeps_defs)
next
  case (Inl err)
  with keeps_after_rebuildAll_then [OF assms, of
      "amqpts_log ''debug'' ''Try to rebuild connection, before Call.''
         (amqpts_log ''debug'' (''Publish error: '' @ message err) w)" err]
  show ?thesis by (simp add: Message_sendMessage_def Let_def case_prod_beta)
qed

lemma keeps_rebuild_Promise_then [simp]:
  "keeps_rebuild c (Promise_then p cb w) = keeps_rebuild c w"
  by (simp add: keeps_defs)

lemma keeps_rebuild_amqpts_log [simp]:
  "keeps_rebuild c (amqpts_log level text w) = keeps_rebuild c w"
  by (simp add: keeps_defs)

lemma Exchange_publish_keeps:
  assumes "keeps_rebuild c w" and "Exchange_publish rt e content routingKey options w = Inr w'"
  shows "keeps_rebuild c w'"
  using assms
  by (auto simp: Exchange_publish_def keeps_defs split: sum.splits option.splits prod.splits)

lemma Queue_publish_keeps:
  assumes "keeps_rebuild c w" and "Queue_publish rt q content options w = Inr w'"
  shows "keeps_rebuild c w'"
  using assms
  by (auto simp: Queue_publish_def Queue_sendMessage_keeps
      split: sum.splits option.splits prod.splits if_splits)

lemma Message_sendTo_keeps:
  assumes "keeps_rebuild c w" and "Message_sendTo m d routingKey w = Inr w'"
  shows "keeps_rebuild c w'"
  using assms
  by (auto simp: Message_sendTo_def Let_def Message_sendMessage_keeps
      split: option.splits if_splits)

lemma Queue_retransmit_keeps:
  assumes "keeps_rebuild c w"
  shows "keeps_rebuild c (Queue_retransmit rt queueName content options w)"
proof -
  have k: "keeps_rebuild c (amqpts_log ''debug'' ''Retransmitting message.'' w)"
    using assms by (simp add: keeps_defs)
  show ?thesis
    using k Queue_publish_keeps [OF k]
    by (simp add: Queue_retransmit_def Let_def split: option.split sum.split)
qed

lemma Exchange_retransmit_keeps:
  assumes "keeps_rebuild c w"
  shows "keeps_rebuild c (Exchange_retransmit rt exchangeName content routingKey options w)"
  using assms by (simp add: keeps_defs)

lemma Message_retransmit_keeps:
  assumes "keeps_rebuild c w"
  shows "keeps_rebuild c (Message_retransmit rt m d destinationName routingKey w)"
proof -
  have k: "keeps_rebuild c (amqpts_log ''debug'' ''Retransmitting message.'' w)"
    using assms by (simp add: keeps_defs)
  show ?thesis
    using k Queue_publish_keeps [OF k] Exchange_publish_keeps [OF k]
    by (simp add: Message_retransmit_def Let_def split: option.split sum.split destination.split)
qed

lemma Exchange_rpc_consume_callback_keeps:
  assumes "keeps_rebuild c w"
  shows "keeps_rebuild c (Exchange_rpc_consume_callback rt ch e p requestParameters routingKey r w)"
proof (cases r)
  case (Failed err)
  then show ?thesis using assms
    by (simp add: Exchange_rpc_consume_callback_def keeps_defs)
next
  case (Succeeded consumerTag)
  have k: "keeps_rebuild c (w\<lparr>subscriptions := subscriptions w @ [SubExchangeRpc ch e p consumerTag]\<rparr>)"
    using assms by (simp add: keeps_defs)
  show ?thesis
    using Succeeded k Message_sendTo_keeps [OF k]
    by (simp add: Exchange_rpc_consume_callback_def Let_def split: sum.split)
qed

lemma Queue_rpc_consume_callback_keeps:
  assumes "keeps_rebuild c w"
  shows "keeps_rebuild c (Queue_rpc_consume_callback rt ch q p requestParameters r w)"
proof (cases r)
  case (Failed err)
  then show ?thesis using assms
    by (simp add: Queue_rpc_consume_callback_def keeps_defs)
next
  case (Succeeded consumerTag)
  have k: "keeps_rebuild c (w\<lparr>subscriptions := subscriptions w @ [SubQueueRpc ch q p consumerTag]\<rparr>)"
    using assms by (simp add: keeps_defs)
  show ?thesis
    using Succeeded k Queue_publish_keeps [OF k]
    by (simp add: Queue_rpc_consume_callback_def Let_def split: sum.split)
qed


lemma Queue_processRpc_keeps:
  assumes "keeps_rebuild c w" and "Queue_processRpc q p requestParameters w = Inr w'"
  shows "keeps_rebuild c w'"
  using assms
  by (auto simp: Queue_processRpc_def keeps_defs split: sum.splits dest!: channel_call_frame)

lemma run_fulfilled_keeps:
  assumes "keeps_rebuild c w"
  shows "keeps_rebuild c (run_fulfilled rt cb w)"
proof (cases cb)
  case (CbQueueProcessRpc q p requestParameters)
  with assms Queue_processRpc_keeps [OF assms] show ?thesis
    by (simp add: run_fulfilled_def split: sum.split)
qed (use assms in \<open>simp_all add: run_fulfilled_def Exchange_publish_then_keeps
      Exchange_retransmit_keeps Queue_sendMessage_keeps Queue_retransmit_keeps
      Message_sendMessage_keeps Message_retransmit_keeps\<close>,
    simp_all add: keeps_defs)

lemma run_callback_keeps:
  assumes "keeps_rebuild c w"
  shows "keeps_rebuild c (run_callback rt cb s w)"
proof (cases s)
  case (Fulfilled v)
  with run_fulfilled_keeps [OF assms, of rt cb] assms show ?thesis
    by (cases cb) (simp_all add: run_callback_def, simp_all add: keeps_defs)
next
  case Pending
  with assms show ?thesis
    by (cases cb) (simp_all add: run_callback_def, simp_all add: keeps_defs)
next
  case (Rejected err)
  with assms show ?thesis
    by (cases cb) (simp_all add: run_callback_def, simp_all add: keeps_defs)
qed

lemma call_keeps:
  assumes "keeps_rebuild c w"
  shows "keeps_rebuild c (call rt a w)"
proof (cases a)
  case (ExchangePublish e content routingKey options)
  with assms Exchange_publish_keeps [OF assms] show ?thesis
    by (simp add: call_def split: sum.split)
next
  case (QueuePublish q content options)
  with assms Queue_publish_keeps [OF assms] show ?thesis
    by (simp add: call_def split: sum.split)
next
  case (Send m d routingKey)
  with assms Message_sendTo_keeps [OF assms] show ?thesis
    by (simp add: call_def split: sum.split)
next
  case (RebuildAll err)
  with Connection_rebuildAll_keeps [OF assms] show ?thesis
    by (simp add: call_def)
qed (use assms in \<open>simp_all add: call_def keeps_defs\<close>)

lemma handle_request_keeps:
  assumes "keeps_rebuild c w" and "\<not> is_connect_request req"
  shows "keeps_rebuild c (handle_request rt req r w)"
proof (cases req)
  case (ReqExchangeRpcConsume ch e p requestParameters routingKey)
  with Exchange_rpc_consume_callback_keeps [OF assms(1)] show ?thesis
    by (simp add: handle_request_def)
next
  case (ReqQueueRpcConsume ch q p requestParameters)
  with Queue_rpc_consume_callback_keeps [OF assms(1)] show ?thesis
    by (simp add: handle_request_def)
qed (use assms in \<open>simp_all add: handle_request_def keeps_defs\<close>)


lemma filter_remove_other:
  assumes "i < length xs" and "\<not> P (xs ! i)"
  shows "filter P (take i xs @ drop (Suc i) xs) = filter P xs"
proof -
  have "filter P xs = filter P (take i xs @ xs ! i # drop (Suc i) xs)"
    using assms(1) by (simp add: id_take_nth_drop [symmetric])
  with assms(2) show ?thesis by simp
qed

lemma filter_remove_only:
  assumes "i < length xs" and "P (xs ! i)" and "length (filter P xs) \<le> 1"
  shows "filter P (take i xs @ drop (Suc i) xs) = [] \<and> filter P xs = [xs ! i]"
proof -
  have "filter P xs = filter P (take i xs @ xs ! i # drop (Suc i) xs)"
    using assms(1) by (simp add: id_take_nth_drop [symmetric])
  then have eq: "filter P xs = filter P (take i xs) @ xs ! i # filter P (drop (Suc i) xs)"
    using assms(2) by simp
  with assms(3) have "filter P (take i xs) = []" and "filter P (drop (Suc i) xs) = []"
    by auto
  with eq show ?thesis by simp
qed

lemma rebuild_invariant_length:
  assumes "rebuild_invariant w"
  shows "length (connect_requests w) \<le> 1"
proof -
  have "length (connect_requests w) = length (map connect_promise (connect_requests w))"
    by simp
  also have "\<dots> \<le> 1" using assms by (simp only: rebuild_invariant_def) simp
  finally show ?thesis .
qed

lemma rebuild_invariant_guard:
  assumes "rebuild_invariant w"
  shows "C_rebuilding (conn w) = (connect_requests w \<noteq> [])"
proof -
  have "(connect_requests w \<noteq> []) = (map connect_promise (connect_requests w) \<noteq> [])"
    by simp
  also have "\<dots> = C_rebuilding (conn w)" using assms by (simp only: rebuild_invariant_def) simp
  finally show ?thesis by simp
qed

lemma step_keeps:
  assumes "keeps_rebuild c w" and "\<not> connect_event ev w"
  shows "keeps_rebuild c (step rt ev w)"
proof (cases ev)
  case (Call a)
  with call_keeps [OF assms(1)] show ?thesis by (simp add: step_def)
next
  case (Callback i r)
  show ?thesis
  proof (cases "i < length (requests w)")
    case False
    with Callback assms(1) show ?thesis by (simp add: step_def)
  next
    case True
    with assms(2) Callback have other: "\<not> is_connect_request (requests w ! i)"
      by (simp add: connect_event_def)
    have "keeps_rebuild c (w\<lparr>requests := take i (requests w) @ drop (Suc i) (requests w)\<rparr>)"
      using assms(1) filter_remove_other [of i "requests w" is_connect_request, OF True other] by (simp add: keeps_defs)
    from handle_request_keeps [OF this other] Callback True show ?thesis
      by (simp add: step_def)
  qed
next
  case Job
  show ?thesis
  proof (cases "jobs w")
    case Nil
    with Job assms(1) show ?thesis by (simp add: step_def)
  next
    case (Cons j js)
    have "keeps_rebuild c (w\<lparr>jobs := js\<rparr>)"
      using assms(1) by (simp add: keeps_defs)
    from run_callback_keeps [OF this] Job Cons show ?thesis
      by (simp add: step_def split: prod.split)
  qed
next
  case (Delivery i msg)
  have "keeps_rebuild c (deliver rt sub msg w) = keeps_rebuild c w" for sub
    by (simp add: keeps_defs)
  with assms(1) Delivery show ?thesis by (simp add: step_def)
next
  case (ConnectionError connection err)
  with Connection_restart_keeps [OF assms(1)] show ?thesis by (simp add: step_def)
next
  case (ChannelDropped ch)
  have "keeps_rebuild c (w\<lparr>closed := (closed w)(ch := True)\<rparr>) = keeps_rebuild c w"
    by (simp add: keeps_defs)
  with assms(1) ChannelDropped show ?thesis by (simp add: step_def)
qed

lemma step_connect:
  assumes inv: "rebuild_invariant w" and ev: "connect_event ev w"
  shows "rebuild_invariant (step rt ev w) \<and>
         C_rebuilding (conn (step rt ev w)) = (\<not> connect_settles ev w)"
proof -
  from ev obtain i r where Callback: "ev = Callback i r" and i: "i < length (requests w)"
    and req: "is_connect_request (requests w ! i)"
    by (cases ev) (simp_all add: connect_event_def)
  let ?w0 = "w\<lparr>requests := take i (requests w) @ drop (Suc i) (requests w)\<rparr>"
  from filter_remove_only [of i "requests w" is_connect_request, OF i req rebuild_invariant_length [OF inv]]
  have none: "connect_requests ?w0 = []" and one: "connect_requests w = [requests w ! i]"
    by simp_all
  from one inv have guard: "C_rebuilding (conn w)"
    and p: "C_initialized (conn w) = connect_promise (requests w ! i)"
    by (simp_all add: rebuild_invariant_def split: if_splits)
  from req show ?thesis
  proof (cases "requests w ! i")
    case (ReqTimeout retry q)
    with Callback i none guard p show ?thesis
      by (simp add: step_def handle_request_def Connection_tryToConnect_def
          rebuild_invariant_def connect_settles_def)
  next
    case (ReqConnect retry q)
    show ?thesis
    proof (cases r)
      case (Succeeded ok)
      with ReqConnect Callback i none guard p show ?thesis
        by (simp add: step_def handle_request_def Connection_tryToConnect_callback_def
            Connection_rebuildConnection_callback_def alloc_def Let_def case_prod_beta
            rebuild_invariant_def connect_settles_def)
    next
      case (Failed err)
      with ReqConnect Callback i none guard p show ?thesis
        by (simp add: step_def handle_request_def Connection_tryToConnect_callback_def
            Connection_rebuildConnection_callback_def Let_def
            rebuild_invariant_def connect_settles_def)
    qed
  qed simp_all
qed

lemma connect_settles_connect_event:
  "connect_settles ev w \<Longrightarrow> connect_event ev w"
  by (auto simp: connect_settles_def connect_event_def split: event.splits request.splits)

lemma step_invariant:
  assumes "rebuild_invariant w"
  shows "rebuild_invariant (step rt ev w)"
proof (cases "connect_event ev w")
  case True
  with step_connect [OF assms] show ?thesis by simp
next
  case False
  have "keeps_rebuild (False, None, []) w" using assms by (simp add: keeps_rebuild_def)
  from step_keeps [OF this False] show ?thesis by (simp add: keeps_rebuild_def)
qed

lemma step_guard:
  assumes "rebuild_invariant w" and "C_rebuilding (conn w)"
  shows "C_rebuilding (conn (step rt ev w)) = (\<not> connect_settles ev w)"
proof (cases "connect_event ev w")
  case True
  with step_connect [OF assms(1)] show ?thesis by simp
next
  case False
  have "keeps_rebuild (rebuild_state w) w" using assms by (simp add: keeps_rebuild_def)
  from step_keeps [OF this False] assms(2) False connect_settles_connect_event [of ev w]
  show ?thesis by (auto simp: keeps_rebuild_def rebuild_state_def)
qed

lemma new_Connection_invariant:
  "rebuild_invariant (new_Connection url rs)"
  by (simp add: new_Connection_def Connection_rebuildConnection_def Connection_tryToConnect_def
      empty_world_def Let_def case_prod_beta rebuild_invariant_def)

lemma run_invariant:
  assumes "rebuild_invariant w"
  shows "rebuild_invariant (run rt evs w)"
  using assms unfolding run_def
  by (induction evs arbitrary: w) (simp_all add: step_invariant)

text \<open>
  Claim C1. In every state that a connection reaches from its construction, at most one
  connect attempt is in flight, and the guard \<^verbatim>\<open>_rebuilding\<close> is set exactly while there is
  one; \<^verbatim>\<open>_rebuildAll\<close> leaves the guard set. While the guard is set, a call of
  \<^verbatim>\<open>rebuildConnection\<close> returns the \<^verbatim>\<open>initialized\<close> promise that the attempt in flight will
  settle, and starts nothing: connection, outstanding callbacks and the calls made to
  amqplib are as before. The next event clears the guard exactly when it settles the
  connect attempt: amqplib hands over a connection, or reports an error when no retry is
  left. So no other event clears it, in particular not the reactions that complete the
  rebuild of the topology.
\<close>

theorem one_rebuild_in_flight:
  assumes "w = run rt evs (new_Connection url rs)"
  shows "length (connect_requests w) \<le> 1 \<and>
         C_rebuilding (conn w) = (connect_requests w \<noteq> []) \<and>
         C_rebuilding (conn (snd (Connection_rebuildAll err w))) \<and>
         (C_rebuilding (conn w) \<longrightarrow>
            map connect_promise (connect_requests w) = [fst (Connection_rebuildConnection w)] \<and>
            fst (Connection_rebuildConnection w) = C_initialized (conn w) \<and>
            conn (snd (Connection_rebuildConnection w)) = conn w \<and>
            requests (snd (Connection_rebuildConnection w)) = requests w \<and>
            trace (snd (Connection_rebuildConnection w)) = trace w \<and>
            C_rebuilding (conn (step rt ev w)) = (\<not> connect_settles ev w))"
proof -
  have inv: "rebuild_invariant w"
    unfolding assms by (rule run_invariant) (rule new_Connection_invariant)
  have joined: "map connect_promise (connect_requests w) = [fst (Connection_rebuildConnection w)]"
    and same: "fst (Connection_rebuildConnection w) = C_initialized (conn w)"
    and frame: "conn (snd (Connection_rebuildConnection w)) = conn w"
      "requests (snd (Connection_rebuildConnection w)) = requests w"
      "trace (snd (Connection_rebuildConnection w)) = trace w"
    if "C_rebuilding (conn w)"
    using that inv
    by (simp_all add: Connection_rebuildConnection_def rebuild_invariant_def amqpts_log_def)
  from rebuild_invariant_length [OF inv] rebuild_invariant_guard [OF inv]
    Connection_rebuildAll_sets_guard [of err w] joined same frame step_guard [OF inv, of rt ev]
  show ?thesis by blast
qed

text \<open>
  The connection of the exchange \<^verbatim>\<open>e1\<close> has emitted \<^verbatim>\<open>error\<close>: the guard is set, the connect
  attempt for promise 5 is in flight and \<^verbatim>\<open>rebuildConnection\<close> returns promise 5 and adds no
  attempt. When amqplib hands over the new connection the guard is cleared, while the
  promise 7 that \<^verbatim>\<open>_rebuildAll\<close> returned is still pending.
\<close>

theorem one_rebuild_in_flight_witness:
  "C_rebuilding (conn (run example_runtime exchange_rebuilding_events local_world)) \<and>
   connect_requests (run example_runtime exchange_rebuilding_events local_world) = [ReqConnect 0 5] \<and>
   fst (Connection_rebuildConnection (run example_runtime exchange_rebuilding_events local_world)) = Some 5 \<and>
   requests (snd (Connection_rebuildConnection (run example_runtime exchange_rebuilding_events local_world))) =
     [ReqConnect 0 5] \<and>
   \<not> C_rebuilding (conn (step example_runtime (Callback 0 (Succeeded []))
         (run example_runtime exchange_rebuilding_events local_world))) \<and>
   P_state (promises (step example_runtime (Callback 0 (Succeeded []))
         (run example_runtime exchange_rebuilding_events local_world)) 7) = Pending"
proof -
  let ?w = "run example_runtime exchange_rebuilding_events local_world"
  have w: "C_rebuilding (conn ?w)" "C_initialized (conn ?w) = Some 5"
    "C_connectedBefore (conn ?w)" "requests ?w = [ReqConnect 0 5]"
    "P_state (promises ?w 7) = Pending"
    by (simp_all add: world_defs registry_simps Let_def local_world_def
        exchange_rebuilding_events_def exchange_initialized_events_def cong: let_weak_cong)
  have settled: "connect_settles (Callback 0 (Succeeded [])) ?w"
    by (simp add: connect_settles_def w)
  have pending:
    "P_state (promises (step example_runtime (Callback 0 (Succeeded [])) ?w) 7) = Pending"
    by (simp add: step_def handle_request_def Connection_tryToConnect_callback_def
        Connection_rebuildConnection_callback_def alloc_def settle_def amqpts_log_def Let_def w)
  have "?w = run example_runtime exchange_rebuilding_events
               (new_Connection ''amqp://localhost'' \<lparr>retries = 0, interval = 1500\<rparr>)"
    by (simp only: local_world_def)
  from one_rebuild_in_flight [OF this, where ev = "Callback 0 (Succeeded [])"
      and err = "Error []"] settled w(1)
  have "fst (Connection_rebuildConnection ?w) = C_initialized (conn ?w)"
    and "requests (snd (Connection_rebuildConnection ?w)) = requests ?w"
    and "\<not> C_rebuilding (conn (step example_runtime (Callback 0 (Succeeded [])) ?w))"
    by blast+
  with w pending show ?thesis by simp
qed

end
